theory Spec2Isabelle
  imports Main "HOL-Library.Word"
begin

unbundle bit_operations_syntax

section \<open>Data model (include/globals.h, include/opcode_definitions.h)\<close>

text \<open>
  The C type \<open>int\<close> is modelled by \<open>int\<close>; every conversion to \<open>unsigned int\<close>
  is written out with \<open>word_of_int\<close> into \<open>32 word\<close>, which wraps as the conversion does.
  Pointers to strings are \<open>string option\<close> where the code tests them against \<open>NULL\<close>.
  The growable arrays of the translation unit are lists; \<open>handle_memory_allocation_failure\<close>
  ends the process, so the allocation-failure branches never return and are left out.
  Diagnostics printed on \<open>stderr\<close> do not influence any result and are left out as well;
  the error flags the functions return are kept.
\<close>

type_synonym uint = "32 word"

datatype ARE = ABSOLUTE | EXTERNAL | RELOCATABLE

fun are_val :: "ARE \<Rightarrow> uint" where
  "are_val ABSOLUTE = 0"
| "are_val EXTERNAL = 1"
| "are_val RELOCATABLE = 2"

datatype Register = R0 | R1 | R2 | R3 | R4 | R5 | R6 | R7 | NONE_REG

fun reg_val :: "Register \<Rightarrow> int" where
  "reg_val R0 = 0" | "reg_val R1 = 1" | "reg_val R2 = 2" | "reg_val R3 = 3"
| "reg_val R4 = 4" | "reg_val R5 = 5" | "reg_val R6 = 6" | "reg_val R7 = 7"
| "reg_val NONE_REG = -1"

datatype AddressingType =
  IMMEDIATE_ADDR | DIRECT_ADDR | FIXED_IDX_ADDR | DIRECT_REGISTER_ADDR | NONE_ADDR

fun addr_val :: "AddressingType \<Rightarrow> int" where
  "addr_val IMMEDIATE_ADDR = 0"
| "addr_val DIRECT_ADDR = 1"
| "addr_val FIXED_IDX_ADDR = 2"
| "addr_val DIRECT_REGISTER_ADDR = 3"
| "addr_val NONE_ADDR = -1"

datatype LineType =
  EMPTY | COMMENT | DIRECTIVE_INSTRUCTION | COMMAND_INSTRUCTION | CONSTANT_DEF_INSTRUCTION
  | INIT_VAL

datatype DirectiveType = DATA_INST | STRING_INST | ENTRY_INST | EXTERN_INST | NONE_DIR

datatype Opcode =
  MOV_OP | CMP_OP | ADD_OP | SUB_OP | LEA_OP | NOT_OP | CLR_OP | INC_OP | DEC_OP | JMP_OP
  | BNE_OP | RED_OP | PRN_OP | JSR_OP | RTS_OP | HLT_OP | NONE_OP

fun opcode_val :: "Opcode \<Rightarrow> int" where
  "opcode_val MOV_OP = 0" | "opcode_val CMP_OP = 1" | "opcode_val ADD_OP = 2"
| "opcode_val SUB_OP = 3" | "opcode_val LEA_OP = 6" | "opcode_val NOT_OP = 4"
| "opcode_val CLR_OP = 5" | "opcode_val INC_OP = 7" | "opcode_val DEC_OP = 8"
| "opcode_val JMP_OP = 9" | "opcode_val BNE_OP = 10" | "opcode_val RED_OP = 11"
| "opcode_val PRN_OP = 12" | "opcode_val JSR_OP = 13" | "opcode_val RTS_OP = 14"
| "opcode_val HLT_OP = 15" | "opcode_val NONE_OP = -1"

datatype OpcodeCategory = TWO_OPERANDS | ONE_OPERAND | NO_OPERANDS | NONE_CATEGORY

datatype OperandType = SOURCE_OPERAND | TARGET_OPERAND

record FixedIndexAddressing =
  labelName :: string
  numericalAddressingIndex :: int
  constantAddressingIndex :: "string option"

record ImmediateAddressing =
  integerVal :: int
  constantVal :: "string option"

text \<open>
  \<open>Operand\<close> is a C union. The code reads the member that the addressing type of the
  operand selects and no other, so the union is a record with one field per member.
\<close>

record Operand =
  immediateValue :: ImmediateAddressing
  addressingLabel :: string
  fixedIndexOperand :: FixedIndexAddressing
  reg :: Register

record CommandInstruction =
  opcodeCommand :: Opcode
  numOfOperands :: OpcodeCategory
  sourceOperand :: Operand
  targetOperand :: Operand
  sourceOperandAddressingType :: AddressingType
  targetOperandAddressingType :: AddressingType

record ConstantDefinitionInstruction =
  constName :: string
  constValue :: int

text \<open>
  \<open>InstructionType\<close> and \<open>DirectiveInstructionUnion\<close> are unions too. The members
  \<open>entryInst.entryName\<close> and \<open>externInst.externName\<close> share their storage, and the first
  pass reads the name of an \<open>.extern\<close> line through \<open>entryInst.entryName\<close>; the two
  are therefore the one field \<open>entryName\<close>. \<open>dataInst.data\<close> with \<open>dataCount\<close> is the
  list \<open>dataInst\<close>.
\<close>

record AbstractLineDescriptor =
  lineError :: "string option"
  lineLabelName :: "string option"
  lineType :: LineType
  dirType :: DirectiveType
  dataInst :: "int list"
  stringInst :: string
  entryName :: string
  commandInst :: CommandInstruction
  constDefInst :: ConstantDefinitionInstruction

datatype SymbolType =
  NON_SYMBOL | CODE_LABEL | DATA_LABEL | TEMP_ENTRY_LABEL | EXTERN_LABEL | ENTRY_CODE_LABEL
  | ENTRY_DATA_LABEL | DEFINED_CONSTANT

record Symbol =
  symbolName :: string
  symbolType :: SymbolType
  address :: int

record ExternalSymbolInfo =
  externalName :: string
  addresses :: int

text \<open>
  \<open>codeImage\<close> holds the cells \<open>[0, IC)\<close> of the C array and \<open>dataImage\<close> the cells
  \<open>[0, DC)\<close>; the counters are fields of their own because the code assigns them.
  \<open>symCount\<close>, \<open>extCount\<close>, \<open>entriesCount\<close> and \<open>constantsCount\<close> are the lengths of
  their lists: the code only ever writes at the count and then increments it.
\<close>

record TranslationUnit =
  codeImage :: "uint list"
  IC :: nat
  dataImage :: "uint list"
  DC :: nat
  symbolTable :: "Symbol list"
  externalsList :: "ExternalSymbolInfo list"
  entryList :: "Symbol list"
  constantList :: "ConstantDefinitionInstruction list"

record AbstractProgram =
  lines :: "AbstractLineDescriptor list"
  progSize :: nat

definition MAX_SYMBOL_LENGTH :: nat where "MAX_SYMBOL_LENGTH = 31"
definition IC_INIT_VALUE :: nat where "IC_INIT_VALUE = 100"

definition initialize_translation_unit :: TranslationUnit where
  "initialize_translation_unit =
     \<lparr>codeImage = [], IC = 0, dataImage = [], DC = 0, symbolTable = [], externalsList = [],
      entryList = [], constantList = []\<rparr>"

definition initialize_abstract_program :: AbstractProgram where
  "initialize_abstract_program = \<lparr>lines = [], progSize = 0\<rparr>"

section \<open>Second pass (middle_end/second_pass)\<close>

subsection \<open>second_pass_utilities.c\<close>

definition insert_machine_word :: "TranslationUnit \<Rightarrow> uint \<Rightarrow> TranslationUnit" where
  "insert_machine_word trUnit machineWord =
     trUnit\<lparr>codeImage := take (IC trUnit) (codeImage trUnit) @ [machineWord],
            IC := IC trUnit + 1\<rparr>"

fun extract_constant :: "string \<Rightarrow> ConstantDefinitionInstruction list \<Rightarrow> int option" where
  "extract_constant cName [] = None"
| "extract_constant cName (c # cs) =
     (if constName c = cName then Some (constValue c) else extract_constant cName cs)"

definition two_complement_validation :: "int \<Rightarrow> bool" where
  "two_complement_validation v = (\<not> (v < -2048 \<or> v > 2047))"

definition updateExternTable :: "TranslationUnit \<Rightarrow> string \<Rightarrow> TranslationUnit" where
  "updateExternTable trUnit lName =
     trUnit\<lparr>externalsList := externalsList trUnit
               @ [\<lparr>externalName = lName, addresses = int (IC trUnit)\<rparr>]\<rparr>"

fun find_symbol :: "string \<Rightarrow> Symbol list \<Rightarrow> Symbol option" where
  "find_symbol lName [] = None"
| "find_symbol lName (s # ss) =
     (if symbolName s = lName then Some s else find_symbol lName ss)"

text \<open>
  \<open>find_label_addressing\<close> walks the symbol table as \<open>find_symbol\<close> does and stops at
  the first symbol of that name. The result is \<open>None\<close> for \<open>FALSE\<close> and the pair of the
  out-parameters \<open>theAddress\<close>, \<open>whichARE\<close> for \<open>TRUE\<close>.
\<close>

definition find_label_addressing ::
  "string \<Rightarrow> TranslationUnit \<Rightarrow> (uint \<times> ARE) option \<times> TranslationUnit" where
  "find_label_addressing lName tu =
     (case find_symbol lName (symbolTable tu) of
        None \<Rightarrow> (None, tu)
      | Some s \<Rightarrow>
          (Some (if symbolType s = EXTERN_LABEL then 0 else word_of_int (address s),
                 if symbolType s = EXTERN_LABEL then EXTERNAL else RELOCATABLE),
           if symbolType s = EXTERN_LABEL then updateExternTable tu lName else tu))"

definition is_null_or_empty :: "string option \<Rightarrow> bool" where
  "is_null_or_empty p = (p = None \<or> p = Some [])"

definition get_addressing_index :: "FixedIndexAddressing \<Rightarrow> TranslationUnit \<Rightarrow> uint option" where
  "get_addressing_index fixedIdxOperand tu =
     (if is_null_or_empty (constantAddressingIndex fixedIdxOperand)
      then Some (word_of_int (numericalAddressingIndex fixedIdxOperand))
      else (case extract_constant (the (constantAddressingIndex fixedIdxOperand)) (constantList tu) of
              None \<Rightarrow> None
            | Some tempIndex \<Rightarrow> if tempIndex < 0 then None else Some (word_of_int tempIndex)))"

subsection \<open>second_pass.c\<close>

text \<open>The encoders return the pair of their error flag (\<open>True\<close> for an error) and the
  translation unit.\<close>

definition firs_machine_word_encoding :: "CommandInstruction \<Rightarrow> TranslationUnit \<Rightarrow> TranslationUnit" where
  "firs_machine_word_encoding cmd tu =
     (let srcOperand = (if sourceOperandAddressingType cmd = NONE_ADDR then 0
                        else word_of_int (addr_val (sourceOperandAddressingType cmd)) :: uint);
          tgtOperand = (if targetOperandAddressingType cmd = NONE_ADDR then 0
                        else word_of_int (addr_val (targetOperandAddressingType cmd)) :: uint);
          firstWord = (0 :: uint) OR word_of_int (opcode_val (opcodeCommand cmd) * 2 ^ 6);
          firstWord = firstWord OR push_bit 4 srcOperand;
          firstWord = firstWord OR push_bit 2 tgtOperand
      in insert_machine_word tu firstWord)"

definition double_direct_register_encoding :: "CommandInstruction \<Rightarrow> TranslationUnit \<Rightarrow> TranslationUnit" where
  "double_direct_register_encoding cmd tu =
     insert_machine_word tu
       ((0 :: uint) OR (word_of_int (reg_val (reg (sourceOperand cmd)) * 2 ^ 5)
                        OR word_of_int (reg_val (reg (targetOperand cmd)) * 2 ^ 2)))"

definition encode_immediate_addressing :: "ImmediateAddressing \<Rightarrow> TranslationUnit \<Rightarrow> bool \<times> TranslationUnit" where
  "encode_immediate_addressing immAddressing tu =
     (case (if is_null_or_empty (constantVal immAddressing) then Some (integerVal immAddressing)
            else extract_constant (the (constantVal immAddressing)) (constantList tu)) of
        None \<Rightarrow> (True, tu)
      | Some valueToEncode \<Rightarrow>
          if \<not> two_complement_validation valueToEncode then (True, tu)
          else (False, insert_machine_word tu ((0 :: uint) OR word_of_int (valueToEncode * 2 ^ 2))))"

definition encode_direct_addressing :: "string \<Rightarrow> TranslationUnit \<Rightarrow> bool \<times> TranslationUnit" where
  "encode_direct_addressing lName tu =
     (case find_label_addressing lName tu of
        (None, tu') \<Rightarrow> (True, tu')
      | (Some (labelAddress, theARE), tu') \<Rightarrow>
          (False, insert_machine_word tu'
                    ((0 :: uint) OR (push_bit 2 labelAddress OR (are_val theARE AND 3)))))"

definition encode_fixed_index_addressing :: "FixedIndexAddressing \<Rightarrow> TranslationUnit \<Rightarrow> bool \<times> TranslationUnit" where
  "encode_fixed_index_addressing fixedAddressing tu =
     (case find_label_addressing (labelName fixedAddressing) tu of
        (foundLabel, tu') \<Rightarrow>
          (case get_addressing_index fixedAddressing tu' of
             foundIdx \<Rightarrow>
               (case foundLabel of
                  None \<Rightarrow> (True, tu')
                | Some (labelAddress, firstARE) \<Rightarrow>
                    (case foundIdx of
                       None \<Rightarrow> (True, tu')
                     | Some addressingIndex \<Rightarrow>
                         (let firstMachineWord =
                                (0 :: uint) OR (push_bit 2 labelAddress OR (are_val firstARE AND 3));
                              secondMachineWord =
                                (0 :: uint) OR (push_bit 2 addressingIndex OR (are_val ABSOLUTE AND 3))
                          in (False, insert_machine_word (insert_machine_word tu' firstMachineWord)
                                       secondMachineWord))))))"

definition encode_direct_register_addressing :: "Register \<Rightarrow> TranslationUnit \<Rightarrow> OperandType \<Rightarrow> TranslationUnit" where
  "encode_direct_register_addressing r tu opType =
     insert_machine_word tu
       ((0 :: uint) OR word_of_int (reg_val r * 2 ^ (if opType = SOURCE_OPERAND then 5 else 2)))"

definition operand_of :: "CommandInstruction \<Rightarrow> OperandType \<Rightarrow> Operand" where
  "operand_of cmd opType =
     (if opType = SOURCE_OPERAND then sourceOperand cmd else targetOperand cmd)"

fun process_operand_encoding ::
  "AbstractLineDescriptor \<Rightarrow> TranslationUnit \<Rightarrow> AddressingType \<Rightarrow> OperandType \<Rightarrow> bool \<times> TranslationUnit" where
  "process_operand_encoding ld tu NONE_ADDR opType = (False, tu)"
| "process_operand_encoding ld tu IMMEDIATE_ADDR opType =
     encode_immediate_addressing (immediateValue (operand_of (commandInst ld) opType)) tu"
| "process_operand_encoding ld tu DIRECT_ADDR opType =
     encode_direct_addressing (addressingLabel (operand_of (commandInst ld) opType)) tu"
| "process_operand_encoding ld tu FIXED_IDX_ADDR opType =
     encode_fixed_index_addressing (fixedIndexOperand (operand_of (commandInst ld) opType)) tu"
| "process_operand_encoding ld tu DIRECT_REGISTER_ADDR opType =
     (False, encode_direct_register_addressing (reg (operand_of (commandInst ld) opType)) tu opType)"

text \<open>One iteration of the loop of \<open>second_pass\<close> on the line at \<open>lineNumber\<close>: the
  pair of the error flag of the line and the translation unit.\<close>

definition second_pass_line :: "AbstractLineDescriptor \<Rightarrow> TranslationUnit \<Rightarrow> bool \<times> TranslationUnit" where
  "second_pass_line ld tu =
     (if lineType ld \<noteq> COMMAND_INSTRUCTION then (False, tu)
      else
        let tu1 = firs_machine_word_encoding (commandInst ld) tu in
        if sourceOperandAddressingType (commandInst ld) = DIRECT_REGISTER_ADDR \<and>
           targetOperandAddressingType (commandInst ld) = DIRECT_REGISTER_ADDR
        then (False, double_direct_register_encoding (commandInst ld) tu1)
        else
          (case process_operand_encoding ld tu1
                  (sourceOperandAddressingType (commandInst ld)) SOURCE_OPERAND of
             (e1, tu2) \<Rightarrow>
               (case process_operand_encoding ld tu2
                       (targetOperandAddressingType (commandInst ld)) TARGET_OPERAND of
                  (e2, tu3) \<Rightarrow> (e1 \<or> e2, tu3))))"

fun second_pass_loop ::
  "AbstractLineDescriptor list \<Rightarrow> bool \<Rightarrow> TranslationUnit \<Rightarrow> bool \<times> TranslationUnit" where
  "second_pass_loop [] errorFlag tu = (errorFlag, tu)"
| "second_pass_loop (ld # lds) errorFlag tu =
     (case second_pass_line ld tu of
        (e, tu') \<Rightarrow> second_pass_loop lds (errorFlag \<or> e) tu')"

text \<open>\<open>second_pass\<close> walks the lines \<open>0 .. progSize - 1\<close> and returns the negated error
  flag: \<open>True\<close> is success.\<close>

definition second_pass :: "AbstractProgram \<Rightarrow> TranslationUnit \<Rightarrow> bool \<times> TranslationUnit" where
  "second_pass absProgram tu =
     (case second_pass_loop (take (progSize absProgram) (lines absProgram)) False tu of
        (errorFlag, tu') \<Rightarrow> (\<not> errorFlag, tu'))"

section \<open>First pass on abstract line descriptors (front_end/first_pass)\<close>

subsection \<open>Tables (utilities/tables_dictionaries_utility.c)\<close>

text \<open>
  The arrays \<open>sourceOperand\<close> and \<open>destinationOperand\<close> of \<open>OpcodeAddressing\<close> have
  \<open>NUMBER_OF_ADDRESSING = 4\<close> cells; the cells an initialiser leaves out are zero, which is
  \<open>IMMEDIATE_ADDR\<close>.
\<close>

definition pad4 :: "AddressingType list \<Rightarrow> AddressingType list" where
  "pad4 xs = xs @ replicate (4 - length xs) IMMEDIATE_ADDR"

definition opcodeAddressingDict :: "(string \<times> AddressingType list \<times> AddressingType list) list" where
  "opcodeAddressingDict =
    [(''mov'', pad4 [IMMEDIATE_ADDR, DIRECT_ADDR, FIXED_IDX_ADDR, DIRECT_REGISTER_ADDR],
               pad4 [DIRECT_ADDR, FIXED_IDX_ADDR, DIRECT_REGISTER_ADDR]),
     (''cmp'', pad4 [IMMEDIATE_ADDR, DIRECT_ADDR, FIXED_IDX_ADDR, DIRECT_REGISTER_ADDR],
               pad4 [IMMEDIATE_ADDR, DIRECT_ADDR, FIXED_IDX_ADDR, DIRECT_REGISTER_ADDR]),
     (''add'', pad4 [IMMEDIATE_ADDR, DIRECT_ADDR, FIXED_IDX_ADDR, DIRECT_REGISTER_ADDR],
               pad4 [DIRECT_ADDR, FIXED_IDX_ADDR, DIRECT_REGISTER_ADDR]),
     (''sub'', pad4 [IMMEDIATE_ADDR, DIRECT_ADDR, FIXED_IDX_ADDR, DIRECT_REGISTER_ADDR],
               pad4 [DIRECT_ADDR, FIXED_IDX_ADDR, DIRECT_REGISTER_ADDR]),
     (''not'', pad4 [NONE_ADDR], pad4 [DIRECT_ADDR, FIXED_IDX_ADDR, DIRECT_REGISTER_ADDR]),
     (''clr'', pad4 [NONE_ADDR], pad4 [DIRECT_ADDR, FIXED_IDX_ADDR, DIRECT_REGISTER_ADDR]),
     (''lea'', pad4 [DIRECT_ADDR, FIXED_IDX_ADDR],
               pad4 [DIRECT_ADDR, FIXED_IDX_ADDR, DIRECT_REGISTER_ADDR]),
     (''inc'', pad4 [NONE_ADDR], pad4 [DIRECT_ADDR, FIXED_IDX_ADDR, DIRECT_REGISTER_ADDR]),
     (''dec'', pad4 [NONE_ADDR], pad4 [DIRECT_ADDR, FIXED_IDX_ADDR, DIRECT_REGISTER_ADDR]),
     (''jmp'', pad4 [NONE_ADDR], pad4 [DIRECT_ADDR, DIRECT_REGISTER_ADDR]),
     (''bne'', pad4 [NONE_ADDR], pad4 [DIRECT_ADDR, DIRECT_REGISTER_ADDR]),
     (''red'', pad4 [NONE_ADDR], pad4 [DIRECT_ADDR, FIXED_IDX_ADDR, DIRECT_REGISTER_ADDR]),
     (''prn'', pad4 [NONE_ADDR],
               pad4 [IMMEDIATE_ADDR, DIRECT_ADDR, FIXED_IDX_ADDR, DIRECT_REGISTER_ADDR]),
     (''jsr'', pad4 [NONE_ADDR], pad4 [DIRECT_ADDR, DIRECT_REGISTER_ADDR]),
     (''rts'', pad4 [NONE_ADDR], pad4 [NONE_ADDR]),
     (''hlt'', pad4 [NONE_ADDR], pad4 [NONE_ADDR])]"

definition opcodeDictionary :: "(Opcode \<times> string) list" where
  "opcodeDictionary =
    [(MOV_OP, ''mov''), (CMP_OP, ''cmp''), (ADD_OP, ''add''), (SUB_OP, ''sub''),
     (NOT_OP, ''not''), (CLR_OP, ''clr''), (LEA_OP, ''lea''), (INC_OP, ''inc''),
     (DEC_OP, ''dec''), (JMP_OP, ''jmp''), (BNE_OP, ''bne''), (RED_OP, ''red''),
     (PRN_OP, ''prn''), (JSR_OP, ''jsr''), (RTS_OP, ''rts''), (HLT_OP, ''hlt''),
     (NONE_OP, ''none'')]"

definition addressingModesDict :: "(int \<times> int) list" where
  "addressingModesDict =
    [(4, 3), (4, 4), (4, 3), (4, 3), (0, 3), (0, 3), (2, 3), (0, 3),
     (0, 3), (0, 2), (0, 2), (0, 3), (0, 4), (0, 2), (0, 0), (0, 0)]"

definition NUMBER_OF_OPCODES :: nat where "NUMBER_OF_OPCODES = 16"

subsection \<open>Legality and size of a command (first_pass_utility.c)\<close>

text \<open>
  \<open>opcode_num_of_mods\<close> indexes \<open>addressingModesDict\<close> by the value of the opcode. For
  \<open>NONE_OP\<close> (value \<open>-1\<close>) the C code reads before the array; the model returns 0 there,
  and \<open>is_legal_command\<close> does not use the value, because none of the sixteen entries of
  \<open>opcodeDictionary\<close> it scans is \<open>NONE_OP\<close>.
\<close>

definition opcode_num_of_mods :: "Opcode \<Rightarrow> OperandType \<Rightarrow> int" where
  "opcode_num_of_mods opc operandType =
     (if opcode_val opc < 0 then 0
      else if operandType = SOURCE_OPERAND then fst (addressingModesDict ! nat (opcode_val opc))
      else snd (addressingModesDict ! nat (opcode_val opc)))"

text \<open>The loop \<open>j = 0; do { if (a == arr[j]) valid = TRUE; j++; } while (j < mods);\<close>\<close>

function do_while_valid :: "AddressingType \<Rightarrow> AddressingType list \<Rightarrow> nat \<Rightarrow> int \<Rightarrow> bool \<Rightarrow> bool" where
  "do_while_valid a arr j mods valid =
     (let valid' = (if a = arr ! j then True else valid) in
      if int (j + 1) < mods then do_while_valid a arr (j + 1) mods valid' else valid')"
  by pat_completeness auto
termination
  by (relation "measure (\<lambda>(a, arr, j, mods, valid). nat (mods - int j))") auto

fun is_legal_command_loop ::
  "AbstractLineDescriptor \<Rightarrow> int \<Rightarrow> int \<Rightarrow> nat list \<Rightarrow> bool \<times> bool \<Rightarrow> bool \<times> bool" where
  "is_legal_command_loop ld sourceMods targetMods [] flags = flags"
| "is_legal_command_loop ld sourceMods targetMods (i # is) (isValidSource, isValidTarget) =
     (if opcodeCommand (commandInst ld) = fst (opcodeDictionary ! i)
      then is_legal_command_loop ld sourceMods targetMods is
             (do_while_valid (sourceOperandAddressingType (commandInst ld))
                (fst (snd (opcodeAddressingDict ! i))) 0 sourceMods isValidSource,
              do_while_valid (targetOperandAddressingType (commandInst ld))
                (snd (snd (opcodeAddressingDict ! i))) 0 targetMods isValidTarget)
      else is_legal_command_loop ld sourceMods targetMods is (isValidSource, isValidTarget))"

definition is_legal_command :: "AbstractLineDescriptor \<Rightarrow> bool" where
  "is_legal_command ld =
     (let sourceMods = opcode_num_of_mods (opcodeCommand (commandInst ld)) SOURCE_OPERAND;
          targetMods = opcode_num_of_mods (opcodeCommand (commandInst ld)) TARGET_OPERAND
      in case is_legal_command_loop ld sourceMods targetMods [0 ..< NUMBER_OF_OPCODES] (False, False) of
           (isValidSource, isValidTarget) \<Rightarrow> isValidSource \<and> isValidTarget)"

definition ic_operand_words :: "AddressingType \<Rightarrow> int" where
  "ic_operand_words tempAddressing =
     (if tempAddressing = IMMEDIATE_ADDR then 1 else 0)
     + (if tempAddressing = DIRECT_ADDR then 1 else 0)
     + (if tempAddressing = FIXED_IDX_ADDR then 2 else 0)
     + (if tempAddressing = DIRECT_REGISTER_ADDR then 1 else 0)"

definition ic_promoter :: "AbstractLineDescriptor \<Rightarrow> int" where
  "ic_promoter ld =
     (let valueToAdd = 1 in
      if sourceOperandAddressingType (commandInst ld) = DIRECT_REGISTER_ADDR \<and>
         targetOperandAddressingType (commandInst ld) = DIRECT_REGISTER_ADDR
      then valueToAdd + 1
      else valueToAdd + ic_operand_words (sourceOperandAddressingType (commandInst ld))
                      + ic_operand_words (targetOperandAddressingType (commandInst ld)))"

subsection \<open>Symbol table (first_pass_utility.c)\<close>

text \<open>\<open>strncpy\<close> into \<open>symbolName[MAX_SYMBOL_LENGTH + 1]\<close> keeps at most 31 characters.\<close>

definition new_symbol :: "string \<Rightarrow> SymbolType \<Rightarrow> int \<Rightarrow> Symbol" where
  "new_symbol n t a = \<lparr>symbolName = take MAX_SYMBOL_LENGTH n, symbolType = t, address = a\<rparr>"

definition insert_symbol_to_table ::
  "AbstractLineDescriptor \<Rightarrow> TranslationUnit \<Rightarrow> nat \<Rightarrow> nat \<Rightarrow> SymbolType \<Rightarrow> TranslationUnit" where
  "insert_symbol_to_table ld tu ic dc typeOfSymbol =
     (if typeOfSymbol = CODE_LABEL \<or> typeOfSymbol = DATA_LABEL then
        tu\<lparr>symbolTable := symbolTable tu
              @ [new_symbol (the (lineLabelName ld)) typeOfSymbol
                   (if typeOfSymbol = CODE_LABEL then int ic else int dc)]\<rparr>
      else if typeOfSymbol = DEFINED_CONSTANT then
        tu\<lparr>symbolTable := symbolTable tu
              @ [new_symbol (constName (constDefInst ld)) DEFINED_CONSTANT
                   (constValue (constDefInst ld))]\<rparr>
      else if typeOfSymbol = TEMP_ENTRY_LABEL then
        tu\<lparr>symbolTable := symbolTable tu @ [new_symbol (entryName ld) TEMP_ENTRY_LABEL (-1)]\<rparr>
      else if typeOfSymbol = EXTERN_LABEL then
        tu\<lparr>symbolTable := symbolTable tu @ [new_symbol (entryName ld) EXTERN_LABEL (int ic)]\<rparr>
      else tu)"

text \<open>An assignment through the pointer \<open>find_symbol\<close> returns changes the first symbol
  of that name.\<close>

fun update_symbol :: "string \<Rightarrow> (Symbol \<Rightarrow> Symbol) \<Rightarrow> Symbol list \<Rightarrow> Symbol list" where
  "update_symbol lName f [] = []"
| "update_symbol lName f (s # ss) =
     (if symbolName s = lName then f s # ss else s # update_symbol lName f ss)"

definition handle_label ::
  "AbstractLineDescriptor \<Rightarrow> TranslationUnit \<Rightarrow> nat \<Rightarrow> nat \<Rightarrow> bool \<times> TranslationUnit" where
  "handle_label ld tu ic dc =
     (let lName = the (lineLabelName ld) in
      case find_symbol lName (symbolTable tu) of
        Some labelFinder \<Rightarrow>
          if symbolType labelFinder = TEMP_ENTRY_LABEL then
            if lineType ld = COMMAND_INSTRUCTION then
              (False, tu\<lparr>symbolTable := update_symbol lName
                          (\<lambda>s. s\<lparr>symbolType := ENTRY_CODE_LABEL, address := int ic\<rparr>)
                          (symbolTable tu)\<rparr>)
            else if lineType ld = DIRECTIVE_INSTRUCTION \<and>
                    (dirType ld = DATA_INST \<or> dirType ld = STRING_INST) then
              (False, tu\<lparr>symbolTable := update_symbol lName
                          (\<lambda>s. s\<lparr>symbolType := ENTRY_DATA_LABEL, address := int dc\<rparr>)
                          (symbolTable tu)\<rparr>)
            else (False, tu)
          else (True, tu)
      | None \<Rightarrow>
          if lineType ld = DIRECTIVE_INSTRUCTION then
            if dirType ld = DATA_INST \<or> dirType ld = STRING_INST
            then (False, insert_symbol_to_table ld tu ic dc DATA_LABEL)
            else (False, tu)
          else if lineType ld = COMMAND_INSTRUCTION
          then (False, insert_symbol_to_table ld tu ic dc CODE_LABEL)
          else (False, tu))"

subsection \<open>Data image (first_pass_utility.c)\<close>

text \<open>\<open>memcpy\<close> of the \<open>int\<close> data into the \<open>unsigned int\<close> data image keeps the bit
  patterns; the pair returned is the local counter \<open>dc\<close> and the translation unit.\<close>

definition int_data_image_update :: "int list \<Rightarrow> TranslationUnit \<Rightarrow> nat \<Rightarrow> nat \<times> TranslationUnit" where
  "int_data_image_update dat tu dc =
     (dc + length dat,
      tu\<lparr>dataImage := take (DC tu) (dataImage tu) @ map word_of_int dat,
         DC := dc + length dat\<rparr>)"

text \<open>
  \<open>(unsigned int) (stringInst->data[i])\<close> converts a plain \<open>char\<close>, which is signed where
  the code is built: a byte above 127 is a negative value and the cast extends its sign,
  so the byte \<open>0xC3\<close> becomes the word \<open>0xFFFFFFC3\<close>.
\<close>

definition char_to_unsigned_int :: "char \<Rightarrow> uint" where
  "char_to_unsigned_int c =
     word_of_int (if (of_char c :: int) < 128 then of_char c else of_char c - 256)"

definition string_data_image_update :: "string \<Rightarrow> TranslationUnit \<Rightarrow> nat \<Rightarrow> nat \<times> TranslationUnit" where
  "string_data_image_update str tu dc =
     (let dataSize = length str + 1 in
      (dc + dataSize,
       tu\<lparr>dataImage := take (DC tu) (dataImage tu)
                          @ map char_to_unsigned_int str @ [0],
          DC := dc + dataSize\<rparr>))"

definition handle_data_image :: "AbstractLineDescriptor \<Rightarrow> TranslationUnit \<Rightarrow> nat \<Rightarrow> nat \<times> TranslationUnit" where
  "handle_data_image ld tu dc =
     (if dirType ld \<noteq> DATA_INST \<and> dirType ld \<noteq> STRING_INST then (dc, tu)
      else if dirType ld = DATA_INST then int_data_image_update (dataInst ld) tu dc
      else string_data_image_update (stringInst ld) tu dc)"

subsection \<open>Entries (first_pass_utility.c)\<close>

text \<open>
  \<open>qsort\<close> of the C library sorts the first \<open>n\<close> cells of an array by the comparison
  function. \<open>compare_entry\<close> and \<open>compareExtern\<close> return the difference of two addresses,
  which orders them as integers. The order \<open>qsort\<close> gives to cells with equal keys is not
  specified; the model takes the stable one.
\<close>

definition qsort_by :: "('a \<Rightarrow> int) \<Rightarrow> nat \<Rightarrow> 'a list \<Rightarrow> 'a list" where
  "qsort_by k n xs = sort_key k (take n xs) @ drop n xs"

definition sort_entries :: "TranslationUnit \<Rightarrow> TranslationUnit" where
  "sort_entries trUnit =
     trUnit\<lparr>entryList := qsort_by address (length (entryList trUnit)) (entryList trUnit)\<rparr>"

text \<open>The loop of \<open>process_symbol_table\<close> over the symbol table: the symbols already
  visited (in reverse), the error flag and the entry list are carried along.\<close>

fun process_symbol_table_loop ::
  "Symbol list \<Rightarrow> nat \<Rightarrow> bool \<Rightarrow> Symbol list \<Rightarrow> Symbol list \<Rightarrow> bool \<times> Symbol list \<times> Symbol list" where
  "process_symbol_table_loop [] ic errorFlag done ents = (errorFlag, rev done, ents)"
| "process_symbol_table_loop (s # ss) ic errorFlag done ents =
     (let errorFlag' = (if symbolType s = TEMP_ENTRY_LABEL then True else errorFlag);
          s' = (if symbolType s = DATA_LABEL \<or> symbolType s = ENTRY_DATA_LABEL
                then s\<lparr>address := address s + int ic\<rparr> else s);
          ents' = (if symbolType s' = ENTRY_CODE_LABEL \<or> symbolType s' = ENTRY_DATA_LABEL
                   then ents @ [s'] else ents)
      in process_symbol_table_loop ss ic errorFlag' (s' # done) ents')"

definition process_symbol_table :: "TranslationUnit \<Rightarrow> nat \<Rightarrow> bool \<times> TranslationUnit" where
  "process_symbol_table tu ic =
     (case process_symbol_table_loop (symbolTable tu) ic False [] (entryList tu) of
        (errorFlag, syms, ents) \<Rightarrow>
          (let tu' = tu\<lparr>symbolTable := syms, entryList := ents\<rparr> in
           (errorFlag, if length (entryList tu') > 1 then sort_entries tu' else tu')))"

section \<open>Line parser (front_end, utilities)\<close>

subsection \<open>C strings and character classes\<close>

text \<open>
  A C string is the list of its characters before the terminating NUL; \<open>nth_c s i\<close> is
  \<open>s[i]\<close> and reads the NUL at the end. The character classes are those of the C locale.
\<close>

definition NUL :: char where "NUL = CHR 0x00"

definition nth_c :: "string \<Rightarrow> nat \<Rightarrow> char" where
  "nth_c s i = (if i < length s then s ! i else NUL)"

definition isspace_c :: "char \<Rightarrow> bool" where
  "isspace_c c = (c = CHR '' '' \<or> c = CHR 0x09 \<or> c = CHR 0x0A \<or> c = CHR 0x0B
                  \<or> c = CHR 0x0C \<or> c = CHR 0x0D)"

definition isdigit_c :: "char \<Rightarrow> bool" where
  "isdigit_c c = (48 \<le> (of_char c :: nat) \<and> (of_char c :: nat) \<le> 57)"

definition islower_c :: "char \<Rightarrow> bool" where
  "islower_c c = (97 \<le> (of_char c :: nat) \<and> (of_char c :: nat) \<le> 122)"

definition isupper_c :: "char \<Rightarrow> bool" where
  "isupper_c c = (65 \<le> (of_char c :: nat) \<and> (of_char c :: nat) \<le> 90)"

definition isalpha_c :: "char \<Rightarrow> bool" where
  "isalpha_c c = (islower_c c \<or> isupper_c c)"

definition isalnum_c :: "char \<Rightarrow> bool" where
  "isalnum_c c = (isalpha_c c \<or> isdigit_c c)"

definition digit_val :: "char \<Rightarrow> int" where
  "digit_val c = int (of_char c) - 48"

text \<open>
  Signed overflow of \<open>int\<close> arithmetic is undefined in C. Where the parser accumulates a
  number digit by digit the model wraps to 32 bits, as two's-complement hardware does.
\<close>

definition int32 :: "int \<Rightarrow> int" where
  "int32 x = sint (word_of_int x :: 32 word)"

subsection \<open>Macros of utilities.h\<close>

definition MOVE_TO_NON_WHITE :: "string \<Rightarrow> string" where
  "MOVE_TO_NON_WHITE s = dropWhile (\<lambda>c. c = CHR 0x09 \<or> c = CHR '' '') s"

definition MOVE_TO_NEXT_WORD :: "string \<Rightarrow> string" where
  "MOVE_TO_NEXT_WORD s = dropWhile (\<lambda>c. \<not> isspace_c c) (dropWhile isspace_c s)"

definition MOVE_TO_NEXT_NON_ALNUM :: "string \<Rightarrow> string" where
  "MOVE_TO_NEXT_NON_ALNUM s = dropWhile isalnum_c s"

definition MOVE_TO_NEXT_DATA :: "string \<Rightarrow> string" where
  "MOVE_TO_NEXT_DATA s =
     dropWhile isalnum_c (if nth_c s 0 = CHR ''-'' then drop 1 s else s)"

definition MOVE_POINTER_AFTER_BRACKET :: "string \<Rightarrow> string" where
  "MOVE_POINTER_AFTER_BRACKET s =
     (let r = dropWhile (\<lambda>c. c \<noteq> CHR ''['') s in
      if nth_c r 0 = CHR ''['' then drop 1 r else r)"

subsection \<open>utilities.c\<close>

definition ReservedWords :: "string list" where
  "ReservedWords =
     [''.data'', ''data'', ''.string'', ''string'', ''.entry'', ''entry'',
      ''.extern'', ''extern'', ''define'', ''.define'', ''mcr'', ''endmcr'']"

definition ReservedWordsExtended :: "string list" where
  "ReservedWordsExtended =
     [''.data'', ''data'', ''.string'', ''string'', ''.entry'', ''entry'',
      ''.extern'', ''extern'', ''define'', ''.define'', ''mcr'', ''endmcr'',
      ''mov'', ''cmp'', ''add'', ''sub'', ''lea'', ''not'', ''clr'', ''inc'',
      ''dec'', ''jmp'', ''bne'', ''red'', ''prn'', ''jsr'', ''rts'', ''hlt'',
      ''r0'', ''r1'', ''r2'', ''r3'', ''r4'', ''r5'', ''r6'', ''r7'']"

definition DirectiveCommands :: "string list" where
  "DirectiveCommands = [''.data'', ''.string'', ''.entry'', ''.extern'']"

definition OpcodeNames :: "string list" where
  "OpcodeNames =
     [''mov'', ''cmp'', ''add'', ''sub'', ''lea'', ''not'', ''clr'', ''inc'',
      ''dec'', ''jmp'', ''bne'', ''red'', ''prn'', ''jsr'', ''rts'', ''hlt'']"

definition twoOperandsOpcodes :: "string list" where
  "twoOperandsOpcodes = [''mov'', ''cmp'', ''add'', ''sub'', ''lea'']"

definition oneOperandOpcodes :: "string list" where
  "oneOperandOpcodes =
     [''not'', ''clr'', ''inc'', ''dec'', ''jmp'', ''bne'', ''red'', ''prn'', ''jsr'']"

definition noOperandsOpcodes :: "string list" where
  "noOperandsOpcodes = [''rts'', ''hlt'']"

definition is_reserved_word :: "string \<Rightarrow> bool" where
  "is_reserved_word symbol = (symbol \<noteq> [] \<and> symbol \<in> set ReservedWords)"

definition is_reserved_word_extended :: "string \<Rightarrow> bool" where
  "is_reserved_word_extended symbol = (symbol \<noteq> [] \<and> symbol \<in> set ReservedWordsExtended)"

text \<open>The word extractors return the flag \<open>wordLength > 0\<close> and the word.\<close>

definition extract_first_word :: "string \<Rightarrow> bool \<times> string" where
  "extract_first_word line =
     (let w = takeWhile (\<lambda>c. \<not> isspace_c c) (dropWhile isspace_c line) in (w \<noteq> [], w))"

definition extract_first_alphanumeric_word :: "string \<Rightarrow> bool \<times> string" where
  "extract_first_alphanumeric_word line =
     (let w = takeWhile isalnum_c (dropWhile isspace_c line) in (w \<noteq> [], w))"

definition safe_word_extraction_until_comma :: "string \<Rightarrow> bool \<times> string" where
  "safe_word_extraction_until_comma line =
     (let w = takeWhile (\<lambda>c. \<not> isspace_c c \<and> c \<noteq> CHR '','') (dropWhile isspace_c line)
      in (w \<noteq> [], w))"

definition string_complement_span :: "string \<Rightarrow> string \<Rightarrow> nat" where
  "string_complement_span str reject = length (takeWhile (\<lambda>c. c \<notin> set reject) str)"

text \<open>\<open>extract_token_until_comma\<close> returns the token and the moved pointer.\<close>

definition extract_token_until_comma :: "string \<Rightarrow> string \<times> string" where
  "extract_token_until_comma str =
     (let s1 = dropWhile isspace_c str;
          wordLength = string_complement_span s1 [CHR '','', CHR '' '', CHR 0x09, CHR 0x0A]
      in (take wordLength s1, dropWhile isspace_c (drop wordLength s1)))"

text \<open>The digit loop \<open>while (isdigit(word[i])) { number = number * 10 + (word[i] - '0'); i++; }\<close>
  returns the number and the rest of the string.\<close>

fun digits_loop :: "string \<Rightarrow> int \<Rightarrow> int \<times> string" where
  "digits_loop [] number = (number, [])"
| "digits_loop (c # cs) number =
     (if isdigit_c c then digits_loop cs (int32 (number * 10 + digit_val c))
      else (number, c # cs))"

definition extract_number :: "string \<Rightarrow> int option" where
  "extract_number word =
     (if \<not> (isdigit_c (nth_c word 0) \<or> nth_c word 0 = CHR ''-'' \<or> nth_c word 0 = CHR ''+'')
      then None
      else if nth_c word 0 = NUL \<or> (nth_c word 0 = CHR ''0'' \<and> isdigit_c (nth_c word 1))
      then None
      else if nth_c word 0 = CHR ''-'' \<or> nth_c word 0 = CHR ''+'' then
        (if \<not> isdigit_c (nth_c word 1) then None
         else Some (int32 ((if nth_c word 0 = CHR ''+'' then 1 else -1)
                           * fst (digits_loop (drop 1 word) 0))))
      else Some (int32 (1 * fst (digits_loop word 0))))"

definition remove_last_char :: "string \<Rightarrow> string" where
  "remove_last_char str = butlast str"

definition insert_error :: "AbstractLineDescriptor \<Rightarrow> string \<Rightarrow> AbstractLineDescriptor" where
  "insert_error ld err = (if lineError ld \<noteq> None then ld else ld\<lparr>lineError := Some err\<rparr>)"

text \<open>The tail loops \<open>while (s[i] != '\0' && isalnum(s[i])) ++i;\<close> followed by
  \<open>while (s[i] != '\0') { if (!isspace(s[i])) return FALSE; ++i; }\<close>.\<close>

definition alnum_then_space :: "string \<Rightarrow> bool" where
  "alnum_then_space s = list_all isspace_c (dropWhile isalnum_c s)"

definition check_symbol_syntax :: "string \<Rightarrow> bool" where
  "check_symbol_syntax symbol =
     (if MAX_SYMBOL_LENGTH < length symbol then False
      else if \<not> isalpha_c (nth_c symbol 0) then False
      else alnum_then_space (drop 1 symbol))"

subsection \<open>Words of the language (first_pass_utility.c)\<close>

text \<open>A macro is its name and its content, \<open>None\<close> for the \<open>NULL\<close> pointer; the macro table
  is the list of the macros.\<close>

record Macro =
  macroName :: string
  content :: "string option"

type_synonym MacroTable = "Macro list"

definition get_register :: "string \<Rightarrow> Register" where
  "get_register registerStr =
     (if length registerStr \<ge> 2 \<and> nth_c registerStr 0 = CHR ''r'' then
        (let registerNumber = int (of_char (nth_c registerStr 1)) - 48 in
         if registerNumber = 0 then R0 else if registerNumber = 1 then R1
         else if registerNumber = 2 then R2 else if registerNumber = 3 then R3
         else if registerNumber = 4 then R4 else if registerNumber = 5 then R5
         else if registerNumber = 6 then R6 else if registerNumber = 7 then R7
         else NONE_REG)
      else NONE_REG)"

definition get_opcode :: "string \<Rightarrow> Opcode" where
  "get_opcode opcodeStr =
     (if opcodeStr = ''mov'' then MOV_OP else if opcodeStr = ''cmp'' then CMP_OP
      else if opcodeStr = ''add'' then ADD_OP else if opcodeStr = ''sub'' then SUB_OP
      else if opcodeStr = ''lea'' then LEA_OP else if opcodeStr = ''not'' then NOT_OP
      else if opcodeStr = ''clr'' then CLR_OP else if opcodeStr = ''inc'' then INC_OP
      else if opcodeStr = ''dec'' then DEC_OP else if opcodeStr = ''jmp'' then JMP_OP
      else if opcodeStr = ''bne'' then BNE_OP else if opcodeStr = ''red'' then RED_OP
      else if opcodeStr = ''prn'' then PRN_OP else if opcodeStr = ''jsr'' then JSR_OP
      else if opcodeStr = ''rts'' then RTS_OP else if opcodeStr = ''hlt'' then HLT_OP
      else NONE_OP)"

definition get_directive :: "string \<Rightarrow> DirectiveType" where
  "get_directive word =
     (if nth_c word 0 \<noteq> CHR ''.'' then NONE_DIR
      else if \<not> list_all islower_c (drop 1 word) then NONE_DIR
      else if word = ''.data'' then DATA_INST
      else if word = ''.string'' then STRING_INST
      else if word = ''.entry'' then ENTRY_INST
      else if word = ''.extern'' then EXTERN_INST
      else NONE_DIR)"

definition is_macro :: "MacroTable \<Rightarrow> string \<Rightarrow> bool" where
  "is_macro macroTable name = (name \<in> set (map macroName macroTable))"

definition RESERVED_WORD_ERR :: string where
  "RESERVED_WORD_ERR = ''Syntax Violation - Reserved Word Error::''"

definition handle_isValidSymbol_error ::
  "AbstractLineDescriptor \<Rightarrow> string \<Rightarrow> string \<Rightarrow> AbstractLineDescriptor" where
  "handle_isValidSymbol_error ld symbol error_type =
     (let errorBefore = RESERVED_WORD_ERR @ ''Symbol '' @ [CHR 0x27];
          errorAfter =
            (if error_type = ''isRegister'' then CHR 0x27 # '' cannot be referred to as a register''
             else if error_type = ''isOpcode'' then CHR 0x27 # '' cannot be referred to as as an opcode''
             else if error_type = ''isDirective''
               then CHR 0x27 # '' cannot be referred to as an directive instruction''
             else if error_type = ''reservedWord''
               then CHR 0x27 # '' cannot be referred to as a reserved word''
             else if error_type = ''isMacro'' then CHR 0x27 # '' is already a macro''
             else [])
      in insert_error ld (errorBefore @ symbol @ errorAfter))"

text \<open>The validators that can record an error return their flag and the line
  descriptor.\<close>

definition is_valid_symbol ::
  "string \<Rightarrow> AbstractLineDescriptor \<Rightarrow> MacroTable \<Rightarrow> bool \<times> AbstractLineDescriptor" where
  "is_valid_symbol symbol ld macroTable =
     (if get_register symbol \<noteq> NONE_REG
        then (False, handle_isValidSymbol_error ld symbol ''isRegister'')
      else if get_opcode symbol \<noteq> NONE_OP
        then (False, handle_isValidSymbol_error ld symbol ''isOpcode'')
      else if get_directive symbol \<noteq> NONE_DIR
        then (False, handle_isValidSymbol_error ld symbol ''isDirective'')
      else if is_reserved_word symbol
        then (False, handle_isValidSymbol_error ld symbol ''reservedWord'')
      else if is_macro macroTable symbol
        then (False, handle_isValidSymbol_error ld symbol ''isMacro'')
      else (True, ld))"

text \<open>The loop \<open>for (i = 1; i < n; i++) { if (!isalnum(w[i])) return FALSE;
  if (i == MAX_SYMBOL_LENGTH) return FALSE; }\<close> leaves the function with \<open>FALSE\<close>
  exactly when some index below \<open>n\<close> meets one of the two tests.\<close>

definition name_loop_fails :: "string \<Rightarrow> nat \<Rightarrow> bool" where
  "name_loop_fails w n =
     list_ex (\<lambda>i. \<not> isalnum_c (nth_c w i) \<or> i = MAX_SYMBOL_LENGTH) [1 ..< n]"

definition is_label ::
  "string \<Rightarrow> MacroTable \<Rightarrow> AbstractLineDescriptor \<Rightarrow> bool \<times> AbstractLineDescriptor" where
  "is_label word macroTable ld =
     (if word = [] then (False, ld)
      else if \<not> isalpha_c (nth_c word 0) then (False, ld)
      else if name_loop_fails word (length word - 1) then (False, ld)
      else if nth_c word (length word - 1) \<noteq> CHR '':'' then (False, ld)
      else is_valid_symbol (remove_last_char word) ld macroTable)"

definition insert_label_name_to_LineDescriptor ::
  "AbstractLineDescriptor \<Rightarrow> string \<Rightarrow> AbstractLineDescriptor" where
  "insert_label_name_to_LineDescriptor ld originalName =
     ld\<lparr>lineLabelName := Some (remove_last_char originalName)\<rparr>"

definition is_line_empty :: "string \<Rightarrow> bool" where
  "is_line_empty line = (nth_c line 0 = NUL \<or> nth_c line 0 = CHR 0x0A)"

definition is_comment_line :: "string \<Rightarrow> bool" where
  "is_comment_line line =
     (if line = [] then False else nth_c (dropWhile isspace_c line) 0 = CHR '';'')"

definition is_define :: "string \<Rightarrow> bool" where
  "is_define word = (word \<noteq> [] \<and> word = ''.define'')"

definition is_directive :: "string \<Rightarrow> bool" where
  "is_directive word = (word \<noteq> [] \<and> word \<in> set DirectiveCommands)"

definition is_data :: "string \<Rightarrow> bool" where
  "is_data word = (word \<noteq> [] \<and> word = ''.data'')"

definition is_string :: "string \<Rightarrow> bool" where
  "is_string word = (word \<noteq> [] \<and> word = ''.string'')"

definition is_entry :: "string \<Rightarrow> bool" where
  "is_entry word = (word \<noteq> [] \<and> word = ''.entry'')"

definition is_extern :: "string \<Rightarrow> bool" where
  "is_extern word = (word \<noteq> [] \<and> word = ''.extern'')"

definition is_command_instruction :: "string \<Rightarrow> bool" where
  "is_command_instruction word = (word \<noteq> [] \<and> word \<in> set OpcodeNames)"

subsection \<open>Constant definitions (first_pass_utility.c)\<close>

definition is_valid_constant_definition ::
  "string \<Rightarrow> AbstractLineDescriptor \<Rightarrow> MacroTable \<Rightarrow> bool \<times> AbstractLineDescriptor" where
  "is_valid_constant_definition cName ld macroTable =
     (if cName = [] then (False, ld)
      else if \<not> isalpha_c (nth_c cName 0) then (False, ld)
      else if name_loop_fails cName (length cName) then (False, ld)
      else is_valid_symbol cName ld macroTable)"

definition is_decimal_integer :: "string \<Rightarrow> bool" where
  "is_decimal_integer str =
     (if str = [] then False
      else
        let s1 = dropWhile isspace_c str;
            s2 = (if nth_c s1 0 = CHR ''-'' \<or> nth_c s1 0 = CHR ''+'' then drop 1 s1 else s1)
        in if nth_c s2 0 = CHR ''0'' then False
           else if \<not> isdigit_c (nth_c s2 0) then False
           else nth_c (dropWhile isspace_c (dropWhile isdigit_c s2)) 0 = NUL)"

text \<open>
  \<open>strtol\<close> in base 10 on a string \<open>is_decimal_integer\<close> has accepted: the value of the
  signed digit string, clamped to the range of \<open>long\<close> (64 bits); the cast to \<open>int\<close> keeps
  the low 32 bits.
\<close>

fun dec_value :: "string \<Rightarrow> int \<Rightarrow> int" where
  "dec_value [] acc = acc"
| "dec_value (c # cs) acc = (if isdigit_c c then dec_value cs (acc * 10 + digit_val c) else acc)"

definition strtol10 :: "string \<Rightarrow> int" where
  "strtol10 str =
     (let s1 = dropWhile isspace_c str;
          neg = (nth_c s1 0 = CHR ''-'');
          s2 = (if nth_c s1 0 = CHR ''-'' \<or> nth_c s1 0 = CHR ''+'' then drop 1 s1 else s1);
          v = (if neg then - dec_value s2 0 else dec_value s2 0)
      in max (- (2 ^ 63)) (min (2 ^ 63 - 1) v))"

definition insert_constant_to_list ::
  "AbstractLineDescriptor \<Rightarrow> TranslationUnit \<Rightarrow> TranslationUnit" where
  "insert_constant_to_list ld tu =
     tu\<lparr>constantList := constantList tu
           @ [\<lparr>constName = constName (constDefInst ld), constValue = constValue (constDefInst ld)\<rparr>]\<rparr>"

definition CONST_DEF_ERR :: string where
  "CONST_DEF_ERR = ''Invalid Constant Definition Format::''"

definition constant_definition_handling ::
  "string \<Rightarrow> AbstractLineDescriptor \<Rightarrow> TranslationUnit \<Rightarrow> MacroTable
     \<Rightarrow> AbstractLineDescriptor \<times> TranslationUnit" where
  "constant_definition_handling line0 ld tu macroTable =
     (let line1 = MOVE_TO_NON_WHITE (MOVE_TO_NEXT_WORD line0) in
      case extract_first_alphanumeric_word line1 of
        (False, _) \<Rightarrow>
          (insert_error ld (CONST_DEF_ERR @ ''Essential parameters are not specified''), tu)
      | (True, constantName) \<Rightarrow>
          (case is_valid_constant_definition constantName ld macroTable of
             (False, ld1) \<Rightarrow> (ld1, tu)
           | (True, ld1) \<Rightarrow>
               let line2 = MOVE_TO_NON_WHITE (MOVE_TO_NEXT_NON_ALNUM line1) in
               if nth_c line2 0 \<noteq> CHR ''=''
               then (insert_error ld1 (CONST_DEF_ERR @ ''Missing assignment operator''), tu)
               else
                 let line3 = drop 1 line2 in
                 (case extract_first_word line3 of
                    (False, _) \<Rightarrow>
                      (insert_error ld1
                         (CONST_DEF_ERR @ ''Missing constant definition parameters''), tu)
                  | (True, constantValue) \<Rightarrow>
                      if \<not> is_decimal_integer constantValue
                      then (insert_error ld1 (CONST_DEF_ERR @ ''Invalid constant value''), tu)
                      else
                        let line4 = MOVE_TO_NON_WHITE (MOVE_TO_NEXT_WORD line3) in
                        if nth_c line4 0 \<noteq> NUL \<and> nth_c line4 0 \<noteq> CHR 0x0A
                        then (insert_error ld1
                                (''Redundant characters after a string directive::''
                                 @ ''Redundant characters or values after a constant definition''),
                              tu)
                        else
                          let ld2 = ld1\<lparr>lineType := CONSTANT_DEF_INSTRUCTION,
                                       constDefInst :=
                                         \<lparr>constName = constantName,
                                          constValue = int32 (strtol10 constantValue)\<rparr>\<rparr>
                          in (ld2, insert_constant_to_list ld2 tu))))"

subsection \<open>Directives (first_pass_utility.c)\<close>

fun constant_lookup :: "string \<Rightarrow> ConstantDefinitionInstruction list \<Rightarrow> int option" where
  "constant_lookup w [] = None"
| "constant_lookup w (c # cs) =
     (if w = constName c then Some (constValue c) else constant_lookup w cs)"

definition extract_integer :: "string \<Rightarrow> int option" where
  "extract_integer str =
     (if str = [] then None
      else
        let s1 = dropWhile isspace_c str;
            sign = (if nth_c s1 0 = CHR ''-'' then - 1 else (1 :: int));
            s2 = (if nth_c s1 0 = CHR ''+'' \<or> nth_c s1 0 = CHR ''-'' then drop 1 s1 else s1)
        in if \<not> isdigit_c (nth_c s2 0) then None
           else
             (case digits_loop s2 0 of
                (result, s3) \<Rightarrow>
                  let s4 = dropWhile isspace_c s3 in
                  if nth_c s4 0 = CHR '','' \<or> nth_c s4 0 = NUL \<or> nth_c s4 0 = CHR 0x0A
                  then Some (int32 (result * sign))
                  else None))"

definition data_directive_value_extraction :: "TranslationUnit \<Rightarrow> string \<Rightarrow> int option" where
  "data_directive_value_extraction tu line =
     (if line = [] then None
      else
        let tempConstantWord = snd (safe_word_extraction_until_comma line) in
        case (if constantList tu \<noteq> [] then constant_lookup tempConstantWord (constantList tu)
              else None) of
          Some v \<Rightarrow> Some v
        | None \<Rightarrow> extract_integer line)"

definition is_valid_data_directive :: "string \<Rightarrow> bool" where
  "is_valid_data_directive str =
     (if str = [] then False
      else
        let s1 = dropWhile isspace_c str;
            s2 = (if nth_c s1 0 = CHR ''+'' \<or> nth_c s1 0 = CHR ''-'' then drop 1 s1 else s1)
        in if length str > 1 \<and> nth_c s2 0 = CHR ''0'' \<and> isdigit_c (nth_c s2 1) then False
           else if \<not> isalnum_c (nth_c s2 0) then False
           else
             let s3 = dropWhile isspace_c (dropWhile isalnum_c s2) in
             if nth_c s3 0 = CHR '',''
             then nth_c (dropWhile isspace_c (drop 1 s3)) 0 \<noteq> NUL
             else nth_c s3 0 = NUL)"

text \<open>The pointer moves of one round of the loop of \<open>data_directive_handling\<close>.\<close>

definition data_next :: "string \<Rightarrow> string" where
  "data_next line =
     (let l1 = MOVE_TO_NON_WHITE (MOVE_TO_NEXT_DATA (MOVE_TO_NON_WHITE line)) in
      if nth_c l1 0 \<noteq> NUL \<and> nth_c l1 0 \<noteq> CHR 0x0A then drop 1 l1 else l1)"

text \<open>
  The loop \<open>while (*line != '\0' && data_directive_value_extraction(...))\<close>. Its only
  state that decides the control flow is the pointer \<open>line\<close>; a round that extracts a
  value and leaves the pointer where it was repeats for ever, which is the result \<open>None\<close>.
  Otherwise the result is the pointer at the exit and the values collected.
\<close>

function data_loop :: "TranslationUnit \<Rightarrow> string \<Rightarrow> int list \<Rightarrow> (string \<times> int list) option" where
  "data_loop tu line dat =
     (if line \<noteq> [] \<and> data_directive_value_extraction tu line \<noteq> None then
        (if length (data_next line) < length line
         then data_loop tu (data_next line) (dat @ [the (data_directive_value_extraction tu line)])
         else None)
      else Some (line, dat))"
  by pat_completeness auto
termination
  by (relation "measure (\<lambda>(tu, line, dat). length line)") auto

definition DATA_DIR_ERR :: string where "DATA_DIR_ERR = ''Data Directive Error::''"
definition DIRECTIVE_INST_ERR :: string where
  "DIRECTIVE_INST_ERR = ''Invalid Directive Instruction Format::''"

definition data_directive_handling ::
  "AbstractLineDescriptor \<Rightarrow> TranslationUnit \<Rightarrow> string \<Rightarrow> AbstractLineDescriptor option" where
  "data_directive_handling ld tu line0 =
     (case data_loop tu (MOVE_TO_NON_WHITE line0) [] of
        None \<Rightarrow> None
      | Some (line, dat) \<Rightarrow>
          Some (if dat = []
                then insert_error ld (DATA_DIR_ERR @ ''Required parameters are not specified'')
                else if nth_c line 0 \<noteq> NUL \<and> nth_c line 0 \<noteq> CHR 0x0A
                then insert_error ld (DATA_DIR_ERR @ ''Invalid syntax'')
                else ld\<lparr>lineType := DIRECTIVE_INSTRUCTION, dirType := DATA_INST,
                        dataInst := dat\<rparr>))"

text \<open>
  \<open>string_directive_handling\<close>: for the literal \<open>""\<close> nothing is captured,
  \<open>capturedString\<close> stays \<open>NULL\<close> and \<open>string_duplicate(NULL)\<close> calls \<open>strlen(NULL)\<close>;
  the model has \<open>None\<close> for that crash.
\<close>

definition string_directive_handling ::
  "string \<Rightarrow> AbstractLineDescriptor \<Rightarrow> AbstractLineDescriptor option" where
  "string_directive_handling line0 ld =
     (let line1 = MOVE_TO_NON_WHITE line0 in
      if nth_c line1 0 \<noteq> CHR 0x22
      then Some (insert_error ld (DIRECTIVE_INST_ERR @ ''Invalid string syntax''))
      else
        let capturedString = takeWhile (\<lambda>c. c \<noteq> CHR 0x22) (drop 1 line1);
            line2 = dropWhile (\<lambda>c. c \<noteq> CHR 0x22) (drop 1 line1)
        in if nth_c line2 0 = NUL
           then Some (insert_error ld
                  (DIRECTIVE_INST_ERR @ ''Invalid string syntax - closing double quote missing''))
           else
             let line3 = MOVE_TO_NEXT_WORD (drop 1 line2) in
             if nth_c line3 0 \<noteq> NUL
             then Some (insert_error ld
                    (DIRECTIVE_INST_ERR @ ''Redundant characters after a string directive''))
             else if capturedString = [] then None
             else Some (ld\<lparr>lineType := DIRECTIVE_INSTRUCTION, stringInst := capturedString,
                           dirType := STRING_INST\<rparr>))"

definition MOVE_INDEX_AFTER_WORD :: "string \<Rightarrow> string" where
  "MOVE_INDEX_AFTER_WORD s = dropWhile (\<lambda>c. \<not> isspace_c c) (dropWhile isspace_c s)"

definition is_valid_entry_line ::
  "string \<Rightarrow> AbstractLineDescriptor \<Rightarrow> bool \<times> AbstractLineDescriptor" where
  "is_valid_entry_line line0 ld =
     (let line = MOVE_TO_NON_WHITE line0 in
      case extract_first_word line of
        (False, _) \<Rightarrow> (False, ld)
      | (True, labelSymbol) \<Rightarrow>
          if labelSymbol = [] then (False, ld)
          else if \<not> isalpha_c (nth_c labelSymbol 0) then (False, ld)
          else if name_loop_fails labelSymbol (length labelSymbol) then (False, ld)
          else
            let rest = MOVE_TO_NON_WHITE (MOVE_INDEX_AFTER_WORD line) in
            if nth_c rest 0 \<noteq> NUL \<and> nth_c rest 0 \<noteq> CHR 0x0A
            then (False, insert_error ld
                    (DIRECTIVE_INST_ERR @ ''Redundant characters after an entry directive''))
            else (True, ld))"

text \<open>In both handlers the test that is meant to find a label reads \<open>lineError\<close>; the
  label name is set to \<open>NULL\<close> when an error has been recorded before.\<close>

definition entry_directive_handling ::
  "string \<Rightarrow> AbstractLineDescriptor \<Rightarrow> AbstractLineDescriptor" where
  "entry_directive_handling line ld =
     (case is_valid_entry_line line ld of
        (False, ld1) \<Rightarrow> insert_error ld1 (DIRECTIVE_INST_ERR @ ''Invalid directive syntax'')
      | (True, ld1) \<Rightarrow>
          let ld2 = (if lineError ld1 \<noteq> None then ld1\<lparr>lineLabelName := None\<rparr> else ld1) in
          case extract_first_word line of
            (False, _) \<Rightarrow> insert_error ld2 ''Entry label extraction failed''
          | (True, lName) \<Rightarrow>
              ld2\<lparr>lineType := DIRECTIVE_INSTRUCTION, entryName := lName, dirType := ENTRY_INST\<rparr>)"

definition is_valid_extern_line ::
  "string \<Rightarrow> AbstractLineDescriptor \<Rightarrow> bool \<times> AbstractLineDescriptor" where
  "is_valid_extern_line line ld =
     (let rest = MOVE_TO_NON_WHITE (MOVE_INDEX_AFTER_WORD (MOVE_TO_NON_WHITE line)) in
      if nth_c rest 0 \<noteq> NUL \<and> nth_c rest 0 \<noteq> CHR 0x0A
      then (False, insert_error ld
              (DIRECTIVE_INST_ERR @ ''Redundant characters after an entry directive''))
      else (True, ld))"

definition extern_directive_handling ::
  "string \<Rightarrow> AbstractLineDescriptor \<Rightarrow> AbstractLineDescriptor" where
  "extern_directive_handling line ld =
     (case is_valid_extern_line line ld of
        (False, ld1) \<Rightarrow> insert_error ld1 (DIRECTIVE_INST_ERR @ ''Invalid syntax'')
      | (True, ld1) \<Rightarrow>
          let ld2 = (if lineError ld1 \<noteq> None then ld1\<lparr>lineLabelName := None\<rparr> else ld1) in
          case extract_first_word line of
            (False, _) \<Rightarrow> insert_error ld2 ''Extern label extraction failed''
          | (True, lName) \<Rightarrow>
              ld2\<lparr>lineType := DIRECTIVE_INSTRUCTION, entryName := lName, dirType := EXTERN_INST\<rparr>)"

subsection \<open>Operands (front_end/addressing_analysis/addressing_analysis.c)\<close>

definition COMMAND_INST_ERR :: string where
  "COMMAND_INST_ERR = ''Invalid Command Instruction Format::''"

definition FIXED_IDX_ADDR_OP_ERR :: string where
  "FIXED_IDX_ADDR_OP_ERR = ''Fixed index addressing operand is not valid''"

text \<open>\<open>extract_label\<close> returns the label for \<open>TRUE\<close> and \<open>None\<close> for \<open>FALSE\<close>.\<close>

definition extract_label :: "string \<Rightarrow> string option" where
  "extract_label operand =
     (if \<not> isalpha_c (nth_c operand 0) then None
      else if \<not> alnum_then_space (drop 1 operand) then None
      else Some operand)"

text \<open>\<open>fixed_index_addressing_label_Extraction\<close> returns its flag and the out-parameter
  \<open>label\<close>, which is \<open>None\<close> where the function returns before it assigns it.\<close>

definition fixed_index_addressing_label_Extraction :: "string \<Rightarrow> bool \<times> string option" where
  "fixed_index_addressing_label_Extraction operand =
     (if \<not> isalpha_c (nth_c operand 0) then (False, None)
      else if CHR ''['' \<notin> set operand \<and> CHR '']'' \<notin> set operand then (False, None)
      else
        let lbl = (if CHR ''['' \<in> set operand then takeWhile (\<lambda>c. c \<noteq> CHR ''['') operand
                   else takeWhile (\<lambda>c. c \<noteq> CHR '']'') operand)
        in (check_symbol_syntax lbl, Some lbl))"

definition is_fixed_index_addressing :: "string \<Rightarrow> bool" where
  "is_fixed_index_addressing word =
     (if \<not> isalpha_c (nth_c word 0) then False
      else
        let r = dropWhile isalnum_c (drop 1 word) in
        if nth_c r 0 \<noteq> CHR ''['' then False
        else
          let inside = takeWhile (\<lambda>c. c \<noteq> CHR '']'') (drop 1 r);
              after = dropWhile (\<lambda>c. c \<noteq> CHR '']'') (drop 1 r)
          in if \<not> list_all isalnum_c inside then False
             else list_all isspace_c (if nth_c after 0 = CHR '']'' then drop 1 after else after))"

definition is_direct_register_addressing :: "string \<Rightarrow> bool" where
  "is_direct_register_addressing word = (get_register word \<noteq> NONE_REG)"

definition is_direct_addressing :: "string \<Rightarrow> bool" where
  "is_direct_addressing word =
     (if \<not> isalpha_c (nth_c word 0) then False
      else if \<not> alnum_then_space (drop 1 word) then False
      else \<not> is_reserved_word_extended (snd (safe_word_extraction_until_comma word)))"

definition upd_operand ::
  "OperandType \<Rightarrow> (Operand \<Rightarrow> Operand) \<Rightarrow> CommandInstruction \<Rightarrow> CommandInstruction" where
  "upd_operand operandType f cmdInst =
     (if operandType = SOURCE_OPERAND then cmdInst\<lparr>sourceOperand := f (sourceOperand cmdInst)\<rparr>
      else cmdInst\<lparr>targetOperand := f (targetOperand cmdInst)\<rparr>)"

definition upd_addressing ::
  "OperandType \<Rightarrow> AddressingType \<Rightarrow> AbstractLineDescriptor \<Rightarrow> AbstractLineDescriptor" where
  "upd_addressing operandType a ld =
     (if operandType = SOURCE_OPERAND
      then ld\<lparr>commandInst := (commandInst ld)\<lparr>sourceOperandAddressingType := a\<rparr>\<rparr>
      else ld\<lparr>commandInst := (commandInst ld)\<lparr>targetOperandAddressingType := a\<rparr>\<rparr>)"

definition handle_immediate_value :: "OperandType \<Rightarrow> int \<Rightarrow> CommandInstruction \<Rightarrow> CommandInstruction" where
  "handle_immediate_value operandType integerValue cmdInst =
     upd_operand operandType
       (\<lambda>opd. opd\<lparr>immediateValue := \<lparr>integerVal = integerValue, constantVal = None\<rparr>\<rparr>) cmdInst"

definition handle_immediate_constant ::
  "OperandType \<Rightarrow> string \<Rightarrow> CommandInstruction \<Rightarrow> CommandInstruction" where
  "handle_immediate_constant operandType constantSymbol cmdInst =
     upd_operand operandType
       (\<lambda>opd. opd\<lparr>immediateValue := (immediateValue opd)\<lparr>constantVal := Some constantSymbol\<rparr>\<rparr>)
       cmdInst"

definition handle_immediate_addressing ::
  "string \<Rightarrow> OperandType \<Rightarrow> AbstractLineDescriptor \<Rightarrow> AbstractLineDescriptor" where
  "handle_immediate_addressing operand0 operandType ld =
     (let operand = drop 1 operand0 in
      case extract_number operand of
        Some integerValue \<Rightarrow>
          ld\<lparr>commandInst := handle_immediate_value operandType integerValue (commandInst ld)\<rparr>
      | None \<Rightarrow>
          (case extract_label operand of
             Some constantSymbol \<Rightarrow>
               ld\<lparr>commandInst := handle_immediate_constant operandType constantSymbol (commandInst ld)\<rparr>
           | None \<Rightarrow> insert_error ld ''Immediate addressing operand is not valid''))"

definition handle_direct_addressing ::
  "string \<Rightarrow> OperandType \<Rightarrow> AbstractLineDescriptor \<Rightarrow> AbstractLineDescriptor" where
  "handle_direct_addressing operand operandType ld =
     (case extract_label operand of
        None \<Rightarrow> insert_error ld ''Direct addressing operand is not valid''
      | Some lbl \<Rightarrow>
          ld\<lparr>commandInst := upd_operand operandType (\<lambda>opd. opd\<lparr>addressingLabel := lbl\<rparr>)
                               (commandInst ld)\<rparr>)"

definition insert_fixed_index_label ::
  "OperandType \<Rightarrow> string \<Rightarrow> CommandInstruction \<Rightarrow> CommandInstruction" where
  "insert_fixed_index_label operandType lbl cmdInst =
     upd_operand operandType
       (\<lambda>opd. opd\<lparr>fixedIndexOperand := (fixedIndexOperand opd)\<lparr>labelName := lbl\<rparr>\<rparr>) cmdInst"

definition handle_fixed_index_indexing ::
  "OperandType \<Rightarrow> int option \<Rightarrow> string option \<Rightarrow> CommandInstruction \<Rightarrow> bool \<times> CommandInstruction" where
  "handle_fixed_index_indexing operandType isInteger isConstant cmdInst =
     (case isInteger of
        Some integerValue \<Rightarrow>
          (True, upd_operand operandType
                   (\<lambda>opd. opd\<lparr>fixedIndexOperand := (fixedIndexOperand opd)
                       \<lparr>numericalAddressingIndex := integerValue,
                        constantAddressingIndex := None\<rparr>\<rparr>) cmdInst)
      | None \<Rightarrow>
          (case isConstant of
             Some constantSymbol \<Rightarrow>
               (True, upd_operand operandType
                        (\<lambda>opd. opd\<lparr>fixedIndexOperand := (fixedIndexOperand opd)
                            \<lparr>constantAddressingIndex := Some constantSymbol\<rparr>\<rparr>) cmdInst)
           | None \<Rightarrow> (False, cmdInst)))"

text \<open>
  In \<open>handle_fixed_index_addressing\<close> the pointer \<open>label\<close> is assigned whenever the operand
  starts with a letter and holds a bracket, which \<open>is_fixed_index_addressing\<close> has checked
  before the call; for any other operand the C code would read the pointer uninitialised and
  the model leaves the label of the descriptor as it is.
\<close>

definition handle_fixed_index_addressing ::
  "string \<Rightarrow> OperandType \<Rightarrow> AbstractLineDescriptor \<Rightarrow> AbstractLineDescriptor" where
  "handle_fixed_index_addressing operand0 operandType ld =
     (let (found, lbl) = fixed_index_addressing_label_Extraction operand0;
          ld1 = (if \<not> found then insert_error ld (COMMAND_INST_ERR @ FIXED_IDX_ADDR_OP_ERR) else ld);
          operand = MOVE_POINTER_AFTER_BRACKET operand0;
          isInteger = extract_number operand;
          (isConstant, constantSymbol) = fixed_index_addressing_label_Extraction operand;
          cmd1 = (case lbl of None \<Rightarrow> commandInst ld1
                  | Some l \<Rightarrow> insert_fixed_index_label operandType l (commandInst ld1));
          (noErrors, cmd2) =
             handle_fixed_index_indexing operandType isInteger
               (if isConstant then constantSymbol else None) cmd1;
          ld2 = ld1\<lparr>commandInst := cmd2\<rparr>
      in if \<not> noErrors then insert_error ld2 (COMMAND_INST_ERR @ FIXED_IDX_ADDR_OP_ERR) else ld2)"

definition handle_direct_register_addressing ::
  "string \<Rightarrow> OperandType \<Rightarrow> AbstractLineDescriptor \<Rightarrow> AbstractLineDescriptor" where
  "handle_direct_register_addressing operand operandType ld =
     (let r = get_register operand in
      if r = NONE_REG
      then insert_error ld (COMMAND_INST_ERR @ ''Direct register addressing operand is not valid'')
      else ld\<lparr>commandInst := upd_operand operandType (\<lambda>opd. opd\<lparr>reg := r\<rparr>) (commandInst ld)\<rparr>)"

subsection \<open>Commands (front_end/command_parser/command_instruction_parser.c)\<close>

definition determine_opcode_category :: "string \<Rightarrow> OpcodeCategory" where
  "determine_opcode_category word =
     (if word \<in> set twoOperandsOpcodes then TWO_OPERANDS
      else if word \<in> set oneOperandOpcodes then ONE_OPERAND
      else if word \<in> set noOperandsOpcodes then NO_OPERANDS
      else NONE_CATEGORY)"

fun which_opcode_loop :: "string \<Rightarrow> (Opcode \<times> string) list \<Rightarrow> Opcode" where
  "which_opcode_loop name [] = NONE_OP"
| "which_opcode_loop name (e # es) = (if name = snd e then fst e else which_opcode_loop name es)"

definition which_opcode :: "string \<Rightarrow> Opcode" where
  "which_opcode name =
     (if name = [] then NONE_OP
      else which_opcode_loop name (take NUMBER_OF_OPCODES opcodeDictionary))"

definition handle_operand ::
  "string \<Rightarrow> OperandType \<Rightarrow> AbstractLineDescriptor \<Rightarrow> bool \<times> AbstractLineDescriptor" where
  "handle_operand operand operandType ld =
     (if nth_c operand 0 = CHR ''#''
      then (True, handle_immediate_addressing operand operandType
                    (upd_addressing operandType IMMEDIATE_ADDR ld))
      else if is_direct_addressing operand
      then (True, handle_direct_addressing operand operandType
                    (upd_addressing operandType DIRECT_ADDR ld))
      else if is_fixed_index_addressing operand
      then (True, handle_fixed_index_addressing operand operandType
                    (upd_addressing operandType FIXED_IDX_ADDR ld))
      else if is_direct_register_addressing operand
      then (True, handle_direct_register_addressing operand operandType
                    (upd_addressing operandType DIRECT_REGISTER_ADDR ld))
      else (False, insert_error ld (COMMAND_INST_ERR @ ''Operand is not recognized or supported'')))"

definition OPCODE_FORMAT_ERR :: string where
  "OPCODE_FORMAT_ERR =
     ''Invalid Opcode Format::The specified operation code is not recognized or supported''"

definition MISSING_OPERAND_ERR :: string where
  "MISSING_OPERAND_ERR =
     ''Inadequate instruction format. Operand are required for this instruction''"

definition REDUNDANT_VAL_CMD_ERR :: string where
  "REDUNDANT_VAL_CMD_ERR = ''Redundant values after a command instruction operand''"

definition set_command ::
  "AbstractLineDescriptor \<Rightarrow> Opcode \<Rightarrow> OpcodeCategory \<Rightarrow> AbstractLineDescriptor" where
  "set_command ld opcodeType n =
     ld\<lparr>lineType := COMMAND_INSTRUCTION,
        commandInst := (commandInst ld)\<lparr>opcodeCommand := opcodeType, numOfOperands := n\<rparr>\<rparr>"

text \<open>The branch the two handlers below share for an operand that is missing: \<open>line\<close>
  is the pointer after the first token.\<close>

definition missing_operand_branch ::
  "string \<Rightarrow> Opcode \<Rightarrow> AbstractLineDescriptor \<Rightarrow> AbstractLineDescriptor" where
  "missing_operand_branch line opcodeType ld =
     (if \<not> (opcodeType = RTS_OP \<or> opcodeType = HLT_OP)
      then insert_error ld (COMMAND_INST_ERR @ MISSING_OPERAND_ERR)
      else if fst (extract_token_until_comma (MOVE_TO_NEXT_WORD line)) \<noteq> []
      then insert_error ld (COMMAND_INST_ERR @ REDUNDANT_VAL_CMD_ERR)
      else set_command ld opcodeType NO_OPERANDS)"

definition handle_two_operands_opcode ::
  "string \<Rightarrow> AbstractLineDescriptor \<Rightarrow> AbstractLineDescriptor" where
  "handle_two_operands_opcode line0 ld =
     (let line1 = MOVE_TO_NON_WHITE line0;
          opcodeType = which_opcode (snd (extract_first_word line1))
      in if opcodeType = NONE_OP then insert_error ld (COMMAND_INST_ERR @ OPCODE_FORMAT_ERR)
         else
           (case extract_token_until_comma (MOVE_TO_NEXT_WORD line1) of
              (firstOperand, line2) \<Rightarrow>
                if firstOperand = [] then missing_operand_branch line2 opcodeType ld
                else
                  (case handle_operand firstOperand SOURCE_OPERAND ld of
                     (False, ld1) \<Rightarrow> ld1
                   | (True, ld1) \<Rightarrow>
                       if nth_c line2 0 \<noteq> CHR '',''
                       then insert_error ld1 (COMMAND_INST_ERR @ ''Missing comma'')
                       else
                         (case extract_token_until_comma (MOVE_TO_NON_WHITE (drop 1 line2)) of
                            (secondOperand, line3) \<Rightarrow>
                              (case handle_operand secondOperand TARGET_OPERAND ld1 of
                                 (False, ld2) \<Rightarrow> ld2
                               | (True, ld2) \<Rightarrow> set_command ld2 opcodeType TWO_OPERANDS)))))"

definition handle_one_operands_opcode ::
  "string \<Rightarrow> AbstractLineDescriptor \<Rightarrow> AbstractLineDescriptor" where
  "handle_one_operands_opcode line0 ld =
     (let line1 = MOVE_TO_NON_WHITE line0;
          opcodeType = which_opcode (snd (extract_first_word line1))
      in if opcodeType = NONE_OP then insert_error ld (COMMAND_INST_ERR @ OPCODE_FORMAT_ERR)
         else
           (case extract_token_until_comma (MOVE_TO_NEXT_WORD line1) of
              (operand, line2) \<Rightarrow>
                if operand = [] then missing_operand_branch line2 opcodeType ld
                else
                  (case handle_operand operand TARGET_OPERAND ld of
                     (False, ld1) \<Rightarrow> set_command ld1 opcodeType ONE_OPERAND
                   | (True, ld1) \<Rightarrow>
                       if nth_c (MOVE_TO_NON_WHITE line2) 0 \<noteq> NUL
                       then insert_error ld1 (COMMAND_INST_ERR @ REDUNDANT_VAL_CMD_ERR)
                       else set_command ld1 opcodeType ONE_OPERAND)))"

definition handle_no_operands_opcode ::
  "string \<Rightarrow> AbstractLineDescriptor \<Rightarrow> AbstractLineDescriptor" where
  "handle_no_operands_opcode line0 ld =
     (let line1 = MOVE_TO_NON_WHITE line0;
          opcodeType = which_opcode (snd (extract_first_word line1))
      in if opcodeType = NONE_OP then insert_error ld (COMMAND_INST_ERR @ OPCODE_FORMAT_ERR)
         else if fst (extract_token_until_comma (MOVE_TO_NEXT_WORD line1)) \<noteq> []
         then insert_error ld (COMMAND_INST_ERR @ REDUNDANT_VAL_CMD_ERR)
         else set_command ld opcodeType NO_OPERANDS)"

subsection \<open>The line descriptor of a line (first_pass.c)\<close>

text \<open>
  The cells of the array of line descriptors come from \<open>calloc\<close>, so the members that
  \<open>line_descriptor_initialization\<close> does not assign are zero: null pointers (the empty
  string or \<open>None\<close>), the number 0 and the enumerators of value 0. The cells past the
  first ten come from \<open>realloc\<close> and are indeterminate; the passes read only members the
  parser has assigned, and the model takes those cells as zero too.
\<close>

definition zero_operand :: Operand where
  "zero_operand =
     \<lparr>immediateValue = \<lparr>integerVal = 0, constantVal = None\<rparr>, addressingLabel = [],
      fixedIndexOperand =
        \<lparr>labelName = [], numericalAddressingIndex = 0, constantAddressingIndex = None\<rparr>,
      reg = R0\<rparr>"

definition zero_line_descriptor :: AbstractLineDescriptor where
  "zero_line_descriptor =
     \<lparr>lineError = None, lineLabelName = None, lineType = EMPTY, dirType = DATA_INST,
      dataInst = [], stringInst = [], entryName = [],
      commandInst =
        \<lparr>opcodeCommand = MOV_OP, numOfOperands = NO_OPERANDS, sourceOperand = zero_operand,
         targetOperand = zero_operand, sourceOperandAddressingType = IMMEDIATE_ADDR,
         targetOperandAddressingType = IMMEDIATE_ADDR\<rparr>,
      constDefInst = \<lparr>constName = [], constValue = 0\<rparr>\<rparr>"

definition line_descriptor_initialization :: "AbstractLineDescriptor \<Rightarrow> AbstractLineDescriptor" where
  "line_descriptor_initialization ld =
     ld\<lparr>lineError := None, lineLabelName := None, lineType := INIT_VAL, dirType := NONE_DIR\<rparr>"

definition GEN_SYNTAX_ERR :: string where "GEN_SYNTAX_ERR = ''Syntax Error::''"
definition INPUT_FORMAT_ERR :: string where "INPUT_FORMAT_ERR = ''Invalid input format''"

text \<open>The part of \<open>line_descriptor_builder\<close> after the label: \<open>wordPtr\<close> is the word the
  pointer \<open>line\<close> is at. The result is \<open>None\<close> where a handler does not return.\<close>

definition build_instruction ::
  "string \<Rightarrow> string \<Rightarrow> AbstractLineDescriptor \<Rightarrow> TranslationUnit \<Rightarrow> AbstractLineDescriptor option" where
  "build_instruction line wordPtr ld tu =
     (if is_directive wordPtr \<and> is_data wordPtr
        then data_directive_handling ld tu (MOVE_TO_NEXT_WORD line)
      else if is_directive wordPtr \<and> is_string wordPtr
        then string_directive_handling (MOVE_TO_NEXT_WORD line) ld
      else if is_directive wordPtr \<and> is_entry wordPtr
        then Some (entry_directive_handling (MOVE_TO_NEXT_WORD line) ld)
      else if is_directive wordPtr \<and> is_extern wordPtr
        then Some (extern_directive_handling (MOVE_TO_NEXT_WORD line) ld)
      else
        (let line1 = (if is_directive wordPtr then MOVE_TO_NEXT_WORD line else line) in
         if is_command_instruction wordPtr then
           (let ld1 = ld\<lparr>commandInst := (commandInst ld)
                          \<lparr>sourceOperandAddressingType := NONE_ADDR,
                           targetOperandAddressingType := NONE_ADDR\<rparr>\<rparr>
            in case determine_opcode_category wordPtr of
                 TWO_OPERANDS \<Rightarrow> Some (handle_two_operands_opcode line1 ld1)
               | ONE_OPERAND \<Rightarrow> Some (handle_one_operands_opcode line1 ld1)
               | NO_OPERANDS \<Rightarrow> Some (handle_no_operands_opcode line1 ld1)
               | NONE_CATEGORY \<Rightarrow> Some (insert_error ld1 (GEN_SYNTAX_ERR @ INPUT_FORMAT_ERR)))
         else Some (insert_error ld (GEN_SYNTAX_ERR @ INPUT_FORMAT_ERR))))"

definition line_descriptor_builder ::
  "string \<Rightarrow> AbstractLineDescriptor \<Rightarrow> TranslationUnit \<Rightarrow> MacroTable
     \<Rightarrow> (AbstractLineDescriptor \<times> TranslationUnit) option" where
  "line_descriptor_builder line0 cell tu macroTable =
     (let ld0 = line_descriptor_initialization cell;
          line = MOVE_TO_NON_WHITE line0
      in if is_line_empty line then Some (ld0\<lparr>lineType := EMPTY\<rparr>, tu)
         else if is_comment_line line then Some (ld0\<lparr>lineType := COMMENT\<rparr>, tu)
         else
           (let wordPtr = snd (extract_first_word line) in
            if is_define wordPtr then Some (constant_definition_handling line ld0 tu macroTable)
            else
              (case is_label wordPtr macroTable ld0 of
                 (True, ld1) \<Rightarrow>
                   map_option (\<lambda>ld. (ld, tu))
                     (build_instruction (MOVE_TO_NEXT_WORD line)
                        (snd (extract_first_word (MOVE_TO_NEXT_WORD line)))
                        (insert_label_name_to_LineDescriptor ld1 wordPtr) tu)
               | (False, ld1) \<Rightarrow>
                   map_option (\<lambda>ld. (ld, tu)) (build_instruction line wordPtr ld1 tu))))"

subsection \<open>The first pass (first_pass.c)\<close>

record FirstPassState =
  fp_prog :: AbstractProgram
  fp_tu :: TranslationUnit
  fp_ic :: nat
  fp_dc :: nat
  fp_lineCount :: nat
  fp_errorFlag :: bool

definition fp_error :: "FirstPassState \<Rightarrow> FirstPassState" where
  "fp_error st = st\<lparr>fp_lineCount := fp_lineCount st + 1, fp_errorFlag := True\<rparr>"

definition fp_next :: "FirstPassState \<Rightarrow> FirstPassState" where
  "fp_next st = st\<lparr>fp_lineCount := fp_lineCount st + 1\<rparr>"

text \<open>The part of the loop body for an \<open>.entry\<close> or \<open>.extern\<close> line.\<close>

definition first_pass_entry_extern :: "AbstractLineDescriptor \<Rightarrow> FirstPassState \<Rightarrow> FirstPassState" where
  "first_pass_entry_extern ld st =
     (case find_symbol (entryName ld) (symbolTable (fp_tu st)) of
        Some labelFinder \<Rightarrow>
          if dirType ld = ENTRY_INST then
            (if symbolType labelFinder = CODE_LABEL then
               fp_next (st\<lparr>fp_tu := (fp_tu st)\<lparr>symbolTable :=
                 update_symbol (entryName ld) (\<lambda>s. s\<lparr>symbolType := ENTRY_CODE_LABEL\<rparr>)
                   (symbolTable (fp_tu st))\<rparr>\<rparr>)
             else if symbolType labelFinder = DATA_LABEL then
               fp_next (st\<lparr>fp_tu := (fp_tu st)\<lparr>symbolTable :=
                 update_symbol (entryName ld) (\<lambda>s. s\<lparr>symbolType := ENTRY_DATA_LABEL\<rparr>)
                   (symbolTable (fp_tu st))\<rparr>\<rparr>)
             else fp_error st)
          else fp_error st
      | None \<Rightarrow>
          if dirType ld = ENTRY_INST then
            fp_next (st\<lparr>fp_tu :=
              insert_symbol_to_table ld (fp_tu st) (fp_ic st) (fp_dc st) TEMP_ENTRY_LABEL\<rparr>)
          else if dirType ld = EXTERN_INST then
            fp_next (st\<lparr>fp_tu :=
              insert_symbol_to_table ld (fp_tu st) (fp_ic st) (fp_dc st) EXTERN_LABEL\<rparr>)
          else fp_next st)"

text \<open>The part of the loop body after the label has been handled.\<close>

definition first_pass_instruction :: "AbstractLineDescriptor \<Rightarrow> FirstPassState \<Rightarrow> FirstPassState" where
  "first_pass_instruction ld st =
     (if lineType ld = CONSTANT_DEF_INSTRUCTION then
        (case find_symbol (constName (constDefInst ld)) (symbolTable (fp_tu st)) of
           Some labelFinder \<Rightarrow> fp_error st
         | None \<Rightarrow>
             fp_next (st\<lparr>fp_tu :=
               insert_symbol_to_table ld (fp_tu st) (fp_ic st) (fp_dc st) DEFINED_CONSTANT\<rparr>))
      else if lineType ld = COMMAND_INSTRUCTION \<and> \<not> is_legal_command ld then fp_error st
      else
        let st1 = (if lineType ld = COMMAND_INSTRUCTION
                   then st\<lparr>fp_ic := nat (int (fp_ic st) + ic_promoter ld)\<rparr> else st);
            st2 = (if lineType ld = DIRECTIVE_INSTRUCTION \<and>
                      (dirType ld = DATA_INST \<or> dirType ld = STRING_INST)
                   then (case handle_data_image ld (fp_tu st1) (fp_dc st1) of
                           (dc', tu') \<Rightarrow> st1\<lparr>fp_dc := dc', fp_tu := tu'\<rparr>)
                   else st1)
        in if lineType ld = DIRECTIVE_INSTRUCTION \<and>
              (dirType ld = ENTRY_INST \<or> dirType ld = EXTERN_INST)
           then first_pass_entry_extern ld st2
           else fp_next st2)"

text \<open>The loop body from the test of \<open>lineError\<close> on, for the descriptor \<open>ld\<close> of the line.\<close>

definition first_pass_line :: "AbstractLineDescriptor \<Rightarrow> FirstPassState \<Rightarrow> FirstPassState" where
  "first_pass_line ld st =
     (if \<not> is_null_or_empty (lineError ld) then fp_error st
      else if lineType ld = EMPTY \<or> lineType ld = COMMENT then fp_next st
      else if \<not> is_null_or_empty (lineLabelName ld) then
        (case handle_label ld (fp_tu st) (fp_ic st) (fp_dc st) of
           (True, tu') \<Rightarrow> fp_error (st\<lparr>fp_tu := tu'\<rparr>)
         | (False, tu') \<Rightarrow> first_pass_instruction ld (st\<lparr>fp_tu := tu'\<rparr>))
      else first_pass_instruction ld st)"

text \<open>
  One round of the loop on the text of a line: \<open>progSize\<close> is incremented from the second
  line on, the descriptor is built into the cell \<open>lines[progSize]\<close>, which is the cell after
  the descriptors built so far, and the line is processed.
\<close>

definition first_pass_step :: "MacroTable \<Rightarrow> string \<Rightarrow> FirstPassState \<Rightarrow> FirstPassState option" where
  "first_pass_step macroTable line st =
     (let prog1 = (if fp_lineCount st > 1
                   then (fp_prog st)\<lparr>progSize := progSize (fp_prog st) + 1\<rparr> else fp_prog st)
      in case line_descriptor_builder line zero_line_descriptor (fp_tu st) macroTable of
           None \<Rightarrow> None
         | Some (ld, tu1) \<Rightarrow>
             Some (first_pass_line ld
                     (st\<lparr>fp_prog := prog1\<lparr>lines := take (progSize prog1) (lines prog1) @ [ld]\<rparr>,
                         fp_tu := tu1\<rparr>)))"

fun first_pass_loop :: "MacroTable \<Rightarrow> string list \<Rightarrow> FirstPassState \<Rightarrow> FirstPassState option" where
  "first_pass_loop macroTable [] st = Some st"
| "first_pass_loop macroTable (l # ls) st =
     (case first_pass_step macroTable l st of
        None \<Rightarrow> None
      | Some st' \<Rightarrow> first_pass_loop macroTable ls st')"

definition first_pass_finish :: "FirstPassState \<Rightarrow> bool \<times> AbstractProgram \<times> TranslationUnit" where
  "first_pass_finish st =
     (let tu1 = (if IC (fp_tu st) > 0 then (fp_tu st)\<lparr>IC := IC (fp_tu st) - 1\<rparr> else fp_tu st)
      in case process_symbol_table tu1 (fp_ic st) of
           (tempErrorFlag, tu2) \<Rightarrow> (\<not> (tempErrorFlag \<or> fp_errorFlag st), fp_prog st, tu2))"

text \<open>\<open>first_pass\<close> on the lines \<open>fgets\<close> reads from the \<open>.am\<close> file: the success flag,
  the abstract program and the translation unit.\<close>

definition first_pass_init :: "AbstractProgram \<Rightarrow> TranslationUnit \<Rightarrow> FirstPassState" where
  "first_pass_init abstractProgram tu =
     \<lparr>fp_prog = abstractProgram, fp_tu = tu, fp_ic = IC_INIT_VALUE, fp_dc = 0,
      fp_lineCount = 1, fp_errorFlag = False\<rparr>"

definition first_pass ::
  "AbstractProgram \<Rightarrow> TranslationUnit \<Rightarrow> MacroTable \<Rightarrow> string list
     \<Rightarrow> (bool \<times> AbstractProgram \<times> TranslationUnit) option" where
  "first_pass abstractProgram tu macroTable amLines =
     map_option first_pass_finish
       (first_pass_loop macroTable amLines (first_pass_init abstractProgram tu))"

section \<open>Files (assembler.c, pre_assembler.c, file_generation.c)\<close>

subsection \<open>Reading lines\<close>

text \<open>\<open>fgets(buf, n, f)\<close> reads at most \<open>n - 1\<close> characters and stops after a newline;
  \<open>fgets_all\<close> is the list of the strings it returns until the end of the file.\<close>

definition fgets_one :: "nat \<Rightarrow> string \<Rightarrow> string" where
  "fgets_one n s =
     (let c = take (n - 1) s; pre = takeWhile (\<lambda>x. x \<noteq> CHR 0x0A) c
      in if length pre < length c then pre @ [CHR 0x0A] else pre)"

function fgets_all :: "nat \<Rightarrow> string \<Rightarrow> string list" where
  "fgets_all n s =
     (if s = [] \<or> fgets_one n s = [] then []
      else fgets_one n s # fgets_all n (drop (length (fgets_one n s)) s))"
  by pat_completeness auto
termination
  by (relation "measure (\<lambda>(n, s). length s)") auto

definition MAX_LINE_LENGTH :: nat where "MAX_LINE_LENGTH = 80"

subsection \<open>Preprocessor\<close>

datatype PreProcessorLineType = MACRO_DEF | MACRO_END_DEF | MACRO_CALL | OTHER_LINE

definition is_macro_def :: "string \<Rightarrow> bool" where
  "is_macro_def firstWord = (take 3 firstWord = ''mcr'')"

definition is_macro_end_def :: "string \<Rightarrow> bool" where
  "is_macro_end_def word = (take 6 word = ''endmcr'')"

definition find_macro_in_table :: "MacroTable \<Rightarrow> string \<Rightarrow> Macro option" where
  "find_macro_in_table macroTable mName = find (\<lambda>m. macroName m = mName) macroTable"

definition is_macro_call :: "string \<Rightarrow> MacroTable \<Rightarrow> bool" where
  "is_macro_call firstWord macroTable = (find_macro_in_table macroTable firstWord \<noteq> None)"

definition determine_line_type :: "MacroTable \<Rightarrow> string \<Rightarrow> PreProcessorLineType" where
  "determine_line_type macroTable firstWord =
     (if is_macro_def firstWord then MACRO_DEF
      else if is_macro_end_def firstWord then MACRO_END_DEF
      else if is_macro_call firstWord macroTable then MACRO_CALL
      else OTHER_LINE)"

text \<open>
  \<open>sscanf(lineBuffer, "%s %s", firstWord, second_word)\<close> stores the first two words of the
  line, a word being a longest run of characters that are not white space. A buffer whose
  word is missing keeps what it held; before the first line the two buffers are
  indeterminate, and their contents are parameters of \<open>preprocessor\<close>.
\<close>

definition sscanf_two_words :: "string \<Rightarrow> string \<Rightarrow> string \<Rightarrow> string \<times> string" where
  "sscanf_two_words lineBuffer firstWord second_word =
     (let l1 = dropWhile isspace_c lineBuffer;
          w1 = takeWhile (\<lambda>c. \<not> isspace_c c) l1;
          l2 = dropWhile isspace_c (dropWhile (\<lambda>c. \<not> isspace_c c) l1);
          w2 = takeWhile (\<lambda>c. \<not> isspace_c c) l2
      in if w1 = [] then (firstWord, second_word)
         else if w2 = [] then (w1, second_word)
         else (w1, w2))"

definition is_valid_macro_name :: "MacroTable \<Rightarrow> string \<Rightarrow> bool" where
  "is_valid_macro_name macroTable mName =
     (if mName = [] then False
      else if is_reserved_word_extended mName then False
      else find_macro_in_table macroTable mName = None)"

text \<open>\<open>add_line_to_macro\<close> on \<open>macroPtr\<close>, which points to the macro defined last.\<close>

definition add_line_to_macro :: "MacroTable \<Rightarrow> string \<Rightarrow> MacroTable" where
  "add_line_to_macro macroTable lineBuffer =
     (if macroTable = [] then macroTable
      else butlast macroTable
           @ [(last macroTable)
                \<lparr>content := Some ((case content (last macroTable) of None \<Rightarrow> [] | Some c \<Rightarrow> c)
                                  @ lineBuffer)\<rparr>])"

text \<open>
  The loop of \<open>preprocessor\<close> carries the macro table, \<open>macroFlag\<close>, the two word buffers
  and the text written to the \<open>.am\<close> file. Its result is \<open>None\<close> where the run is not
  defined, and else the value returned, the text of the \<open>.am\<close> file and the macro table.

  For a macro definition with an invalid name the function returns \<open>FALSE\<close>. \<open>set_macro\<close> is
  called with the content \<open>NULL\<close> and does not assign the field \<open>content\<close> of the new macro;
  the model takes the field to be \<open>NULL\<close> and the block \<open>realloc\<close> returns to hold the empty
  string, as on a fresh heap. The table is allocated as one \<open>MacroTable\<close>, and
  \<open>add_macro_to_table\<close> stores the macro in \<open>macroTable[macroCount]\<close>: the first macro goes
  into that one cell, where \<open>find_macro_in_table\<close> and \<open>is_macro\<close> read it; for a second
  macro the store is outside the table, and the result is \<open>None\<close>. A call of a macro whose
  content is \<open>NULL\<close> passes \<open>NULL\<close> to \<open>fputs\<close>, which is \<open>None\<close> too.
\<close>

fun preprocessor_loop ::
  "string list \<Rightarrow> MacroTable \<Rightarrow> bool \<Rightarrow> string \<Rightarrow> string \<Rightarrow> string
     \<Rightarrow> (bool \<times> string \<times> MacroTable) option" where
  "preprocessor_loop [] macroTable macroFlag firstWord second_word amFile =
     Some (True, amFile, macroTable)"
| "preprocessor_loop (lineBuffer # ls) macroTable macroFlag firstWord second_word amFile =
     (case sscanf_two_words lineBuffer firstWord second_word of
        (firstWord', second_word') \<Rightarrow>
          (case determine_line_type macroTable firstWord' of
             MACRO_DEF \<Rightarrow>
               if \<not> is_valid_macro_name macroTable second_word'
               then Some (False, amFile, macroTable)
               else if macroTable \<noteq> [] then None
               else preprocessor_loop ls
                      (macroTable @ [\<lparr>macroName = second_word', content = None\<rparr>])
                      True firstWord' second_word' amFile
           | MACRO_END_DEF \<Rightarrow>
               preprocessor_loop ls macroTable False firstWord' second_word' amFile
           | MACRO_CALL \<Rightarrow>
               (case find_macro_in_table macroTable firstWord' of
                  None \<Rightarrow> preprocessor_loop ls macroTable macroFlag firstWord' second_word' amFile
                | Some calledMacro \<Rightarrow>
                    (case content calledMacro of
                       None \<Rightarrow> None
                     | Some c \<Rightarrow>
                         preprocessor_loop ls macroTable macroFlag firstWord' second_word'
                           (amFile @ c)))
           | OTHER_LINE \<Rightarrow>
               if macroFlag
               then preprocessor_loop ls (add_line_to_macro macroTable lineBuffer) macroFlag
                      firstWord' second_word' amFile
               else preprocessor_loop ls macroTable macroFlag firstWord' second_word'
                      (amFile @ lineBuffer)))"

definition preprocessor ::
  "string \<Rightarrow> string \<Rightarrow> string \<Rightarrow> (bool \<times> string \<times> MacroTable) option" where
  "preprocessor firstWord0 secondWord0 asFile =
     preprocessor_loop (fgets_all MAX_LINE_LENGTH asFile) [] False firstWord0 secondWord0 []"

subsection \<open>Output files\<close>

definition SpecialBase4 :: "char list" where
  "SpecialBase4 = [CHR ''*'', CHR ''#'', CHR ''%'', CHR ''!'']"

definition print_encoded_base4_machine_word :: "uint \<Rightarrow> string" where
  "print_encoded_base4_machine_word code =
     map (\<lambda>i. SpecialBase4 ! unat (drop_bit i code AND 3)) [12, 10, 8, 6, 4, 2, 0]"

text \<open>The conversions \<open>%lu\<close> and \<open>%04d\<close> of \<open>fprintf\<close>.\<close>

fun nat_dec :: "nat \<Rightarrow> string" where
  "nat_dec n =
     (if n < 10 then [char_of (48 + n)] else nat_dec (n div 10) @ [char_of (48 + n mod 10)])"

definition zero_pad :: "nat \<Rightarrow> string \<Rightarrow> string" where
  "zero_pad w s = replicate (w - length s) (CHR ''0'') @ s"

definition printf_04d :: "int \<Rightarrow> string" where
  "printf_04d i =
     (if i < 0 then CHR ''-'' # zero_pad 3 (nat_dec (nat (- i))) else zero_pad 4 (nat_dec (nat i)))"

definition generate_ob_file :: "uint list \<Rightarrow> nat \<Rightarrow> uint list \<Rightarrow> nat \<Rightarrow> string" where
  "generate_ob_file cImage codeImageLength dImage dataImageLength =
     ''  '' @ nat_dec codeImageLength @ '' '' @ nat_dec dataImageLength @ [CHR 0x0A]
     @ concat (map (\<lambda>i. printf_04d (int i + int IC_INIT_VALUE) @ '' ''
                          @ print_encoded_base4_machine_word (cImage ! i) @ [CHR 0x0A])
                 [0 ..< codeImageLength])
     @ concat (map (\<lambda>j. printf_04d (int j + int codeImageLength + int IC_INIT_VALUE) @ '' ''
                          @ print_encoded_base4_machine_word (dImage ! j) @ [CHR 0x0A])
                 [0 ..< dataImageLength])"

definition ent_line :: "Symbol \<Rightarrow> string" where
  "ent_line e = symbolName e @ [CHR 0x09] @ printf_04d (address e) @ [CHR 0x0A]"

definition generate_ent_file :: "Symbol list \<Rightarrow> string list" where
  "generate_ent_file entList = map ent_line entList"

text \<open>\<open>sortExternals\<close> passes its second argument to \<open>qsort\<close> as the number of cells;
  \<open>generate_ext_file\<close> calls it with 0.\<close>

definition sortExternals :: "ExternalSymbolInfo list \<Rightarrow> nat \<Rightarrow> ExternalSymbolInfo list" where
  "sortExternals extList extCount = qsort_by addresses extCount extList"

definition ext_list_written :: "ExternalSymbolInfo list \<Rightarrow> ExternalSymbolInfo list" where
  "ext_list_written extList = (if length extList > 1 then sortExternals extList 0 else extList)"

definition ext_line :: "ExternalSymbolInfo \<Rightarrow> string" where
  "ext_line e =
     externalName e @ [CHR 0x09] @ printf_04d (addresses e + int IC_INIT_VALUE) @ [CHR 0x0A]"

definition generate_ext_file :: "ExternalSymbolInfo list \<Rightarrow> string list" where
  "generate_ext_file extList = map ext_line (ext_list_written extList)"

text \<open>The files of one run: the text of the \<open>.ob\<close> file and the lines of the \<open>.ent\<close> and the
  \<open>.ext\<close> file, \<open>None\<close> for a file that is not written.\<close>

record OutputFiles =
  ob_file :: "string option"
  ent_file :: "string list option"
  ext_file :: "string list option"

definition no_files :: OutputFiles where
  "no_files = \<lparr>ob_file = None, ent_file = None, ext_file = None\<rparr>"

definition generate_files :: "TranslationUnit \<Rightarrow> OutputFiles" where
  "generate_files tu =
     \<lparr>ob_file = Some (generate_ob_file (codeImage tu) (IC tu) (dataImage tu) (DC tu)),
      ent_file = (if length (entryList tu) > 0 then Some (generate_ent_file (entryList tu))
                  else None),
      ext_file = (if length (externalsList tu) > 0 then Some (generate_ext_file (externalsList tu))
                  else None)\<rparr>"

subsection \<open>One input file\<close>

text \<open>\<open>assemble_am\<close> is \<open>process_file\<close> from the first pass on, on the text of the \<open>.am\<close>
  file; the macro table is the one the preprocessor leaves.\<close>

definition assemble_am :: "MacroTable \<Rightarrow> string \<Rightarrow> OutputFiles option" where
  "assemble_am macroTable amFile =
     (case first_pass initialize_abstract_program initialize_translation_unit macroTable
             (fgets_all (MAX_LINE_LENGTH + 1) amFile) of
        None \<Rightarrow> None
      | Some (succeeded, absProg, tu) \<Rightarrow>
          if \<not> succeeded then Some no_files
          else
            (case second_pass absProg tu of
               (succeeded2, tu2) \<Rightarrow>
                 if \<not> succeeded2 then Some no_files else Some (generate_files tu2)))"

text \<open>\<open>process_file\<close> on the text of the \<open>.as\<close> file: no file is written when the
  preprocessor returns \<open>FALSE\<close>.\<close>

definition process_file :: "string \<Rightarrow> string \<Rightarrow> string \<Rightarrow> OutputFiles option" where
  "process_file firstWord0 secondWord0 asFile =
     (case preprocessor firstWord0 secondWord0 asFile of
        None \<Rightarrow> None
      | Some (succeeded, amFile, macroTable) \<Rightarrow>
          if \<not> succeeded then Some no_files else assemble_am macroTable amFile)"

section \<open>The specification's tables\<close>

text \<open>
  The legality table in the words of the specification: for each opcode the set of
  source modes and the set of target modes, where an opcode that takes no operand in a
  position allows exactly the absent operand \<open>NONE_ADDR\<close> there.
\<close>

fun spec_source_modes :: "Opcode \<Rightarrow> AddressingType set" where
  "spec_source_modes MOV_OP = {IMMEDIATE_ADDR, DIRECT_ADDR, FIXED_IDX_ADDR, DIRECT_REGISTER_ADDR}"
| "spec_source_modes CMP_OP = {IMMEDIATE_ADDR, DIRECT_ADDR, FIXED_IDX_ADDR, DIRECT_REGISTER_ADDR}"
| "spec_source_modes ADD_OP = {IMMEDIATE_ADDR, DIRECT_ADDR, FIXED_IDX_ADDR, DIRECT_REGISTER_ADDR}"
| "spec_source_modes SUB_OP = {IMMEDIATE_ADDR, DIRECT_ADDR, FIXED_IDX_ADDR, DIRECT_REGISTER_ADDR}"
| "spec_source_modes LEA_OP = {DIRECT_ADDR, FIXED_IDX_ADDR}"
| "spec_source_modes NOT_OP = {NONE_ADDR}"
| "spec_source_modes CLR_OP = {NONE_ADDR}"
| "spec_source_modes INC_OP = {NONE_ADDR}"
| "spec_source_modes DEC_OP = {NONE_ADDR}"
| "spec_source_modes RED_OP = {NONE_ADDR}"
| "spec_source_modes JMP_OP = {NONE_ADDR}"
| "spec_source_modes BNE_OP = {NONE_ADDR}"
| "spec_source_modes JSR_OP = {NONE_ADDR}"
| "spec_source_modes PRN_OP = {NONE_ADDR}"
| "spec_source_modes RTS_OP = {NONE_ADDR}"
| "spec_source_modes HLT_OP = {NONE_ADDR}"
| "spec_source_modes NONE_OP = {}"

fun spec_target_modes :: "Opcode \<Rightarrow> AddressingType set" where
  "spec_target_modes MOV_OP = {DIRECT_ADDR, FIXED_IDX_ADDR, DIRECT_REGISTER_ADDR}"
| "spec_target_modes ADD_OP = {DIRECT_ADDR, FIXED_IDX_ADDR, DIRECT_REGISTER_ADDR}"
| "spec_target_modes SUB_OP = {DIRECT_ADDR, FIXED_IDX_ADDR, DIRECT_REGISTER_ADDR}"
| "spec_target_modes CMP_OP = {IMMEDIATE_ADDR, DIRECT_ADDR, FIXED_IDX_ADDR, DIRECT_REGISTER_ADDR}"
| "spec_target_modes LEA_OP = {DIRECT_ADDR, FIXED_IDX_ADDR, DIRECT_REGISTER_ADDR}"
| "spec_target_modes NOT_OP = {DIRECT_ADDR, FIXED_IDX_ADDR, DIRECT_REGISTER_ADDR}"
| "spec_target_modes CLR_OP = {DIRECT_ADDR, FIXED_IDX_ADDR, DIRECT_REGISTER_ADDR}"
| "spec_target_modes INC_OP = {DIRECT_ADDR, FIXED_IDX_ADDR, DIRECT_REGISTER_ADDR}"
| "spec_target_modes DEC_OP = {DIRECT_ADDR, FIXED_IDX_ADDR, DIRECT_REGISTER_ADDR}"
| "spec_target_modes RED_OP = {DIRECT_ADDR, FIXED_IDX_ADDR, DIRECT_REGISTER_ADDR}"
| "spec_target_modes JMP_OP = {DIRECT_ADDR, DIRECT_REGISTER_ADDR}"
| "spec_target_modes BNE_OP = {DIRECT_ADDR, DIRECT_REGISTER_ADDR}"
| "spec_target_modes JSR_OP = {DIRECT_ADDR, DIRECT_REGISTER_ADDR}"
| "spec_target_modes PRN_OP = {IMMEDIATE_ADDR, DIRECT_ADDR, FIXED_IDX_ADDR, DIRECT_REGISTER_ADDR}"
| "spec_target_modes RTS_OP = {NONE_ADDR}"
| "spec_target_modes HLT_OP = {NONE_ADDR}"
| "spec_target_modes NONE_OP = {}"

text \<open>The words an operand contributes, in the words of the specification.\<close>

fun spec_operand_words :: "AddressingType \<Rightarrow> nat" where
  "spec_operand_words IMMEDIATE_ADDR = 1"
| "spec_operand_words DIRECT_ADDR = 1"
| "spec_operand_words FIXED_IDX_ADDR = 2"
| "spec_operand_words DIRECT_REGISTER_ADDR = 1"
| "spec_operand_words NONE_ADDR = 0"

definition both_direct_register :: "AbstractLineDescriptor \<Rightarrow> bool" where
  "both_direct_register ld =
     (sourceOperandAddressingType (commandInst ld) = DIRECT_REGISTER_ADDR \<and>
      targetOperandAddressingType (commandInst ld) = DIRECT_REGISTER_ADDR)"

text \<open>
  The symbol each word of a command references, in the words of the specification: the
  first word, an immediate word, an index word and a register word reference none; the
  word of a direct operand and the first word of a fixed-index operand reference the
  label of the operand. \<open>program_refs\<close> lists them for the lines the second pass walks.
\<close>

fun operand_refs :: "AddressingType \<Rightarrow> Operand \<Rightarrow> string option list" where
  "operand_refs NONE_ADDR operand = []"
| "operand_refs IMMEDIATE_ADDR operand = [None]"
| "operand_refs DIRECT_ADDR operand = [Some (addressingLabel operand)]"
| "operand_refs FIXED_IDX_ADDR operand = [Some (labelName (fixedIndexOperand operand)), None]"
| "operand_refs DIRECT_REGISTER_ADDR operand = [None]"

definition line_refs :: "AbstractLineDescriptor \<Rightarrow> string option list" where
  "line_refs ld =
     (if lineType ld \<noteq> COMMAND_INSTRUCTION then []
      else if both_direct_register ld then [None, None]
      else None # operand_refs (sourceOperandAddressingType (commandInst ld))
                    (sourceOperand (commandInst ld))
                @ operand_refs (targetOperandAddressingType (commandInst ld))
                    (targetOperand (commandInst ld)))"

definition program_refs :: "AbstractProgram \<Rightarrow> string option list" where
  "program_refs absProgram = concat (map line_refs (take (progSize absProgram) (lines absProgram)))"

definition names_extern :: "Symbol list \<Rightarrow> string \<Rightarrow> bool" where
  "names_extern syms n =
     (case find_symbol n syms of None \<Rightarrow> False | Some s \<Rightarrow> symbolType s = EXTERN_LABEL)"

text \<open>
  The ARE discipline of one word: a word that references no symbol has ARE 00; a word
  that references a symbol of kind \<open>EXTERN_LABEL\<close> is the word 1, which is ARE 01 with
  address field 0; a word that references a symbol of another kind has ARE 10.
\<close>

definition word_of_ref :: "Symbol list \<Rightarrow> string option \<Rightarrow> uint \<Rightarrow> bool" where
  "word_of_ref syms r w =
     (case r of
        None \<Rightarrow> w AND 3 = 0
      | Some n \<Rightarrow>
          (case find_symbol n syms of
             None \<Rightarrow> False
           | Some s \<Rightarrow> if symbolType s = EXTERN_LABEL then w = 1 else w AND 3 = 2))"

text \<open>The extern-use records of a list of words that starts at \<open>ic\<close>: one record for each
  word that references a symbol of kind \<open>EXTERN_LABEL\<close>, with the \<open>IC\<close> of that word.\<close>

fun extern_uses :: "Symbol list \<Rightarrow> nat \<Rightarrow> string option list \<Rightarrow> ExternalSymbolInfo list" where
  "extern_uses syms ic [] = []"
| "extern_uses syms ic (None # rs) = extern_uses syms (ic + 1) rs"
| "extern_uses syms ic (Some n # rs) =
     (if names_extern syms n then [\<lparr>externalName = n, addresses = int ic\<rparr>] else [])
     @ extern_uses syms (ic + 1) rs"

text \<open>\<open>appended tu refs ws tu'\<close>: the unit \<open>tu'\<close> is \<open>tu\<close> after the words \<open>ws\<close>, which
  reference \<open>refs\<close>, and their extern-use records have been appended.\<close>

definition appended ::
  "TranslationUnit \<Rightarrow> string option list \<Rightarrow> uint list \<Rightarrow> TranslationUnit \<Rightarrow> bool" where
  "appended tu refs ws tu' =
     (list_all2 (word_of_ref (symbolTable tu)) refs ws
      \<and> symbolTable tu' = symbolTable tu
      \<and> constantList tu' = constantList tu
      \<and> codeImage tu' = codeImage tu @ ws
      \<and> IC tu' = length (codeImage tu')
      \<and> externalsList tu'
          = externalsList tu @ extern_uses (symbolTable tu) (length (codeImage tu)) refs)"

text \<open>
  The words an operand contributes in the second pass, in the words of the specification:
  the contribution of its addressing type when the operand is encoded without an error,
  and none when its encoding fails.
\<close>

definition emitted_operand_words ::
  "AbstractLineDescriptor \<Rightarrow> TranslationUnit \<Rightarrow> OperandType \<Rightarrow> nat" where
  "emitted_operand_words ld tu opType =
     (let t = (if opType = SOURCE_OPERAND then sourceOperandAddressingType (commandInst ld)
               else targetOperandAddressingType (commandInst ld))
      in if fst (process_operand_encoding ld tu t opType) then 0 else spec_operand_words t)"

text \<open>\<open>emits tu n tu'\<close>: the unit \<open>tu'\<close> is \<open>tu\<close> after \<open>n\<close> words have been appended to the code
  image; the symbol table and the constants list are those of \<open>tu\<close>.\<close>

definition emits :: "TranslationUnit \<Rightarrow> nat \<Rightarrow> TranslationUnit \<Rightarrow> bool" where
  "emits tu n tu' =
     (take (length (codeImage tu)) (codeImage tu') = codeImage tu
      \<and> length (codeImage tu') = length (codeImage tu) + n
      \<and> IC tu' = length (codeImage tu')
      \<and> symbolTable tu' = symbolTable tu
      \<and> constantList tu' = constantList tu)"

text \<open>The result of the first pass on a file that uses an extern symbol twice.\<close>

definition extern_example :: "bool \<times> AbstractProgram \<times> TranslationUnit" where
  "extern_example =
     the (first_pass initialize_abstract_program initialize_translation_unit []
            (fgets_all (MAX_LINE_LENGTH + 1)
               ''.extern X\<newline>L: mov X, r1\<newline>jmp L\<newline>lea X[2], r3\<newline>hlt\<newline>\<newline>''))"

text \<open>The descriptor the parser builds for a line of text in a fresh translation unit;
  it gives the examples below their inputs.\<close>

definition descriptor_of :: "string \<Rightarrow> AbstractLineDescriptor" where
  "descriptor_of line =
     (case line_descriptor_builder line zero_line_descriptor initialize_translation_unit [] of
        Some (ld, tu) \<Rightarrow> ld
      | None \<Rightarrow> zero_line_descriptor)"

text \<open>The extern-use records are in non-decreasing order of their addresses and none
  lies beyond \<open>IC\<close>.\<close>

definition ext_ordered :: "TranslationUnit \<Rightarrow> bool" where
  "ext_ordered tu =
     (sorted (map addresses (externalsList tu))
      \<and> list_all (\<lambda>e. addresses e \<le> int (IC tu)) (externalsList tu))"

section \<open>Properties\<close>

subsection \<open>Fixed-index encoding is not atomic on error\<close>

text \<open>
  Claim C10. When the base label of a fixed-index operand resolves to an \<open>EXTERN_LABEL\<close>
  symbol and the index is a constant name that is undefined or has a negative value,
  \<open>encode_fixed_index_addressing\<close> reports an error and emits no machine word (code image
  and \<open>IC\<close> are unchanged), yet the externals list has grown by one record for the base
  label, holding the current \<open>IC\<close>. The translation unit on the error path differs from the
  one before the call.
\<close>

theorem fixed_index_error_keeps_extern_record:
  assumes "find_symbol (labelName fx) (symbolTable tu) = Some s"
      and "symbolType s = EXTERN_LABEL"
      and "constantAddressingIndex fx = Some c" and "c \<noteq> []"
      and "extract_constant c (constantList tu) = None
           \<or> (\<exists>v. extract_constant c (constantList tu) = Some v \<and> v < 0)"
  shows "encode_fixed_index_addressing fx tu =
           (True, tu\<lparr>externalsList := externalsList tu
                      @ [\<lparr>externalName = labelName fx, addresses = int (IC tu)\<rparr>]\<rparr>)"
  using assms
  by (auto simp: encode_fixed_index_addressing_def find_label_addressing_def
        get_addressing_index_def is_null_or_empty_def updateExternTable_def)

theorem fixed_index_error_keeps_extern_record_witness:
  "encode_fixed_index_addressing
     \<lparr>labelName = ''X'', numericalAddressingIndex = 0, constantAddressingIndex = Some ''k''\<rparr>
     (initialize_translation_unit
        \<lparr>symbolTable := [\<lparr>symbolName = ''X'', symbolType = EXTERN_LABEL, address = 100\<rparr>],
         constantList := [\<lparr>constName = ''k'', constValue = -1\<rparr>]\<rparr>)
   = (True,
      \<lparr>codeImage = [], IC = 0, dataImage = [], DC = 0,
       symbolTable = [\<lparr>symbolName = ''X'', symbolType = EXTERN_LABEL, address = 100\<rparr>],
       externalsList = [\<lparr>externalName = ''X'', addresses = 0\<rparr>], entryList = [],
       constantList = [\<lparr>constName = ''k'', constValue = -1\<rparr>]\<rparr>)"
  using fixed_index_error_keeps_extern_record
    [of "\<lparr>labelName = ''X'', numericalAddressingIndex = 0, constantAddressingIndex = Some ''k''\<rparr>"
        "initialize_translation_unit
          \<lparr>symbolTable := [\<lparr>symbolName = ''X'', symbolType = EXTERN_LABEL, address = 100\<rparr>],
           constantList := [\<lparr>constName = ''k'', constValue = -1\<rparr>]\<rparr>"
        "\<lparr>symbolName = ''X'', symbolType = EXTERN_LABEL, address = 100\<rparr>" "''k''"]
  by (simp add: initialize_translation_unit_def)

subsection \<open>Legality of addressing\<close>

lemma upt_opcodes:
  "[0 ..< NUMBER_OF_OPCODES] = [0, 1, 2, 3, 4, 5, 6, 7, 8, 9, 10, 11, 12, 13, 14, 15]"
  by (simp add: NUMBER_OF_OPCODES_def upt_rec)

lemma do_while_valid_4:
  "do_while_valid a arr 0 4 v = (a = arr ! 0 \<or> a = arr ! 1 \<or> a = arr ! 2 \<or> a = arr ! 3 \<or> v)"
  by (auto simp: Let_def eval_nat_numeral)

lemma do_while_valid_3:
  "do_while_valid a arr 0 3 v = (a = arr ! 0 \<or> a = arr ! 1 \<or> a = arr ! 2 \<or> v)"
  by (auto simp: Let_def eval_nat_numeral)

lemma do_while_valid_2: "do_while_valid a arr 0 2 v = (a = arr ! 0 \<or> a = arr ! 1 \<or> v)"
  by (auto simp: Let_def eval_nat_numeral)

lemma do_while_valid_0: "do_while_valid a arr 0 0 v = (a = arr ! 0 \<or> v)"
  by (simp add: Let_def)

lemma is_legal_command_cases:
  "opcodeCommand (commandInst ld) = opc \<Longrightarrow> sourceOperandAddressingType (commandInst ld) = s \<Longrightarrow>
   targetOperandAddressingType (commandInst ld) = t \<Longrightarrow>
   is_legal_command ld = (s \<in> spec_source_modes opc \<and> t \<in> spec_target_modes opc)"
  by (cases opc; cases s; cases t)
     (simp_all add: is_legal_command_def opcode_num_of_mods_def addressingModesDict_def
        upt_opcodes opcodeDictionary_def opcodeAddressingDict_def pad4_def do_while_valid_4
        do_while_valid_3 do_while_valid_2 do_while_valid_0 del: do_while_valid.simps)

text \<open>
  Claim C7. The first pass accepts the addressing of a command exactly when the source
  mode is in the set the legality table gives for the opcode and the target mode is in the
  set it gives for the target, an absent operand being the mode \<open>NONE_ADDR\<close>.
\<close>

theorem is_legal_command_iff_table:
  "is_legal_command ld =
     (sourceOperandAddressingType (commandInst ld) \<in> spec_source_modes (opcodeCommand (commandInst ld))
      \<and> targetOperandAddressingType (commandInst ld)
          \<in> spec_target_modes (opcodeCommand (commandInst ld)))"
  by (rule is_legal_command_cases) simp_all

subsection \<open>Size of a command\<close>

lemma ic_operand_words_spec: "ic_operand_words a = int (spec_operand_words a)"
  by (cases a) (simp_all add: ic_operand_words_def)

lemma IC_insert_machine_word [simp]: "IC (insert_machine_word tu w) = IC tu + 1"
  by (simp add: insert_machine_word_def)

lemma IC_firs_machine_word_encoding [simp]: "IC (firs_machine_word_encoding cmd tu) = IC tu + 1"
  by (simp add: firs_machine_word_encoding_def Let_def)

lemma IC_updateExternTable [simp]: "IC (updateExternTable tu n) = IC tu"
  by (simp add: updateExternTable_def)

lemma IC_find_label_addressing [simp]: "IC (snd (find_label_addressing n tu)) = IC tu"
  by (simp add: find_label_addressing_def split: option.splits)

lemma ic_promoter_formula:
  "ic_promoter ld =
     (if both_direct_register ld then 2
      else 1 + int (spec_operand_words (sourceOperandAddressingType (commandInst ld)))
             + int (spec_operand_words (targetOperandAddressingType (commandInst ld))))"
  by (simp add: ic_promoter_def ic_operand_words_spec both_direct_register_def)

lemma second_pass_line_both_registers:
  "lineType ld = COMMAND_INSTRUCTION \<Longrightarrow> both_direct_register ld \<Longrightarrow>
   second_pass_line ld tu
     = (False, double_direct_register_encoding (commandInst ld)
                 (firs_machine_word_encoding (commandInst ld) tu))"
  by (simp add: second_pass_line_def both_direct_register_def)

lemma emits_refl: "IC tu = length (codeImage tu) \<Longrightarrow> emits tu 0 tu"
  by (simp add: emits_def)

lemma emits_IC: "emits tu n tu' \<Longrightarrow> IC tu' = length (codeImage tu')"
  by (simp add: emits_def)

lemma emits_trans:
  assumes "emits a n b" and "emits b k c"
  shows "emits a (n + k) c"
proof -
  from assms have "take (length (codeImage a)) (take (length (codeImage b)) (codeImage c))
                     = codeImage a"
    by (simp add: emits_def)
  moreover from assms have "length (codeImage a) \<le> length (codeImage b)"
    by (simp add: emits_def)
  ultimately have "take (length (codeImage a)) (codeImage c) = codeImage a"
    by (simp add: min_def)
  with assms show ?thesis by (simp add: emits_def)
qed

lemma emits_insert_machine_word:
  "IC tu = length (codeImage tu) \<Longrightarrow> emits tu 1 (insert_machine_word tu w)"
  by (simp add: emits_def insert_machine_word_def)

lemma emits_find_label_addressing:
  "IC tu = length (codeImage tu) \<Longrightarrow> emits tu 0 (snd (find_label_addressing n tu))"
  by (simp add: emits_def find_label_addressing_def updateExternTable_def split: option.splits)

lemma emits_encode_immediate_addressing:
  assumes "IC tu = length (codeImage tu)"
  shows "emits tu (if fst (encode_immediate_addressing imm tu) then 0 else 1)
           (snd (encode_immediate_addressing imm tu))"
  using emits_refl [OF assms] emits_insert_machine_word [OF assms]
  by (simp add: encode_immediate_addressing_def split: option.splits)

lemma emits_encode_direct_addressing:
  assumes "IC tu = length (codeImage tu)"
  shows "emits tu (if fst (encode_direct_addressing n tu) then 0 else 1)
           (snd (encode_direct_addressing n tu))"
proof -
  obtain r tu1 where f: "find_label_addressing n tu = (r, tu1)"
    by (cases "find_label_addressing n tu")
  from emits_find_label_addressing [OF assms, of n] f have 1: "emits tu 0 tu1" by simp
  show ?thesis
  proof (cases r)
    case None
    with f 1 show ?thesis by (simp add: encode_direct_addressing_def)
  next
    case (Some p)
    obtain a q where p: "p = (a, q)" by (cases p)
    from emits_trans [OF 1 emits_insert_machine_word [OF emits_IC [OF 1]]] Some p f
    show ?thesis by (simp add: encode_direct_addressing_def)
  qed
qed

lemma emits_encode_fixed_index_addressing:
  assumes "IC tu = length (codeImage tu)"
  shows "emits tu (if fst (encode_fixed_index_addressing fx tu) then 0 else 2)
           (snd (encode_fixed_index_addressing fx tu))"
proof -
  obtain r tu1 where f: "find_label_addressing (labelName fx) tu = (r, tu1)"
    by (cases "find_label_addressing (labelName fx) tu")
  from emits_find_label_addressing [OF assms, of "labelName fx"] f have 1: "emits tu 0 tu1"
    by simp
  show ?thesis
  proof (cases r)
    case None
    with f 1 show ?thesis by (simp add: encode_fixed_index_addressing_def)
  next
    case (Some p)
    obtain a q where p: "p = (a, q)" by (cases p)
    show ?thesis
    proof (cases "get_addressing_index fx tu1")
      case None
      with Some p f 1 show ?thesis by (simp add: encode_fixed_index_addressing_def)
    next
      case (Some i)
      have 2: "emits tu1 1 (insert_machine_word tu1 w)" for w
        by (rule emits_insert_machine_word [OF emits_IC [OF 1]])
      have 3: "emits (insert_machine_word tu1 w) 1 (insert_machine_word (insert_machine_word tu1 w) v)"
        for w v
        by (rule emits_insert_machine_word [OF emits_IC [OF 2]])
      from emits_trans [OF 1 emits_trans [OF 2 3]] \<open>r = Some p\<close> p f Some
      show ?thesis by (simp add: encode_fixed_index_addressing_def Let_def numeral_2_eq_2)
    qed
  qed
qed

lemma emits_process_operand_encoding:
  assumes "IC tu = length (codeImage tu)"
  shows "emits tu (if fst (process_operand_encoding ld tu t opType) then 0
                   else spec_operand_words t)
           (snd (process_operand_encoding ld tu t opType))"
proof (cases t)
  case IMMEDIATE_ADDR
  then show ?thesis
    using emits_encode_immediate_addressing
            [OF assms, of "immediateValue (operand_of (commandInst ld) opType)"]
    by (auto split: if_splits)
next
  case DIRECT_ADDR
  then show ?thesis
    using emits_encode_direct_addressing
            [OF assms, of "addressingLabel (operand_of (commandInst ld) opType)"]
    by (auto split: if_splits)
next
  case FIXED_IDX_ADDR
  then show ?thesis
    using emits_encode_fixed_index_addressing
            [OF assms, of "fixedIndexOperand (operand_of (commandInst ld) opType)"]
    by (auto split: if_splits)
next
  case DIRECT_REGISTER_ADDR
  then show ?thesis
    using emits_insert_machine_word [OF assms]
    by (simp add: encode_direct_register_addressing_def)
next
  case NONE_ADDR
  then show ?thesis using emits_refl [OF assms] by simp
qed

text \<open>Whether an operand is encoded depends on the symbol table and the constants list
  alone.\<close>

lemma find_label_addressing_frame:
  assumes "symbolTable tu1 = symbolTable tu"
  shows "fst (find_label_addressing n tu1) = fst (find_label_addressing n tu)"
  using assms by (simp add: find_label_addressing_def split: option.splits)

lemma constantList_find_label_addressing:
  "constantList (snd (find_label_addressing n tu)) = constantList tu"
  by (simp add: find_label_addressing_def updateExternTable_def split: option.splits)

lemma operand_error_frame:
  assumes s: "symbolTable tu1 = symbolTable tu" and c: "constantList tu1 = constantList tu"
  shows "fst (process_operand_encoding ld tu1 t opType)
           = fst (process_operand_encoding ld tu t opType)"
proof (cases t)
  case IMMEDIATE_ADDR
  then show ?thesis using c
    by (simp add: encode_immediate_addressing_def split: option.splits)
next
  case DIRECT_ADDR
  then show ?thesis
    using find_label_addressing_frame [OF s, of "addressingLabel (operand_of (commandInst ld) opType)"]
    by (cases "find_label_addressing (addressingLabel (operand_of (commandInst ld) opType)) tu1";
        cases "find_label_addressing (addressingLabel (operand_of (commandInst ld) opType)) tu")
       (auto simp: encode_direct_addressing_def split: option.splits)
next
  case FIXED_IDX_ADDR
  let ?fx = "fixedIndexOperand (operand_of (commandInst ld) opType)"
  have g: "get_addressing_index ?fx (snd (find_label_addressing (labelName ?fx) tu1))
           = get_addressing_index ?fx (snd (find_label_addressing (labelName ?fx) tu))"
    using c by (simp add: get_addressing_index_def constantList_find_label_addressing)
  from FIXED_IDX_ADDR show ?thesis
    using find_label_addressing_frame [OF s, of "labelName ?fx"] g
    by (cases "find_label_addressing (labelName ?fx) tu1";
        cases "find_label_addressing (labelName ?fx) tu")
       (auto simp: encode_fixed_index_addressing_def Let_def split: option.splits)
next
  case DIRECT_REGISTER_ADDR
  then show ?thesis by simp
next
  case NONE_ADDR
  then show ?thesis by simp
qed

lemma emits_firs_machine_word_encoding:
  "IC tu = length (codeImage tu) \<Longrightarrow> emits tu 1 (firs_machine_word_encoding cmd tu)"
  unfolding firs_machine_word_encoding_def Let_def by (rule emits_insert_machine_word)

lemma emits_second_pass_line:
  assumes c: "lineType ld = COMMAND_INSTRUCTION" and ic: "IC tu = length (codeImage tu)"
  shows "emits tu (if both_direct_register ld then 2
                   else 1 + emitted_operand_words ld tu SOURCE_OPERAND
                          + emitted_operand_words ld tu TARGET_OPERAND)
           (snd (second_pass_line ld tu))"
proof -
  let ?cmd = "commandInst ld"
  let ?tu1 = "firs_machine_word_encoding ?cmd tu"
  have 0: "emits tu 1 ?tu1" by (rule emits_firs_machine_word_encoding [OF ic])
  note ic1 = emits_IC [OF 0]
  show ?thesis
  proof (cases "both_direct_register ld")
    case True
    have "emits ?tu1 1 (double_direct_register_encoding ?cmd ?tu1)"
      unfolding double_direct_register_encoding_def by (rule emits_insert_machine_word [OF ic1])
    from emits_trans [OF 0 this] True c show ?thesis
      by (simp add: second_pass_line_def Let_def both_direct_register_def numeral_2_eq_2)
  next
    case False
    let ?s = "sourceOperandAddressingType ?cmd"
    let ?t = "targetOperandAddressingType ?cmd"
    let ?r1 = "process_operand_encoding ld ?tu1 ?s SOURCE_OPERAND"
    let ?r2 = "process_operand_encoding ld (snd ?r1) ?t TARGET_OPERAND"
    have 1: "emits ?tu1 (if fst ?r1 then 0 else spec_operand_words ?s) (snd ?r1)"
      by (rule emits_process_operand_encoding [OF ic1])
    have 2: "emits (snd ?r1) (if fst ?r2 then 0 else spec_operand_words ?t) (snd ?r2)"
      by (rule emits_process_operand_encoding [OF emits_IC [OF 1]])
    have f1: "fst ?r1 = fst (process_operand_encoding ld tu ?s SOURCE_OPERAND)"
      using 0 by (intro operand_error_frame) (simp_all add: emits_def)
    have f2: "fst ?r2 = fst (process_operand_encoding ld tu ?t TARGET_OPERAND)"
      using 0 1 by (intro operand_error_frame) (simp_all add: emits_def)
    have r: "snd (second_pass_line ld tu) = snd ?r2"
      using c False by (auto simp: second_pass_line_def Let_def both_direct_register_def split_beta)
    from emits_trans [OF emits_trans [OF 0 1] 2] False f1 f2 show ?thesis
      unfolding r by (simp add: emitted_operand_words_def Let_def)
  qed
qed

lemma second_pass_line_no_error:
  assumes c: "lineType ld = COMMAND_INSTRUCTION" and ic: "IC tu = length (codeImage tu)"
    and b: "\<not> both_direct_register ld" and e: "\<not> fst (second_pass_line ld tu)"
  shows "emitted_operand_words ld tu SOURCE_OPERAND
           = spec_operand_words (sourceOperandAddressingType (commandInst ld))
       \<and> emitted_operand_words ld tu TARGET_OPERAND
           = spec_operand_words (targetOperandAddressingType (commandInst ld))"
proof -
  let ?cmd = "commandInst ld"
  let ?tu1 = "firs_machine_word_encoding ?cmd tu"
  let ?s = "sourceOperandAddressingType ?cmd"
  let ?t = "targetOperandAddressingType ?cmd"
  let ?r1 = "process_operand_encoding ld ?tu1 ?s SOURCE_OPERAND"
  let ?r2 = "process_operand_encoding ld (snd ?r1) ?t TARGET_OPERAND"
  have 0: "emits tu 1 ?tu1" by (rule emits_firs_machine_word_encoding [OF ic])
  have 1: "emits ?tu1 (if fst ?r1 then 0 else spec_operand_words ?s) (snd ?r1)"
    by (rule emits_process_operand_encoding [OF emits_IC [OF 0]])
  have f1: "fst ?r1 = fst (process_operand_encoding ld tu ?s SOURCE_OPERAND)"
    using 0 by (intro operand_error_frame) (simp_all add: emits_def)
  have f2: "fst ?r2 = fst (process_operand_encoding ld tu ?t TARGET_OPERAND)"
    using 0 1 by (intro operand_error_frame) (simp_all add: emits_def)
  from c b e have "\<not> fst ?r1" "\<not> fst ?r2"
    by (auto simp: second_pass_line_def Let_def both_direct_register_def split_beta)
  with f1 f2 show ?thesis by (simp add: emitted_operand_words_def Let_def)
qed

text \<open>
  Claim C6, as amended. \<open>ic_promoter\<close>, the size the first pass computes, is 2 for a command
  whose source and target are both direct-register, and 1 plus the contributions of the
  two operands (immediate 1, direct 1, fixed-index 2, direct-register 1, absent 0) for
  every other command. The second pass keeps the words of the code image and appends to
  them: 2 words for a command whose operands are both direct-register, the word after the
  opcode word being the one word that holds the two registers; and for every other
  command the opcode word and, for each operand, the words of its contribution if the
  operand is encoded without an error and no word if its encoding fails. So the second
  pass appends as many words as the first pass computed whenever it reports no error for
  the line.
\<close>

theorem command_word_count:
  assumes "lineType ld = COMMAND_INSTRUCTION" and "IC tu = length (codeImage tu)"
  shows "ic_promoter ld =
           (if both_direct_register ld then 2
            else 1 + int (spec_operand_words (sourceOperandAddressingType (commandInst ld)))
                   + int (spec_operand_words (targetOperandAddressingType (commandInst ld))))
         \<and> take (length (codeImage tu)) (codeImage (snd (second_pass_line ld tu))) = codeImage tu
         \<and> length (codeImage (snd (second_pass_line ld tu)))
             = length (codeImage tu)
               + (if both_direct_register ld then 2
                  else 1 + emitted_operand_words ld tu SOURCE_OPERAND
                         + emitted_operand_words ld tu TARGET_OPERAND)
         \<and> IC (snd (second_pass_line ld tu)) = length (codeImage (snd (second_pass_line ld tu)))
         \<and> (both_direct_register ld \<longrightarrow>
               second_pass_line ld tu
                 = (False,
                    insert_machine_word (firs_machine_word_encoding (commandInst ld) tu)
                      (0 OR (word_of_int (reg_val (reg (sourceOperand (commandInst ld))) * 2 ^ 5)
                             OR word_of_int (reg_val (reg (targetOperand (commandInst ld))) * 2 ^ 2)))))
         \<and> (\<not> fst (second_pass_line ld tu) \<longrightarrow>
               int (length (codeImage (snd (second_pass_line ld tu))))
                 = int (length (codeImage tu)) + ic_promoter ld)"
proof -
  note e = emits_second_pass_line [OF assms, unfolded emits_def]
  have 1: "ic_promoter ld =
           (if both_direct_register ld then 2
            else 1 + int (spec_operand_words (sourceOperandAddressingType (commandInst ld)))
                   + int (spec_operand_words (targetOperandAddressingType (commandInst ld))))"
    by (rule ic_promoter_formula)
  have 2: "take (length (codeImage tu)) (codeImage (snd (second_pass_line ld tu))) = codeImage tu"
    using e by simp
  have 3: "length (codeImage (snd (second_pass_line ld tu)))
             = length (codeImage tu)
               + (if both_direct_register ld then 2
                  else 1 + emitted_operand_words ld tu SOURCE_OPERAND
                         + emitted_operand_words ld tu TARGET_OPERAND)"
    using e by simp
  have 4: "IC (snd (second_pass_line ld tu)) = length (codeImage (snd (second_pass_line ld tu)))"
    using e by simp
  have 5: "both_direct_register ld \<longrightarrow>
               second_pass_line ld tu
                 = (False,
                    insert_machine_word (firs_machine_word_encoding (commandInst ld) tu)
                      (0 OR (word_of_int (reg_val (reg (sourceOperand (commandInst ld))) * 2 ^ 5)
                             OR word_of_int (reg_val (reg (targetOperand (commandInst ld))) * 2 ^ 2))))"
    using assms(1)
    by (simp add: second_pass_line_both_registers double_direct_register_encoding_def)
  have 6: "\<not> fst (second_pass_line ld tu) \<longrightarrow>
               int (length (codeImage (snd (second_pass_line ld tu))))
                 = int (length (codeImage tu)) + ic_promoter ld"
  proof (cases "both_direct_register ld")
    case True
    with 1 3 show ?thesis by simp
  next
    case False
    show ?thesis
    proof
      assume "\<not> fst (second_pass_line ld tu)"
      from second_pass_line_no_error [OF assms False this] 1 3 False show
        "int (length (codeImage (snd (second_pass_line ld tu))))
           = int (length (codeImage tu)) + ic_promoter ld"
        by simp
    qed
  qed
  from 1 2 3 4 5 6 show ?thesis by (intro conjI)
qed


theorem command_word_count_witness:
  "lineType (descriptor_of ''mov r1, r2\<newline>'') = COMMAND_INSTRUCTION
   \<and> lineType (descriptor_of ''mov #5000, r1\<newline>'') = COMMAND_INSTRUCTION
   \<and> IC initialize_translation_unit = length (codeImage initialize_translation_unit)
   \<and> ic_promoter (descriptor_of ''mov r1, r2\<newline>'') = 2
   \<and> length (codeImage (snd (second_pass_line (descriptor_of ''mov r1, r2\<newline>'')
                                  initialize_translation_unit))) = 2
   \<and> ic_promoter (descriptor_of ''mov #5000, r1\<newline>'') = 3
   \<and> length (codeImage (snd (second_pass_line (descriptor_of ''mov #5000, r1\<newline>'')
                                  initialize_translation_unit))) = 2"
proof -
  let ?a = "descriptor_of ''mov r1, r2\<newline>''"
  let ?b = "descriptor_of ''mov #5000, r1\<newline>''"
  let ?tu = "initialize_translation_unit"
  have a1: "lineType ?a = COMMAND_INSTRUCTION" by code_simp
  have b1: "lineType ?b = COMMAND_INSTRUCTION" by code_simp
  have ic: "IC ?tu = length (codeImage ?tu)" by (simp add: initialize_translation_unit_def)
  have a2: "both_direct_register ?a" by code_simp
  have b2: "\<not> both_direct_register ?b" by code_simp
  have b3: "spec_operand_words (sourceOperandAddressingType (commandInst ?b)) = 1" by code_simp
  have b4: "spec_operand_words (targetOperandAddressingType (commandInst ?b)) = 1" by code_simp
  have b5: "emitted_operand_words ?b ?tu SOURCE_OPERAND = 0" by code_simp
  have b6: "emitted_operand_words ?b ?tu TARGET_OPERAND = 1" by code_simp
  have e: "length (codeImage ?tu) = 0" by (simp add: initialize_translation_unit_def)
  note ta = command_word_count [OF a1 ic]
  note tb = command_word_count [OF b1 ic]
  have a: "ic_promoter ?a = 2" "length (codeImage (snd (second_pass_line ?a ?tu))) = 2"
    using ta [THEN conjunct1] ta [THEN conjunct2, THEN conjunct2, THEN conjunct1] a2 e
    by simp_all
  have b: "ic_promoter ?b = 3" "length (codeImage (snd (second_pass_line ?b ?tu))) = 2"
    using tb [THEN conjunct1] tb [THEN conjunct2, THEN conjunct2, THEN conjunct1]
      b2 b3 b4 b5 b6 e
    by simp_all
  from a1 b1 ic a b show ?thesis by (intro conjI)
qed

text \<open>The claim as stated fails for the command \<open>mov #5000, r1\<close>, whose operands are not
  both direct-register: the first pass computes 3 words, which is 1 plus the contributions
  of an immediate and a direct-register operand, and the second pass appends 2, because
  the immediate value is out of range and its encoding fails.\<close>

theorem failing_operand_counterexample:
  "lineType (descriptor_of ''mov #5000, r1\<newline>'') = COMMAND_INSTRUCTION
   \<and> sourceOperandAddressingType (commandInst (descriptor_of ''mov #5000, r1\<newline>''))
       = IMMEDIATE_ADDR
   \<and> targetOperandAddressingType (commandInst (descriptor_of ''mov #5000, r1\<newline>''))
       = DIRECT_REGISTER_ADDR
   \<and> ic_promoter (descriptor_of ''mov #5000, r1\<newline>'') = 3
   \<and> fst (second_pass_line (descriptor_of ''mov #5000, r1\<newline>'') initialize_translation_unit)
   \<and> length (codeImage (snd (second_pass_line (descriptor_of ''mov #5000, r1\<newline>'')
                                  initialize_translation_unit))) = 2
   \<and> IC (snd (second_pass_line (descriptor_of ''mov #5000, r1\<newline>'')
                 initialize_translation_unit)) = 2"
  by code_simp

subsection \<open>Extern symbols\<close>

lemma fp_ic_fp_error [simp]: "fp_ic (fp_error st) = fp_ic st"
  by (simp add: fp_error_def)

lemma fp_ic_fp_next [simp]: "fp_ic (fp_next st) = fp_ic st"
  by (simp add: fp_next_def)

lemma ic_promoter_pos: "0 < ic_promoter ld"
  by (simp add: ic_promoter_def ic_operand_words_def)

lemma fp_ic_first_pass_entry_extern [simp]:
  "fp_ic (first_pass_entry_extern ld st) = fp_ic st"
  by (simp add: first_pass_entry_extern_def split: option.splits)

lemma fp_ic_first_pass_instruction: "fp_ic st \<le> fp_ic (first_pass_instruction ld st)"
proof -
  have "fp_ic st \<le> nat (int (fp_ic st) + ic_promoter ld)"
    using ic_promoter_pos [of ld] by simp
  then show ?thesis
    by (simp add: first_pass_instruction_def Let_def split: option.splits prod.splits)
qed

lemma fp_ic_first_pass_line: "fp_ic st \<le> fp_ic (first_pass_line ld st)"
proof -
  have "fp_ic st \<le> fp_ic (first_pass_instruction ld (st\<lparr>fp_tu := tu'\<rparr>))" for tu'
    using fp_ic_first_pass_instruction [of "st\<lparr>fp_tu := tu'\<rparr>" ld] by simp
  then show ?thesis
    using fp_ic_first_pass_instruction [of st ld]
    by (simp add: first_pass_line_def split: prod.splits bool.splits)
qed

lemma fp_ic_first_pass_step:
  assumes "first_pass_step mt l st = Some st'"
  shows "fp_ic st \<le> fp_ic st'"
proof -
  from assms obtain ld tu1 prog1 where
    "st' = first_pass_line ld (st\<lparr>fp_prog := prog1, fp_tu := tu1\<rparr>)"
    by (auto simp: first_pass_step_def Let_def split: option.splits)
  then show ?thesis
    using fp_ic_first_pass_line [of "st\<lparr>fp_prog := prog1, fp_tu := tu1\<rparr>" ld] by simp
qed

lemma fp_ic_first_pass_loop:
  "first_pass_loop mt ls st = Some st' \<Longrightarrow> fp_ic st \<le> fp_ic st'"
proof (induction ls arbitrary: st)
  case Nil
  then show ?case by simp
next
  case (Cons l ls)
  then obtain st1 where a: "first_pass_step mt l st = Some st1"
    and b: "first_pass_loop mt ls st1 = Some st'"
    by (auto split: option.splits)
  from fp_ic_first_pass_step [OF a] Cons.IH [OF b] show ?case by simp
qed

lemma handle_label_extern_line:
  "lineType ld = DIRECTIVE_INSTRUCTION \<Longrightarrow> dirType ld = EXTERN_INST \<Longrightarrow>
   snd (handle_label ld tu ic dc) = tu"
  by (simp add: handle_label_def Let_def split: option.splits)

text \<open>
  In a state the first pass reaches, an \<open>.extern\<close> line whose name is not in the symbol
  table (and whose label, if it has one, is not a redefinition) appends one symbol: its
  kind is \<open>EXTERN_LABEL\<close> and its address field is the current value of the instruction
  counter of the first pass, which is at least 100.
\<close>

lemma extern_symbol_inserted:
  assumes reach: "first_pass_loop macroTable ls (first_pass_init prog tu0) = Some st"
      and "is_null_or_empty (lineError ld)"
      and "lineType ld = DIRECTIVE_INSTRUCTION" and "dirType ld = EXTERN_INST"
      and "is_null_or_empty (lineLabelName ld)
           \<or> \<not> fst (handle_label ld (fp_tu st) (fp_ic st) (fp_dc st))"
      and "find_symbol (entryName ld) (symbolTable (fp_tu st)) = None"
  shows "symbolTable (fp_tu (first_pass_line ld st)) =
           symbolTable (fp_tu st)
           @ [\<lparr>symbolName = take 31 (entryName ld), symbolType = EXTERN_LABEL,
               address = int (fp_ic st)\<rparr>]
         \<and> 100 \<le> fp_ic st"
proof -
  have ic: "100 \<le> fp_ic st"
    using fp_ic_first_pass_loop [OF reach] by (simp add: first_pass_init_def IC_INIT_VALUE_def)
  have ins: "symbolTable (fp_tu (first_pass_instruction ld st)) =
           symbolTable (fp_tu st)
           @ [\<lparr>symbolName = take 31 (entryName ld), symbolType = EXTERN_LABEL,
               address = int (fp_ic st)\<rparr>]"
    using assms(3,4,6)
    by (simp add: first_pass_instruction_def first_pass_entry_extern_def fp_next_def
          insert_symbol_to_table_def new_symbol_def MAX_SYMBOL_LENGTH_def)
  show ?thesis
  proof (cases "is_null_or_empty (lineLabelName ld)")
    case True
    then show ?thesis using assms(2,3) ins ic by (simp add: first_pass_line_def)
  next
    case False
    with assms(5) have nf: "\<not> fst (handle_label ld (fp_tu st) (fp_ic st) (fp_dc st))" by simp
    have "handle_label ld (fp_tu st) (fp_ic st) (fp_dc st) = (False, fp_tu st)"
      using nf handle_label_extern_line [OF assms(3,4), of "fp_tu st" "fp_ic st" "fp_dc st"]
      by (cases "handle_label ld (fp_tu st) (fp_ic st) (fp_dc st)") simp
    then show ?thesis using False assms(2,3) ins ic by (simp add: first_pass_line_def)
  qed
qed

lemma extern_symbol_inserted_example:
  "symbolTable (fp_tu (first_pass_line (descriptor_of ''.extern X\<newline>'')
      (first_pass_init initialize_abstract_program initialize_translation_unit))) =
     symbolTable (fp_tu (first_pass_init initialize_abstract_program initialize_translation_unit))
     @ [\<lparr>symbolName = take 31 (entryName (descriptor_of ''.extern X\<newline>'')),
         symbolType = EXTERN_LABEL,
         address = int (fp_ic (first_pass_init initialize_abstract_program
                                 initialize_translation_unit))\<rparr>]
   \<and> 100 \<le> fp_ic (first_pass_init initialize_abstract_program initialize_translation_unit)"
proof -
  let ?st = "first_pass_init initialize_abstract_program initialize_translation_unit"
  let ?ld = "descriptor_of ''.extern X\<newline>''"
  have h1: "first_pass_loop [] [] ?st = Some ?st" by simp
  have h2: "is_null_or_empty (lineError ?ld)" by code_simp
  have h3: "lineType ?ld = DIRECTIVE_INSTRUCTION" by code_simp
  have h4: "dirType ?ld = EXTERN_INST" by code_simp
  have h5: "is_null_or_empty (lineLabelName ?ld)
            \<or> \<not> fst (handle_label ?ld (fp_tu ?st) (fp_ic ?st) (fp_dc ?st))" by code_simp
  have h6: "find_symbol (entryName ?ld) (symbolTable (fp_tu ?st)) = None" by code_simp
  show ?thesis by (rule extern_symbol_inserted [OF h1 h2 h3 h4 h5 h6])
qed

text \<open>
  Claim C1. The claim gives the symbol of an \<open>.extern\<close> line the address 0 in the symbol
  table. The code stores the instruction counter of the first pass there: 100 for the
  one-line program \<open>.extern X\<close>, and 101 when the line follows the command \<open>hlt\<close>. The
  comment above the assignment in \<open>insert_symbol_to_table\<close> and the documentation of the
  function say -1, which is what its branch for \<open>TEMP_ENTRY_LABEL\<close> stores.
\<close>

theorem extern_address_stored:
  "map_option (\<lambda>r. symbolTable (snd (snd r)))
     (first_pass initialize_abstract_program initialize_translation_unit []
        (fgets_all (MAX_LINE_LENGTH + 1) ''.extern X\<newline>''))
     = Some [\<lparr>symbolName = ''X'', symbolType = EXTERN_LABEL, address = 100\<rparr>]
   \<and> map_option (\<lambda>r. symbolTable (snd (snd r)))
       (first_pass initialize_abstract_program initialize_translation_unit []
          (fgets_all (MAX_LINE_LENGTH + 1) ''hlt\<newline>.extern X\<newline>''))
     = Some [\<lparr>symbolName = ''X'', symbolType = EXTERN_LABEL, address = 101\<rparr>]
   \<and> symbolTable (insert_symbol_to_table (descriptor_of ''.entry X\<newline>'')
                    initialize_translation_unit 100 0 TEMP_ENTRY_LABEL)
     = [\<lparr>symbolName = ''X'', symbolType = TEMP_ENTRY_LABEL, address = - 1\<rparr>]"
  by code_simp

subsection \<open>Range of encoded values\<close>

lemma immediate_range:
  assumes "(is_null_or_empty (constantVal imm) \<and> v = integerVal imm)
           \<or> (constantVal imm = Some c \<and> c \<noteq> [] \<and> extract_constant c (constantList tu) = Some v)"
  shows "(fst (encode_immediate_addressing imm tu) = False) = (- 2048 \<le> v \<and> v \<le> 2047)"
  using assms
  by (auto simp: encode_immediate_addressing_def two_complement_validation_def
        is_null_or_empty_def split: if_splits)

lemma negative_constant_index:
  assumes "constantAddressingIndex fx = Some k" and "k \<noteq> []"
      and "extract_constant k (constantList tu) = Some w" and "w < 0"
  shows "fst (encode_fixed_index_addressing fx tu) = True"
proof -
  have c: "constantList (snd (find_label_addressing (labelName fx) tu)) = constantList tu"
    by (simp add: find_label_addressing_def updateExternTable_def split: option.splits)
  have "get_addressing_index fx (snd (find_label_addressing (labelName fx) tu)) = None"
    using assms c by (simp add: get_addressing_index_def is_null_or_empty_def)
  then show ?thesis
    by (cases "find_label_addressing (labelName fx) tu")
       (auto simp: encode_fixed_index_addressing_def split: option.splits)
qed

text \<open>
  Claim C2. The claim is that an immediate value or an index is encoded exactly when it
  lies in \<open>[-2048, 2047]\<close>, a negative index being an error. For an immediate value the
  code does so: \<open>encode_immediate_addressing\<close> calls \<open>two_complement_validation\<close>.
  \<open>get_addressing_index\<close> does not call it, and an index of 5000, written as a number or as
  the constant \<open>k\<close>, is encoded without an error: the second word of the operand is
  \<open>5000 * 4\<close>, and the files of the program are written. The same value as an immediate
  operand is an error, and no file is written.
\<close>

theorem index_above_range_encoded:
  "encode_fixed_index_addressing
     \<lparr>labelName = ''A'', numericalAddressingIndex = 5000, constantAddressingIndex = None\<rparr>
     (initialize_translation_unit
        \<lparr>symbolTable := [\<lparr>symbolName = ''A'', symbolType = DATA_LABEL, address = 105\<rparr>]\<rparr>)
   = (False,
      initialize_translation_unit
        \<lparr>symbolTable := [\<lparr>symbolName = ''A'', symbolType = DATA_LABEL, address = 105\<rparr>],
         codeImage := [422, 20000], IC := 2\<rparr>)
   \<and> process_file [] [] ''A: .data 7\<newline>mov A[5000], r1\<newline>hlt\<newline>\<newline>''
     = Some \<lparr>ob_file = Some ''  5 1\<newline>0100 ****%!*\<newline>0101 **#%%#%\<newline>0102 *!%*%**\<newline>0103 *****#*\<newline>0104 **!!***\<newline>0105 *****#!\<newline>'',
              ent_file = None, ext_file = None\<rparr>
   \<and> process_file [] []
       ''.define k = 5000\<newline>A: .data 7\<newline>mov A[k], r1\<newline>hlt\<newline>\<newline>''
     = Some \<lparr>ob_file = Some ''  5 1\<newline>0100 ****%!*\<newline>0101 **#%%#%\<newline>0102 *!%*%**\<newline>0103 *****#*\<newline>0104 **!!***\<newline>0105 *****#!\<newline>'',
              ent_file = None, ext_file = None\<rparr>
   \<and> process_file [] [] ''mov #5000, r1\<newline>hlt\<newline>\<newline>'' = Some no_files"
  by code_simp

subsection \<open>Width of the stored words\<close>

lemma unat_word_of_int_32: "unat (word_of_int x :: 32 word) = nat (x mod 2 ^ 32)"
  by (simp add: unat_eq_nat_uint uint_word_of_int take_bit_eq_mod)

lemma mod_negative_32:
  assumes "- (2 ^ 32) \<le> x" and "x < 0"
  shows "x mod 2 ^ 32 = x + (2 ^ 32 :: int)"
proof -
  have "x mod 2 ^ 32 = (x + 2 ^ 32) mod 2 ^ 32" by simp
  also have "\<dots> = x + 2 ^ 32" using assms by (intro mod_pos_pos_trivial) simp_all
  finally show ?thesis .
qed

lemma immediate_word_bound:
  assumes "- 2048 \<le> v" and "v \<le> 2047"
  shows "(unat (word_of_int (v * 2 ^ 2) :: 32 word) < 2 ^ 14) = (0 \<le> v)"
proof (cases "0 \<le> v")
  case True
  then have "(v * 2 ^ 2) mod 2 ^ 32 = v * 2 ^ 2" using assms by simp
  then have "unat (word_of_int (v * 2 ^ 2) :: 32 word) = nat (v * 2 ^ 2)"
    by (simp only: unat_word_of_int_32)
  then show ?thesis using True assms by simp
next
  case False
  then have "(v * 2 ^ 2) mod 2 ^ 32 = v * 2 ^ 2 + 2 ^ 32" using assms
    by (intro mod_negative_32) simp_all
  then have "unat (word_of_int (v * 2 ^ 2) :: 32 word) = nat (v * 2 ^ 2 + 2 ^ 32)"
    by (simp only: unat_word_of_int_32)
  then show ?thesis using False assms by simp
qed

lemma data_word_bound:
  assumes "- (2 ^ 31) \<le> v" and "v < 2 ^ 31"
  shows "(unat (word_of_int v :: 32 word) < 2 ^ 14) = (0 \<le> v \<and> v < 2 ^ 14)"
proof (cases "0 \<le> v")
  case True
  then have "v mod 2 ^ 32 = v" using assms by simp
  then have "unat (word_of_int v :: 32 word) = nat v" by (simp only: unat_word_of_int_32)
  then show ?thesis using True assms by auto
next
  case False
  then have "v mod 2 ^ 32 = v + 2 ^ 32" using assms
    by (intro mod_negative_32) simp_all
  then have "unat (word_of_int v :: 32 word) = nat (v + 2 ^ 32)"
    by (simp only: unat_word_of_int_32)
  then show ?thesis using False assms by simp
qed

lemma base4_digit_low14:
  assumes "i \<le> 12"
  shows "drop_bit i ((w :: 32 word) AND 0x3FFF) AND 3 = drop_bit i w AND 3"
proof (rule bit_word_eqI)
  fix n assume "n < LENGTH(32)"
  have "mask 14 = (0x3FFF :: 32 word)" by (simp add: mask_eq_exp_minus_1)
  then have a: "w AND 0x3FFF = take_bit 14 w" by (simp add: take_bit_eq_mask)
  have b: "(3 :: 32 word) = mask 2" by (simp add: mask_eq_exp_minus_1)
  show "bit (drop_bit i (w AND 0x3FFF) AND 3) n = bit (drop_bit i w AND 3) n"
    unfolding a b using assms by (auto simp: bit_simps)
qed

lemma print_low14:
  "print_encoded_base4_machine_word w = print_encoded_base4_machine_word (w AND 0x3FFF)"
  unfolding print_encoded_base4_machine_word_def
proof (rule map_cong [OF refl])
  fix i :: nat assume "i \<in> set [12, 10, 8, 6, 4, 2, 0]"
  then have "i \<le> 12" by auto
  then show "SpecialBase4 ! unat (drop_bit i w AND 3)
             = SpecialBase4 ! unat (drop_bit i (w AND 0x3FFF) AND 3)"
    by (simp only: base4_digit_low14)
qed

lemma encode_immediate_word:
  assumes "(is_null_or_empty (constantVal imm) \<and> v = integerVal imm)
           \<or> (constantVal imm = Some c \<and> c \<noteq> [] \<and> extract_constant c (constantList tu) = Some v)"
      and "- 2048 \<le> v" and "v \<le> 2047"
  shows "encode_immediate_addressing imm tu
           = (False, insert_machine_word tu (word_of_int (v * 2 ^ 2)))"
  using assms
  by (auto simp: encode_immediate_addressing_def two_complement_validation_def
        is_null_or_empty_def)

text \<open>
  Claim C4, as amended. The words of the code image and of the data image are unsigned
  32-bit integers, and the object file prints the low 14 bits of each. The word stored for
  an immediate value \<open>v\<close> in \<open>[-2048, 2047]\<close> is \<open>4 v\<close> modulo \<open>2^32\<close>, which lies in
  \<open>[0, 2^14)\<close> exactly when \<open>v\<close> is not negative; the word stored for a \<open>.data\<close> element
  \<open>d\<close> is \<open>d\<close> modulo \<open>2^32\<close>, which lies in \<open>[0, 2^14)\<close> exactly when \<open>0 \<le> d < 2^14\<close>.
\<close>

theorem stored_words_are_32_bit:
  assumes "(is_null_or_empty (constantVal imm) \<and> v = integerVal imm)
           \<or> (constantVal imm = Some c \<and> c \<noteq> [] \<and> extract_constant c (constantList tu) = Some v)"
      and "- 2048 \<le> v" and "v \<le> 2047"
      and "- (2 ^ 31) \<le> d" and "d < 2 ^ 31"
  shows "encode_immediate_addressing imm tu
           = (False, insert_machine_word tu (word_of_int (v * 2 ^ 2)))
         \<and> (unat (word_of_int (v * 2 ^ 2) :: uint) < 2 ^ 14) = (0 \<le> v)
         \<and> dataImage (snd (int_data_image_update (ds @ [d]) tu dc))
             = take (DC tu) (dataImage tu) @ map word_of_int ds @ [word_of_int d]
         \<and> (unat (word_of_int d :: uint) < 2 ^ 14) = (0 \<le> d \<and> d < 2 ^ 14)
         \<and> print_encoded_base4_machine_word w = print_encoded_base4_machine_word (w AND 0x3FFF)"
  using encode_immediate_word [OF assms(1-3)] immediate_word_bound [OF assms(2,3)]
    data_word_bound [OF assms(4,5)] print_low14 [of w]
  by (simp add: int_data_image_update_def)

theorem stored_words_are_32_bit_witness:
  "encode_immediate_addressing \<lparr>integerVal = - 1, constantVal = None\<rparr> initialize_translation_unit
     = (False, insert_machine_word initialize_translation_unit (word_of_int (- 1 * 2 ^ 2)))
   \<and> (unat (word_of_int (- 1 * 2 ^ 2) :: uint) < 2 ^ 14) = (0 \<le> (- 1 :: int))
   \<and> dataImage (snd (int_data_image_update ([4] @ [- 1]) initialize_translation_unit 0))
       = take (DC initialize_translation_unit) (dataImage initialize_translation_unit)
         @ map word_of_int [4] @ [word_of_int (- 1)]
   \<and> (unat (word_of_int (- 1) :: uint) < 2 ^ 14) = (0 \<le> (- 1 :: int) \<and> (- 1 :: int) < 2 ^ 14)
   \<and> print_encoded_base4_machine_word 4294967292
       = print_encoded_base4_machine_word (4294967292 AND 0x3FFF)"
proof -
  let ?imm = "\<lparr>integerVal = - 1, constantVal = None\<rparr>"
  have h1: "(is_null_or_empty (constantVal ?imm) \<and> - 1 = integerVal ?imm)
            \<or> (constantVal ?imm = Some [] \<and> [] \<noteq> ([] :: string)
                \<and> extract_constant [] (constantList initialize_translation_unit) = Some (- 1))"
    by (simp add: is_null_or_empty_def)
  have h2: "- 2048 \<le> (- 1 :: int)" by simp
  have h3: "(- 1 :: int) \<le> 2047" by simp
  have h4: "- (2 ^ 31) \<le> (- 1 :: int)" by simp
  have h5: "(- 1 :: int) < 2 ^ 31" by simp
  show ?thesis by (rule stored_words_are_32_bit [OF h1 h2 h3 h4 h5])
qed

text \<open>The claim as stated fails for the immediate value \<open>-1\<close>: the word appended to the
  code image is \<open>2^32 - 4\<close>.\<close>

theorem negative_immediate_counterexample:
  "codeImage (snd (encode_immediate_addressing \<lparr>integerVal = - 1, constantVal = None\<rparr>
                     initialize_translation_unit)) = [4294967292]
   \<and> \<not> unat (4294967292 :: uint) < 2 ^ 14"
  by (simp add: encode_immediate_addressing_def is_null_or_empty_def
        two_complement_validation_def insert_machine_word_def initialize_translation_unit_def)

subsection \<open>The program \<open>hlt\<close>\<close>



subsection \<open>The data element \<open>0\<close>\<close>

lemma extract_integer_zero:
  assumes "rest = [] \<or> hd rest = CHR '','' \<or> rest = [CHR 0x0A]"
  shows "extract_integer (CHR ''0'' # rest) = Some 0"
  using assms
  by (cases rest)
     (auto simp: extract_integer_def isspace_c_def nth_c_def isdigit_c_def Let_def int32_def
        digit_val_def NUL_def)

lemma data_extraction_zero:
  assumes "constant_lookup ''0'' (constantList tu) = None"
  shows "data_directive_value_extraction tu ''0\<newline>'' = Some 0"
  using assms
  by (simp add: data_directive_value_extraction_def safe_word_extraction_until_comma_def
        isspace_c_def extract_integer_zero Let_def)

lemma data_extraction_newline:
  assumes "constant_lookup [] (constantList tu) = None"
  shows "data_directive_value_extraction tu ''\<newline>'' = None"
  using assms
  by (simp add: data_directive_value_extraction_def safe_word_extraction_until_comma_def
        isspace_c_def extract_integer_def nth_c_def isdigit_c_def NUL_def Let_def)

lemma data_next_zero: "data_next ''0\<newline>'' = ''\<newline>''"
  by (simp add: data_next_def MOVE_TO_NON_WHITE_def MOVE_TO_NEXT_DATA_def nth_c_def
        isalnum_c_def isalpha_c_def islower_c_def isupper_c_def isdigit_c_def NUL_def)

lemma data_loop_zero:
  assumes "constant_lookup ''0'' (constantList tu) = None"
      and "constant_lookup [] (constantList tu) = None"
  shows "data_loop tu ''0\<newline>'' [] = Some (''\<newline>'', [0])"
  by (subst data_loop.simps, subst data_loop.simps)
     (simp add: data_extraction_zero [OF assms(1)] data_extraction_newline [OF assms(2)]
        data_next_zero del: data_loop.simps)

lemma data_line_descriptor:
  assumes "constant_lookup ''0'' (constantList tu) = None"
      and "constant_lookup [] (constantList tu) = None"
  shows "line_descriptor_builder ''.data 0\<newline>'' zero_line_descriptor tu macroTable =
           Some (zero_line_descriptor
                   \<lparr>lineError := None, lineLabelName := None, lineType := DIRECTIVE_INSTRUCTION,
                    dirType := DATA_INST, dataInst := [0]\<rparr>, tu)"
  by (simp add: line_descriptor_builder_def line_descriptor_initialization_def
        MOVE_TO_NON_WHITE_def is_line_empty_def is_comment_line_def nth_c_def NUL_def
        isspace_c_def extract_first_word_def is_define_def is_label_def isalpha_c_def
        islower_c_def isupper_c_def build_instruction_def is_directive_def DirectiveCommands_def
        is_data_def MOVE_TO_NEXT_WORD_def data_directive_handling_def
        data_loop_zero [OF assms] zero_line_descriptor_def Let_def del: data_loop.simps)


lemma data_extraction_zero_comma:
  assumes "constant_lookup ''0'' (constantList tu) = None"
  shows "data_directive_value_extraction tu (CHR ''0'' # CHR '','' # tl0) = Some 0"
  using assms
  by (simp add: data_directive_value_extraction_def safe_word_extraction_until_comma_def
        isspace_c_def extract_integer_zero Let_def)

lemma data_next_zero_comma: "data_next (CHR ''0'' # CHR '','' # tl0) = tl0"
  by (simp add: data_next_def MOVE_TO_NON_WHITE_def MOVE_TO_NEXT_DATA_def nth_c_def
        isalnum_c_def isalpha_c_def islower_c_def isupper_c_def isdigit_c_def NUL_def)

lemma data_loop_zero_comma:
  assumes "constant_lookup ''0'' (constantList tu) = None"
  shows "data_loop tu (CHR ''0'' # CHR '','' # tl0) dat = data_loop tu tl0 (dat @ [0])"
  by (subst data_loop.simps)
     (simp add: data_extraction_zero_comma [OF assms] data_next_zero_comma del: data_loop.simps)

lemma data_loop_zero_last:
  assumes "constant_lookup ''0'' (constantList tu) = None"
      and "constant_lookup [] (constantList tu) = None"
  shows "data_loop tu ''0\<newline>'' dat = Some (''\<newline>'', dat @ [0])"
  by (subst data_loop.simps, subst data_loop.simps)
     (simp add: data_extraction_zero [OF assms(1)] data_extraction_newline [OF assms(2)]
        data_next_zero del: data_loop.simps)

lemma is_decimal_integer_zero: "is_decimal_integer (CHR ''0'' # rest) = False"
  by (simp add: is_decimal_integer_def isspace_c_def nth_c_def Let_def)

lemma define_zero_descriptor:
  "\<exists>ld. line_descriptor_builder ''.define k = 0\<newline>'' zero_line_descriptor tu macroTable
          = Some (ld, tu) \<and> \<not> is_null_or_empty (lineError ld)"
  by (simp add: line_descriptor_builder_def line_descriptor_initialization_def
        MOVE_TO_NON_WHITE_def is_line_empty_def is_comment_line_def nth_c_def NUL_def
        isspace_c_def extract_first_word_def is_define_def constant_definition_handling_def
        MOVE_TO_NEXT_WORD_def extract_first_alphanumeric_word_def isalnum_c_def isalpha_c_def
        islower_c_def isupper_c_def isdigit_c_def is_valid_constant_definition_def
        name_loop_fails_def is_valid_symbol_def get_register_def get_opcode_def
        get_directive_def is_reserved_word_def ReservedWords_def
        handle_isValidSymbol_error_def insert_error_def MOVE_TO_NEXT_NON_ALNUM_def
        is_decimal_integer_zero zero_line_descriptor_def CONST_DEF_ERR_def Let_def
        is_null_or_empty_def)


text \<open>
  Claim C9, as amended. The \<open>.data\<close> element validator accepts the bare literal \<open>0\<close>:
  \<open>extract_integer\<close> returns the value 0 for a \<open>0\<close> that ends the string or stands before
  a comma or the final newline. In the loop of \<open>data_directive_handling\<close>, in a unit whose
  constants list holds no constant of the name \<open>0\<close> or of the empty name, a round that
  stands at a \<open>0\<close> before a comma appends the value 0 to the values collected and goes on
  after the comma, and a round that stands at a final \<open>0\<close> appends the value 0 and ends
  the loop at the newline. On the line \<open>.data 0\<close> one round of the first pass leaves the
  error flag as it was and appends the value 0 to the data image. A bare \<open>0\<close> is rejected
  as the value of a \<open>.define\<close>: \<open>is_decimal_integer\<close> is false for it, and one round of
  the first pass on the line \<open>.define k = 0\<close> sets the error flag and leaves the
  translation unit as it was.
\<close>

theorem data_zero_accepted:
  assumes "rest = [] \<or> hd rest = CHR '','' \<or> rest = [CHR 0x0A]"
      and "constant_lookup ''0'' (constantList (fp_tu st)) = None"
      and "constant_lookup [] (constantList (fp_tu st)) = None"
  shows "extract_integer (CHR ''0'' # rest) = Some 0
         \<and> data_loop (fp_tu st) (CHR ''0'' # CHR '','' # tl0) dat
             = data_loop (fp_tu st) tl0 (dat @ [0])
         \<and> data_loop (fp_tu st) ''0\<newline>'' dat = Some (''\<newline>'', dat @ [0])
         \<and> (\<exists>st'. first_pass_step macroTable ''.data 0\<newline>'' st = Some st'
                \<and> fp_errorFlag st' = fp_errorFlag st
                \<and> dataImage (fp_tu st') = take (DC (fp_tu st)) (dataImage (fp_tu st)) @ [0]
                \<and> DC (fp_tu st') = fp_dc st + 1)
         \<and> is_decimal_integer ''0'' = False
         \<and> (\<exists>st'. first_pass_step macroTable ''.define k = 0\<newline>'' st = Some st'
                \<and> fp_errorFlag st' = True
                \<and> fp_tu st' = fp_tu st)"
proof -
  have 1: "extract_integer (CHR ''0'' # rest) = Some 0"
    by (rule extract_integer_zero [OF assms(1)])
  have 2: "data_loop (fp_tu st) (CHR ''0'' # CHR '','' # tl0) dat
             = data_loop (fp_tu st) tl0 (dat @ [0])"
    by (rule data_loop_zero_comma [OF assms(2)])
  have 3: "data_loop (fp_tu st) ''0\<newline>'' dat = Some (''\<newline>'', dat @ [0])"
    by (rule data_loop_zero_last [OF assms(2,3)])
  have 4: "\<exists>st'. first_pass_step macroTable ''.data 0\<newline>'' st = Some st'
                \<and> fp_errorFlag st' = fp_errorFlag st
                \<and> dataImage (fp_tu st') = take (DC (fp_tu st)) (dataImage (fp_tu st)) @ [0]
                \<and> DC (fp_tu st') = fp_dc st + 1"
    by (simp add: first_pass_step_def data_line_descriptor [OF assms(2,3)] Let_def
          first_pass_line_def is_null_or_empty_def
          first_pass_instruction_def handle_data_image_def int_data_image_update_def fp_next_def)
  have 5: "is_decimal_integer ''0'' = False"
    by (rule is_decimal_integer_zero)
  obtain ld where ld: "line_descriptor_builder ''.define k = 0\<newline>'' zero_line_descriptor
                         (fp_tu st) macroTable = Some (ld, fp_tu st)"
    and n: "\<not> is_null_or_empty (lineError ld)"
    using define_zero_descriptor [of "fp_tu st" macroTable] by blast
  have 6: "\<exists>st'. first_pass_step macroTable ''.define k = 0\<newline>'' st = Some st'
                \<and> fp_errorFlag st' = True \<and> fp_tu st' = fp_tu st"
    using n by (simp add: first_pass_step_def ld Let_def first_pass_line_def fp_error_def)
  from 1 2 3 4 5 6 show ?thesis by (intro conjI)
qed


theorem data_zero_accepted_witness:
  "extract_integer (CHR ''0'' # '', 7\<newline>'') = Some 0
   \<and> data_loop (fp_tu (first_pass_init initialize_abstract_program initialize_translation_unit))
         (CHR ''0'' # CHR '','' # ''7\<newline>'') [5]
       = data_loop (fp_tu (first_pass_init initialize_abstract_program initialize_translation_unit))
           ''7\<newline>'' ([5] @ [0])
   \<and> data_loop (fp_tu (first_pass_init initialize_abstract_program initialize_translation_unit))
         ''0\<newline>'' [5]
       = Some (''\<newline>'', [5] @ [0])
   \<and> (\<exists>st'. first_pass_step [] ''.data 0\<newline>''
               (first_pass_init initialize_abstract_program initialize_translation_unit) = Some st'
          \<and> fp_errorFlag st'
              = fp_errorFlag (first_pass_init initialize_abstract_program initialize_translation_unit)
          \<and> dataImage (fp_tu st')
              = take (DC (fp_tu (first_pass_init initialize_abstract_program
                                   initialize_translation_unit)))
                  (dataImage (fp_tu (first_pass_init initialize_abstract_program
                                       initialize_translation_unit))) @ [0]
          \<and> DC (fp_tu st')
              = fp_dc (first_pass_init initialize_abstract_program initialize_translation_unit) + 1)
   \<and> is_decimal_integer ''0'' = False
   \<and> (\<exists>st'. first_pass_step [] ''.define k = 0\<newline>''
               (first_pass_init initialize_abstract_program initialize_translation_unit) = Some st'
          \<and> fp_errorFlag st' = True
          \<and> fp_tu st'
              = fp_tu (first_pass_init initialize_abstract_program initialize_translation_unit))"
proof -
  let ?st = "first_pass_init initialize_abstract_program initialize_translation_unit"
  have h1: "'', 7\<newline>'' = [] \<or> hd '', 7\<newline>'' = CHR '','' \<or> '', 7\<newline>'' = [CHR 0x0A]" by simp
  have h2: "constant_lookup ''0'' (constantList (fp_tu ?st)) = None"
    by (simp add: first_pass_init_def initialize_translation_unit_def)
  have h3: "constant_lookup [] (constantList (fp_tu ?st)) = None"
    by (simp add: first_pass_init_def initialize_translation_unit_def)
  show ?thesis by (rule data_zero_accepted [OF h1 h2 h3])
qed

text \<open>The claim as stated fails on the one-line program \<open>.data 0\<close>: no error is reported,
  the object file is written and its data image holds the word 0. It fails on
  \<open>.data 5, 0, 7\<close> too, where the second word of the data image is 0.\<close>

theorem data_zero_counterexample:
  "process_file [] [] ''.data 0\<newline>'' =
     Some \<lparr>ob_file = Some ''  0 1\<newline>0100 *******\<newline>'', ent_file = None, ext_file = None\<rparr>
   \<and> process_file [] [] ''.data 5, 0, 7\<newline>'' =
     Some \<lparr>ob_file = Some ''  0 3\<newline>0100 *****##\<newline>0101 *******\<newline>0102 *****#!\<newline>'',
           ent_file = None, ext_file = None\<rparr>"
  by code_simp

subsection \<open>Order of the entry and extern files\<close>

lemma ext_ordered_insert_machine_word:
  "ext_ordered tu \<Longrightarrow> ext_ordered (insert_machine_word tu w)"
  by (auto simp: ext_ordered_def insert_machine_word_def list_all_iff)

lemma ext_ordered_updateExternTable:
  "ext_ordered tu \<Longrightarrow> ext_ordered (updateExternTable tu n)"
  by (auto simp: ext_ordered_def updateExternTable_def list_all_iff sorted_append)

lemma ext_ordered_find_label_addressing:
  "ext_ordered tu \<Longrightarrow> ext_ordered (snd (find_label_addressing n tu))"
  by (simp add: find_label_addressing_def ext_ordered_updateExternTable split: option.splits)

lemma ext_ordered_encode_immediate_addressing:
  "ext_ordered tu \<Longrightarrow> ext_ordered (snd (encode_immediate_addressing imm tu))"
  by (simp add: encode_immediate_addressing_def ext_ordered_insert_machine_word
        split: option.splits)

lemma ext_ordered_encode_direct_addressing:
  "ext_ordered tu \<Longrightarrow> ext_ordered (snd (encode_direct_addressing n tu))"
  using ext_ordered_find_label_addressing [of tu n]
  by (cases "find_label_addressing n tu")
     (auto simp: encode_direct_addressing_def ext_ordered_insert_machine_word
        split: option.splits)

lemma ext_ordered_encode_fixed_index_addressing:
  "ext_ordered tu \<Longrightarrow> ext_ordered (snd (encode_fixed_index_addressing fx tu))"
  using ext_ordered_find_label_addressing [of tu "labelName fx"]
  by (cases "find_label_addressing (labelName fx) tu")
     (auto simp: encode_fixed_index_addressing_def ext_ordered_insert_machine_word Let_def
        split: option.splits)

lemma ext_ordered_process_operand_encoding:
  "ext_ordered tu \<Longrightarrow> ext_ordered (snd (process_operand_encoding ld tu a opType))"
  by (cases a)
     (simp_all add: ext_ordered_encode_immediate_addressing ext_ordered_encode_direct_addressing
        ext_ordered_encode_fixed_index_addressing encode_direct_register_addressing_def
        ext_ordered_insert_machine_word)

lemma ext_ordered_second_pass_line:
  assumes "ext_ordered tu"
  shows "ext_ordered (snd (second_pass_line ld tu))"
proof -
  let ?tu1 = "firs_machine_word_encoding (commandInst ld) tu"
  have 1: "ext_ordered ?tu1"
    using assms by (simp add: firs_machine_word_encoding_def Let_def ext_ordered_insert_machine_word)
  let ?r2 = "process_operand_encoding ld ?tu1 (sourceOperandAddressingType (commandInst ld))
               SOURCE_OPERAND"
  have 2: "ext_ordered (snd ?r2)" using 1 by (rule ext_ordered_process_operand_encoding)
  have 3: "ext_ordered (snd (process_operand_encoding ld (snd ?r2)
             (targetOperandAddressingType (commandInst ld)) TARGET_OPERAND))"
    using 2 by (rule ext_ordered_process_operand_encoding)
  have 4: "ext_ordered (double_direct_register_encoding (commandInst ld) ?tu1)"
    using 1 by (simp add: double_direct_register_encoding_def ext_ordered_insert_machine_word)
  show ?thesis
    using assms 3 4 by (simp add: second_pass_line_def Let_def split_beta)
qed

lemma ext_ordered_second_pass_loop:
  "ext_ordered tu \<Longrightarrow> ext_ordered (snd (second_pass_loop lds e tu))"
proof (induction lds arbitrary: e tu)
  case Nil
  then show ?case by simp
next
  case (Cons ld lds)
  from ext_ordered_second_pass_line [OF Cons.prems, of ld] Cons.IH show ?case
    by (simp add: split_beta)
qed

lemma ext_ordered_second_pass:
  "ext_ordered tu \<Longrightarrow> ext_ordered (snd (second_pass prog tu))"
  using ext_ordered_second_pass_loop [of tu "take (progSize prog) (lines prog)" False]
  by (simp add: second_pass_def split_beta)


lemma entryList_insert_machine_word [simp]:
  "entryList (insert_machine_word tu w) = entryList tu"
  by (simp add: insert_machine_word_def)

lemma entryList_find_label_addressing [simp]:
  "entryList (snd (find_label_addressing n tu)) = entryList tu"
  by (simp add: find_label_addressing_def updateExternTable_def split: option.splits)

lemma entryList_process_operand_encoding [simp]:
  "entryList (snd (process_operand_encoding ld tu a opType)) = entryList tu"
proof (cases a)
  case DIRECT_ADDR
  then show ?thesis
    using entryList_find_label_addressing
            [of "addressingLabel (operand_of (commandInst ld) opType)" tu]
    by (cases "find_label_addressing (addressingLabel (operand_of (commandInst ld) opType)) tu")
       (auto simp: encode_direct_addressing_def split: option.splits)
next
  case FIXED_IDX_ADDR
  then show ?thesis
    using entryList_find_label_addressing
            [of "labelName (fixedIndexOperand (operand_of (commandInst ld) opType))" tu]
    by (cases "find_label_addressing
                 (labelName (fixedIndexOperand (operand_of (commandInst ld) opType))) tu")
       (auto simp: encode_fixed_index_addressing_def Let_def split: option.splits)
qed (simp_all add: encode_immediate_addressing_def encode_direct_register_addressing_def
       split: option.splits)

lemma entryList_second_pass_line [simp]:
  "entryList (snd (second_pass_line ld tu)) = entryList tu"
  by (simp add: second_pass_line_def Let_def split_beta firs_machine_word_encoding_def
        double_direct_register_encoding_def)

lemma entryList_second_pass_loop [simp]:
  "entryList (snd (second_pass_loop lds e tu)) = entryList tu"
  by (induction lds arbitrary: e tu) (simp_all add: split_beta)

lemma entryList_second_pass [simp]: "entryList (snd (second_pass prog tu)) = entryList tu"
  by (simp add: second_pass_def split_beta)

lemma sorted_qsort_by_all: "sorted (map k (qsort_by k (length xs) xs))"
  by (simp add: qsort_by_def)

lemma sorted_short: "length xs \<le> 1 \<Longrightarrow> sorted (map k xs)"
  by (cases xs) auto

lemma sorted_process_symbol_table:
  "sorted (map address (entryList (snd (process_symbol_table tu ic))))"
  by (auto simp: process_symbol_table_def Let_def sort_entries_def sorted_qsort_by_all
        sorted_short split: prod.splits)

lemma externalsList_process_symbol_table [simp]:
  "externalsList (snd (process_symbol_table tu ic)) = externalsList tu"
  by (auto simp: process_symbol_table_def Let_def sort_entries_def split: prod.splits)

lemma externalsList_constant_definition_handling:
  "externalsList (snd (constant_definition_handling l ld tu mt)) = externalsList tu"
  by (simp add: constant_definition_handling_def Let_def insert_constant_to_list_def split_beta
        split: bool.splits)

lemma externalsList_line_descriptor_builder:
  assumes "line_descriptor_builder l c tu mt = Some (ld, tu')"
  shows "externalsList tu' = externalsList tu"
proof -
  have "tu' = tu \<or> tu' = snd (constant_definition_handling (MOVE_TO_NON_WHITE l)
                              (line_descriptor_initialization c) tu mt)"
    using assms
    by (auto simp: line_descriptor_builder_def Let_def split_beta split: if_splits bool.splits)
  then show ?thesis using externalsList_constant_definition_handling by auto
qed

lemma externalsList_insert_symbol_to_table [simp]:
  "externalsList (insert_symbol_to_table ld tu ic dc t) = externalsList tu"
  by (simp add: insert_symbol_to_table_def)

lemma externalsList_handle_label [simp]:
  "externalsList (snd (handle_label ld tu ic dc)) = externalsList tu"
  by (simp add: handle_label_def Let_def split: option.splits)

lemma externalsList_handle_data_image [simp]:
  "externalsList (snd (handle_data_image ld tu dc)) = externalsList tu"
  by (simp add: handle_data_image_def int_data_image_update_def string_data_image_update_def
        Let_def)

lemma externalsList_first_pass_entry_extern [simp]:
  "externalsList (fp_tu (first_pass_entry_extern ld st)) = externalsList (fp_tu st)"
  by (simp add: first_pass_entry_extern_def fp_next_def fp_error_def split: option.splits)

lemma externalsList_first_pass_instruction [simp]:
  "externalsList (fp_tu (first_pass_instruction ld st)) = externalsList (fp_tu st)"
  by (simp add: first_pass_instruction_def fp_next_def fp_error_def Let_def split_beta
        split: option.splits)

lemma externalsList_first_pass_line [simp]:
  "externalsList (fp_tu (first_pass_line ld st)) = externalsList (fp_tu st)"
proof -
  obtain e tu' where h: "handle_label ld (fp_tu st) (fp_ic st) (fp_dc st) = (e, tu')"
    by (cases "handle_label ld (fp_tu st) (fp_ic st) (fp_dc st)")
  have "externalsList tu' = externalsList (fp_tu st)"
    using externalsList_handle_label [of ld "fp_tu st" "fp_ic st" "fp_dc st"] h by simp
  then show ?thesis
    using h by (cases e) (simp_all add: first_pass_line_def fp_next_def fp_error_def)
qed

lemma externalsList_first_pass_step:
  assumes "first_pass_step mt l st = Some st'"
  shows "externalsList (fp_tu st') = externalsList (fp_tu st)"
proof -
  from assms obtain ld tu1 prog1 where
    b: "line_descriptor_builder l zero_line_descriptor (fp_tu st) mt = Some (ld, tu1)"
    and s: "st' = first_pass_line ld (st\<lparr>fp_prog := prog1, fp_tu := tu1\<rparr>)"
    by (auto simp: first_pass_step_def Let_def split: option.splits)
  from externalsList_line_descriptor_builder [OF b] s show ?thesis by simp
qed

lemma externalsList_first_pass_loop:
  "first_pass_loop mt ls st = Some st' \<Longrightarrow> externalsList (fp_tu st') = externalsList (fp_tu st)"
proof (induction ls arbitrary: st)
  case Nil
  then show ?case by simp
next
  case (Cons l ls)
  then obtain st1 where a: "first_pass_step mt l st = Some st1"
    and b: "first_pass_loop mt ls st1 = Some st'"
    by (auto split: option.splits)
  from externalsList_first_pass_step [OF a] Cons.IH [OF b] show ?case by simp
qed

lemma first_pass_result:
  assumes "first_pass prog0 tu0 mt ls = Some (ok, prog, tu)"
  shows "externalsList tu = externalsList tu0 \<and> sorted (map address (entryList tu))"
proof -
  from assms obtain st where
    l: "first_pass_loop mt ls (first_pass_init prog0 tu0) = Some st"
    and f: "first_pass_finish st = (ok, prog, tu)"
    by (auto simp: first_pass_def)
  let ?tu1 = "if IC (fp_tu st) > 0 then (fp_tu st)\<lparr>IC := IC (fp_tu st) - 1\<rparr> else fp_tu st"
  from f have t: "tu = snd (process_symbol_table ?tu1 (fp_ic st))"
    by (auto simp: first_pass_finish_def Let_def split: prod.splits)
  have "externalsList ?tu1 = externalsList tu0"
    using externalsList_first_pass_loop [OF l] by (simp add: first_pass_init_def)
  then show ?thesis
    unfolding t using sorted_process_symbol_table [of ?tu1 "fp_ic st"] by simp
qed

lemma ext_ordered_empty: "externalsList tu = [] \<Longrightarrow> ext_ordered tu"
  by (simp add: ext_ordered_def)

lemma sorted_ext_list_written:
  "sorted (map addresses xs) \<Longrightarrow> sorted (map addresses (ext_list_written xs))"
  by (simp add: ext_list_written_def sortExternals_def qsort_by_def)

text \<open>
  Claim C8. Whenever the assembler writes output files for the text of an \<open>.am\<close> file, the
  lines of the \<open>.ent\<close> file, if it is written, are the lines of a list of entries whose
  addresses are in non-decreasing order, and the lines of the \<open>.ext\<close> file, if it is
  written, are the lines of a list of extern uses, one line for each, whose addresses are in
  non-decreasing order. (A line of the \<open>.ext\<close> file shows the address of the record plus 100.)
\<close>

theorem entry_and_extern_files_ordered:
  assumes "assemble_am macroTable amFile = Some files"
  shows "(case ent_file files of None \<Rightarrow> True
          | Some ls \<Rightarrow> \<exists>ents. ls = map ent_line ents \<and> sorted (map address ents))
       \<and> (case ext_file files of None \<Rightarrow> True
          | Some ls \<Rightarrow> \<exists>exts. ls = map ext_line exts \<and> sorted (map addresses exts))"
proof -
  from assms obtain ok prog tu where
    fp: "first_pass initialize_abstract_program initialize_translation_unit macroTable
           (fgets_all (MAX_LINE_LENGTH + 1) amFile) = Some (ok, prog, tu)"
    by (auto simp: assemble_am_def simp del: fgets_all.simps split: option.splits)
  show ?thesis
  proof (cases "ok \<and> fst (second_pass prog tu)")
    case False
    with assms fp have "files = no_files"
      by (auto simp: assemble_am_def simp del: fgets_all.simps split: prod.splits if_splits)
    then show ?thesis by (simp add: no_files_def)
  next
    case True
    let ?tu2 = "snd (second_pass prog tu)"
    from True assms fp have files: "files = generate_files ?tu2"
      by (auto simp: assemble_am_def simp del: fgets_all.simps split: prod.splits if_splits)
    from first_pass_result [OF fp] have e0: "externalsList tu = []"
      and s0: "sorted (map address (entryList tu))"
      by (simp_all add: initialize_translation_unit_def)
    have ents: "sorted (map address (entryList ?tu2))" using s0 by simp
    have "ext_ordered ?tu2"
      using ext_ordered_second_pass [OF ext_ordered_empty [OF e0]] .
    then have "sorted (map addresses (externalsList ?tu2))" by (simp add: ext_ordered_def)
    then have exts: "sorted (map addresses (ext_list_written (externalsList ?tu2)))"
      by (rule sorted_ext_list_written)
    show ?thesis
      unfolding files using ents exts
      by (auto simp: generate_files_def generate_ent_file_def generate_ext_file_def)
  qed
qed


theorem entry_and_extern_files_ordered_witness:
  "assemble_am []
     ''.extern X\<newline>.entry M\<newline>L: mov X, r1\<newline>M: jmp X\<newline>.entry L\<newline>hlt\<newline>\<newline>''
   = Some \<lparr>ob_file = Some ''  6 0\<newline>0100 ****#!*\<newline>0101 ******#\<newline>0102 *****#*\<newline>0103 **%#*#*\<newline>0104 ******#\<newline>0105 **!!***\<newline>'',
            ent_file = Some [''L'' @ [CHR 0x09] @ ''0100\<newline>'', ''M'' @ [CHR 0x09] @ ''0103\<newline>''],
            ext_file = Some [''X'' @ [CHR 0x09] @ ''0101\<newline>'', ''X'' @ [CHR 0x09] @ ''0104\<newline>'']\<rparr>
   \<and> (\<exists>ents. [''L'' @ [CHR 0x09] @ ''0100\<newline>'', ''M'' @ [CHR 0x09] @ ''0103\<newline>'']
                = map ent_line ents \<and> sorted (map address ents))
   \<and> (\<exists>exts. [''X'' @ [CHR 0x09] @ ''0101\<newline>'', ''X'' @ [CHR 0x09] @ ''0104\<newline>'']
                = map ext_line exts \<and> sorted (map addresses exts))"
proof -
  have h: "assemble_am []
     ''.extern X\<newline>.entry M\<newline>L: mov X, r1\<newline>M: jmp X\<newline>.entry L\<newline>hlt\<newline>\<newline>''
   = Some \<lparr>ob_file = Some ''  6 0\<newline>0100 ****#!*\<newline>0101 ******#\<newline>0102 *****#*\<newline>0103 **%#*#*\<newline>0104 ******#\<newline>0105 **!!***\<newline>'',
            ent_file = Some [''L'' @ [CHR 0x09] @ ''0100\<newline>'', ''M'' @ [CHR 0x09] @ ''0103\<newline>''],
            ext_file = Some [''X'' @ [CHR 0x09] @ ''0101\<newline>'', ''X'' @ [CHR 0x09] @ ''0104\<newline>'']\<rparr>"
    by code_simp
  from entry_and_extern_files_ordered [OF h] h show ?thesis by simp
qed

subsection \<open>ARE discipline\<close>

lemma extern_uses_append:
  "extern_uses syms ic (xs @ ys) = extern_uses syms ic xs @ extern_uses syms (ic + length xs) ys"
  by (induction syms ic xs rule: extern_uses.induct) simp_all

lemma appended_trans:
  assumes "appended tu r1 w1 tu1" and "appended tu1 r2 w2 tu2"
  shows "appended tu (r1 @ r2) (w1 @ w2) tu2"
proof -
  from assms(1) have l: "length r1 = length w1"
    by (auto simp: appended_def dest: list_all2_lengthD)
  from assms l show ?thesis
    by (simp add: appended_def extern_uses_append list_all2_appendI)
qed

lemma appended_nil: "IC tu = length (codeImage tu) \<Longrightarrow> appended tu [] [] tu"
  by (simp add: appended_def)

lemma appended_IC: "appended tu r w tu' \<Longrightarrow> IC tu' = length (codeImage tu')"
  by (simp add: appended_def)

lemma appended_insert_machine_word:
  assumes "IC tu = length (codeImage tu)" and "w AND 3 = 0"
  shows "appended tu [None] [w] (insert_machine_word tu w)"
  using assms by (simp add: appended_def insert_machine_word_def word_of_ref_def)

lemma three_mask: "(3 :: uint) = mask 2"
  by (simp add: mask_eq_exp_minus_1)

lemma low2_push_bit_ge: "2 \<le> k \<Longrightarrow> push_bit k (a :: uint) AND 3 = 0"
  unfolding three_mask by (rule bit_eqI) (auto simp: bit_simps)

lemma low2_push_bit: "push_bit 2 (a :: uint) AND 3 = 0"
  by (simp add: low2_push_bit_ge)

lemma low2_push_bit4: "push_bit 4 (a :: uint) AND 3 = 0"
  by (simp add: low2_push_bit_ge)

lemma low2_word_of_int_mult:
  assumes "2 \<le> k"
  shows "(word_of_int (x * 2 ^ k) :: uint) AND 3 = 0"
proof -
  have "(word_of_int (x * 2 ^ k) :: uint) = push_bit k (word_of_int x)"
    by (simp add: push_bit_eq_mult)
  then show ?thesis using assms by (simp only: low2_push_bit_ge)
qed

lemma low2_or: "((a :: uint) OR b) AND 3 = (a AND 3) OR (b AND 3)"
  by (simp add: bit.conj_disj_distrib2)

lemma low2_zero: "(0 :: uint) AND 3 = 0"
  by simp

lemma zero_or_zero: "(0 :: uint) OR 0 = 0"
  by simp

lemma low2_mult6: "(word_of_int (x * 2 ^ 6) :: uint) AND 3 = 0"
  by (rule low2_word_of_int_mult) simp

lemma low2_mult5: "(word_of_int (x * 2 ^ 5) :: uint) AND 3 = 0"
  by (rule low2_word_of_int_mult) simp

lemma low2_mult2: "(word_of_int (x * 2 ^ 2) :: uint) AND 3 = 0"
  by (rule low2_word_of_int_mult) simp

lemmas low2 = low2_or low2_zero zero_or_zero low2_push_bit low2_push_bit4 low2_mult6 low2_mult5
  low2_mult2

lemma appended_firs_machine_word_encoding:
  assumes "IC tu = length (codeImage tu)"
  shows "\<exists>w. appended tu [None] [w] (firs_machine_word_encoding cmd tu)"
  unfolding firs_machine_word_encoding_def Let_def
  by (rule exI, rule appended_insert_machine_word [OF assms]) (simp only: low2)

lemma appended_double_direct_register_encoding:
  assumes "IC tu = length (codeImage tu)"
  shows "\<exists>w. appended tu [None] [w] (double_direct_register_encoding cmd tu)"
  unfolding double_direct_register_encoding_def
  by (rule exI, rule appended_insert_machine_word [OF assms]) (simp only: low2)

lemma appended_encode_immediate_addressing:
  assumes "IC tu = length (codeImage tu)"
    and "encode_immediate_addressing imm tu = (False, tu')"
  shows "\<exists>w. appended tu [None] [w] tu'"
proof -
  from assms(2) obtain v where
    "tu' = insert_machine_word tu ((0 :: uint) OR word_of_int (v * 2 ^ 2))"
    unfolding encode_immediate_addressing_def
    by (auto split: option.splits if_splits simp del: or.left_neutral)
  moreover have "((0 :: uint) OR word_of_int (v * 2 ^ 2)) AND 3 = 0"
    by (simp only: low2)
  ultimately show ?thesis
    using appended_insert_machine_word [OF assms(1)] by blast
qed

lemma appended_encode_direct_register_addressing:
  assumes "IC tu = length (codeImage tu)"
  shows "\<exists>w. appended tu [None] [w] (encode_direct_register_addressing r tu opType)"
  unfolding encode_direct_register_addressing_def
  by (rule exI, rule appended_insert_machine_word [OF assms])
     (cases "opType = SOURCE_OPERAND"; simp only: low2 if_True if_False refl)

text \<open>The label word: the extern-use record and the word go to the same cell.\<close>

lemma appended_label_word:
  assumes ic: "IC tu = length (codeImage tu)"
    and f: "find_label_addressing lName tu = (Some (labelAddress, theARE), tu1)"
  shows "appended tu [Some lName]
           [(0 :: uint) OR (push_bit 2 labelAddress OR (are_val theARE AND 3))]
           (insert_machine_word tu1
              ((0 :: uint) OR (push_bit 2 labelAddress OR (are_val theARE AND 3))))"
proof -
  from f obtain s where s: "find_symbol lName (symbolTable tu) = Some s"
    by (auto simp: find_label_addressing_def split: option.splits)
  show ?thesis
  proof (cases "symbolType s = EXTERN_LABEL")
    case True
    with f s have "labelAddress = 0" "theARE = EXTERNAL" "tu1 = updateExternTable tu lName"
      by (auto simp: find_label_addressing_def)
    with ic s True show ?thesis
      by (simp add: appended_def insert_machine_word_def updateExternTable_def word_of_ref_def
            names_extern_def)
  next
    case False
    with f s have "theARE = RELOCATABLE" "tu1 = tu"
      by (auto simp: find_label_addressing_def)
    moreover have "((0 :: uint) OR (push_bit 2 labelAddress OR (2 AND 3))) AND 3 = 2"
      by (simp only: low2_or low2_push_bit) simp
    ultimately show ?thesis
      using ic s False
      by (simp add: appended_def insert_machine_word_def word_of_ref_def names_extern_def)
  qed
qed

lemma appended_encode_direct_addressing:
  assumes "IC tu = length (codeImage tu)"
    and "encode_direct_addressing lName tu = (False, tu')"
  shows "\<exists>w. appended tu [Some lName] [w] tu'"
proof -
  from assms(2) obtain a r tu1 where
    f: "find_label_addressing lName tu = (Some (a, r), tu1)"
    and t: "tu' = insert_machine_word tu1 ((0 :: uint) OR (push_bit 2 a OR (are_val r AND 3)))"
    by (auto simp: encode_direct_addressing_def split: prod.splits option.splits)
  from appended_label_word [OF assms(1) f] t show ?thesis by blast
qed

lemma appended_encode_fixed_index_addressing:
  assumes "IC tu = length (codeImage tu)"
    and "encode_fixed_index_addressing fx tu = (False, tu')"
  shows "\<exists>w1 w2. appended tu [Some (labelName fx), None] [w1, w2] tu'"
proof -
  from assms(2) obtain a r tu1 i where
    f: "find_label_addressing (labelName fx) tu = (Some (a, r), tu1)"
    and t: "tu' = insert_machine_word
                    (insert_machine_word tu1 ((0 :: uint) OR (push_bit 2 a OR (are_val r AND 3))))
                    ((0 :: uint) OR (push_bit 2 i OR (are_val ABSOLUTE AND 3)))"
    by (auto simp: encode_fixed_index_addressing_def Let_def split: prod.splits option.splits)
  let ?tu2 = "insert_machine_word tu1 ((0 :: uint) OR (push_bit 2 a OR (are_val r AND 3)))"
  have 1: "appended tu [Some (labelName fx)]
             [(0 :: uint) OR (push_bit 2 a OR (are_val r AND 3))] ?tu2"
    by (rule appended_label_word [OF assms(1) f])
  have "((0 :: uint) OR (push_bit 2 i OR (are_val ABSOLUTE AND 3))) AND 3 = 0"
    by (simp only: low2_or low2_push_bit) simp
  from appended_insert_machine_word [OF appended_IC [OF 1] this]
  have 2: "appended ?tu2 [None] [(0 :: uint) OR (push_bit 2 i OR (are_val ABSOLUTE AND 3))] tu'"
    unfolding t .
  from appended_trans [OF 1 2] show ?thesis by auto
qed

lemma appended_process_operand_encoding:
  assumes "IC tu = length (codeImage tu)"
    and "process_operand_encoding ld tu t opType = (False, tu')"
  shows "\<exists>ws. appended tu (operand_refs t (operand_of (commandInst ld) opType)) ws tu'"
proof (cases t)
  case IMMEDIATE_ADDR
  with assms appended_encode_immediate_addressing show ?thesis by fastforce
next
  case DIRECT_ADDR
  with assms appended_encode_direct_addressing show ?thesis by fastforce
next
  case FIXED_IDX_ADDR
  with assms appended_encode_fixed_index_addressing show ?thesis by fastforce
next
  case DIRECT_REGISTER_ADDR
  with assms appended_encode_direct_register_addressing show ?thesis by fastforce
next
  case NONE_ADDR
  with assms appended_nil show ?thesis by fastforce
qed

lemma appended_second_pass_line:
  assumes ic: "IC tu = length (codeImage tu)"
    and l: "second_pass_line ld tu = (False, tu')"
  shows "\<exists>ws. appended tu (line_refs ld) ws tu'"
proof (cases "lineType ld = COMMAND_INSTRUCTION")
  case False
  with l have "tu' = tu" by (simp add: second_pass_line_def)
  with False appended_nil [OF ic] show ?thesis by (auto simp: line_refs_def)
next
  case True
  let ?cmd = "commandInst ld"
  let ?tu1 = "firs_machine_word_encoding ?cmd tu"
  obtain w0 where 0: "appended tu [None] [w0] ?tu1"
    using appended_firs_machine_word_encoding [OF ic] by blast
  note ic1 = appended_IC [OF 0]
  show ?thesis
  proof (cases "both_direct_register ld")
    case both: True
    with True l have t: "tu' = double_direct_register_encoding ?cmd ?tu1"
      by (simp add: second_pass_line_def Let_def both_direct_register_def)
    obtain w1 where "appended ?tu1 [None] [w1] tu'"
      unfolding t using appended_double_direct_register_encoding [OF ic1] by blast
    from appended_trans [OF 0 this] True both show ?thesis
      by (auto simp: line_refs_def)
  next
    case both: False
    obtain e1 tu2 where p1: "process_operand_encoding ld ?tu1
        (sourceOperandAddressingType ?cmd) SOURCE_OPERAND = (e1, tu2)"
      by (cases "process_operand_encoding ld ?tu1
        (sourceOperandAddressingType ?cmd) SOURCE_OPERAND")
    obtain e2 tu3 where p2: "process_operand_encoding ld tu2
        (targetOperandAddressingType ?cmd) TARGET_OPERAND = (e2, tu3)"
      by (cases "process_operand_encoding ld tu2
        (targetOperandAddressingType ?cmd) TARGET_OPERAND")
    from l True both p1 p2 have e: "\<not> e1" "\<not> e2" and t: "tu' = tu3"
      by (auto simp: second_pass_line_def Let_def both_direct_register_def)
    from p1 e have p1': "process_operand_encoding ld ?tu1
        (sourceOperandAddressingType ?cmd) SOURCE_OPERAND = (False, tu2)" by simp
    from p2 e have p2': "process_operand_encoding ld tu2
        (targetOperandAddressingType ?cmd) TARGET_OPERAND = (False, tu3)" by simp
    obtain ws1 where 1: "appended ?tu1
        (operand_refs (sourceOperandAddressingType ?cmd) (sourceOperand ?cmd)) ws1 tu2"
      using appended_process_operand_encoding [OF ic1 p1'] by (auto simp: operand_of_def)
    obtain ws2 where 2: "appended tu2
        (operand_refs (targetOperandAddressingType ?cmd) (targetOperand ?cmd)) ws2 tu3"
      using appended_process_operand_encoding [OF appended_IC [OF 1] p2']
      by (auto simp: operand_of_def)
    from appended_trans [OF appended_trans [OF 0 1] 2] True both t show ?thesis
      by (auto simp: line_refs_def)
  qed
qed

lemma second_pass_loop_error: "second_pass_loop lds True tu = (e, tu') \<Longrightarrow> e"
  by (induction lds arbitrary: tu) (auto split: prod.splits)

lemma appended_second_pass_loop:
  "IC tu = length (codeImage tu) \<Longrightarrow> second_pass_loop lds False tu = (False, tu')
     \<Longrightarrow> \<exists>ws. appended tu (concat (map line_refs lds)) ws tu'"
proof (induction lds arbitrary: tu)
  case Nil
  then show ?case using appended_nil by auto
next
  case (Cons ld lds)
  obtain e tu1 where l: "second_pass_line ld tu = (e, tu1)"
    by (cases "second_pass_line ld tu")
  with Cons.prems(2) have r: "second_pass_loop lds e tu1 = (False, tu')" by simp
  with second_pass_loop_error [of lds tu1 False tu'] have "\<not> e" by (cases e) auto
  with l r have l': "second_pass_line ld tu = (False, tu1)"
    and r': "second_pass_loop lds False tu1 = (False, tu')" by simp_all
  obtain ws1 where 1: "appended tu (line_refs ld) ws1 tu1"
    using appended_second_pass_line [OF Cons.prems(1) l'] by blast
  obtain ws2 where 2: "appended tu1 (concat (map line_refs lds)) ws2 tu'"
    using Cons.IH [OF appended_IC [OF 1] r'] by blast
  from appended_trans [OF 1 2] show ?case by auto
qed

text \<open>
  Claim C5. Let the second pass succeed on a program, from a translation unit whose \<open>IC\<close>
  is the number of words of its code image, as it is after the first pass. Then the code
  image is the old one followed by the words the second pass appended, one for each word
  of the commands among the lines it walks; a word that references no symbol has ARE 00;
  a word that references a symbol is the word 1 (ARE 01, address field 0) if the symbol
  has kind \<open>EXTERN_LABEL\<close> and has ARE 10 if it has not; and the extern-use records the
  second pass appended are, in order, one record for each word that references a symbol
  of kind \<open>EXTERN_LABEL\<close>, with the name of the symbol and the \<open>IC\<close> of that word.
\<close>

theorem are_discipline_second_pass:
  assumes "second_pass absProgram tu = (True, tu')"
    and "IC tu = length (codeImage tu)"
  shows "take (IC tu) (codeImage tu') = codeImage tu
       \<and> list_all2 (word_of_ref (symbolTable tu)) (program_refs absProgram)
            (drop (IC tu) (codeImage tu'))
       \<and> externalsList tu'
           = externalsList tu @ extern_uses (symbolTable tu) (IC tu) (program_refs absProgram)"
proof -
  from assms(1) have
    "second_pass_loop (take (progSize absProgram) (lines absProgram)) False tu = (False, tu')"
    by (auto simp: second_pass_def split: prod.splits)
  from appended_second_pass_loop [OF assms(2) this] obtain ws where
    "appended tu (program_refs absProgram) ws tu'"
    by (auto simp: program_refs_def)
  with assms(2) show ?thesis by (simp add: appended_def)
qed

theorem are_discipline_second_pass_witness:
  "second_pass (fst (snd extern_example)) (snd (snd extern_example))
     = (True, snd (second_pass (fst (snd extern_example)) (snd (snd extern_example))))
   \<and> IC (snd (snd extern_example)) = length (codeImage (snd (snd extern_example)))
   \<and> program_refs (fst (snd extern_example))
       = [None, Some ''X'', None, None, Some ''L'', None, Some ''X'', None, None, None]
   \<and> take (IC (snd (snd extern_example)))
         (codeImage (snd (second_pass (fst (snd extern_example)) (snd (snd extern_example)))))
       = codeImage (snd (snd extern_example))
   \<and> list_all2 (word_of_ref (symbolTable (snd (snd extern_example))))
         (program_refs (fst (snd extern_example)))
         (drop (IC (snd (snd extern_example)))
            (codeImage (snd (second_pass (fst (snd extern_example)) (snd (snd extern_example))))))
   \<and> externalsList (snd (second_pass (fst (snd extern_example)) (snd (snd extern_example))))
       = externalsList (snd (snd extern_example))
         @ extern_uses (symbolTable (snd (snd extern_example))) (IC (snd (snd extern_example)))
             (program_refs (fst (snd extern_example)))
   \<and> externalsList (snd (second_pass (fst (snd extern_example)) (snd (snd extern_example))))
       = [\<lparr>externalName = ''X'', addresses = 1\<rparr>, \<lparr>externalName = ''X'', addresses = 6\<rparr>]"
proof -
  let ?P = "fst (snd extern_example)"
  let ?T = "snd (snd extern_example)"
  have h1: "second_pass ?P ?T = (True, snd (second_pass ?P ?T))" by code_simp
  have h2: "IC ?T = length (codeImage ?T)" by code_simp
  have r: "program_refs ?P
             = [None, Some ''X'', None, None, Some ''L'', None, Some ''X'', None, None, None]"
    by code_simp
  have e: "externalsList (snd (second_pass ?P ?T))
             = [\<lparr>externalName = ''X'', addresses = 1\<rparr>, \<lparr>externalName = ''X'', addresses = 6\<rparr>]"
    by code_simp
  from are_discipline_second_pass [OF h1 h2] h1 h2 r e show ?thesis by (intro conjI) simp_all
qed

end
